theory Spec2Isabelle
  imports Complex_Main "HOL-Library.Word"
begin

section \<open>The Oculus VR driver core (PsychOculusVR.c)\<close>

text \<open>
  The driver keeps a table of \<open>MAX_PSYCH_OCULUS_DEVS\<close> device records and three
  counters in file-level variables, and forwards every request to the vendor SDK
  (\<open>OVR_CAPI.h\<close>, version 0.5). The SDK is not part of the driver: here it is a record
  of functions, each a function of the calls made so far, so that any deterministic
  SDK can be plugged in. The driver state carries the list of SDK calls it has made.

  C \<open>float\<close> and \<open>double\<close> values are read as the real numbers they denote; the
  conversion from \<open>float\<close> to \<open>double\<close> and the multiplication by \<open>-1.0\<close> are
  exact, the rounding of \<open>double\<close> to \<open>float\<close> is not modelled.
  Console output is not modelled.
\<close>

subsection \<open>SDK data types, as far as the driver reads them\<close>

type_synonym ovrHmd = nat

abbreviation (input) NULL :: nat where
  "NULL \<equiv> 0"

datatype ovrEyeType = ovrEye_Left | ovrEye_Right

datatype ovrTrackingCaps =
  ovrTrackingCap_Orientation | ovrTrackingCap_MagYawCorrection | ovrTrackingCap_Position

record ovrSizei =
  size_w :: int
  size_h :: int

record ovrVector2i =
  pos_x :: int
  pos_y :: int

record ovrRecti =
  Pos :: ovrVector2i
  Size :: ovrSizei

record ovrVector2f =
  x2 :: real
  y2 :: real

record ovrVector3f =
  x3 :: real
  y3 :: real
  z3 :: real

record ovrQuatf =
  qx :: real
  qy :: real
  qz :: real
  qw :: real

record ovrPosef =
  Orientation :: ovrQuatf
  Position :: ovrVector3f

record ovrPoseStatef =
  ThePose :: ovrPosef
  AngularVelocity :: ovrVector3f
  LinearVelocity :: ovrVector3f
  AngularAcceleration :: ovrVector3f
  LinearAcceleration :: ovrVector3f
  TimeInSeconds :: real

record ovrTrackingState =
  HeadPose :: ovrPoseStatef

record ovrFovPort =
  UpTan :: real
  DownTan :: real
  LeftTan :: real
  RightTan :: real

record ovrEyeRenderDesc =
  Eye :: ovrEyeType
  Fov :: ovrFovPort
  DistortedViewport :: ovrRecti
  PixelsPerTanAngleAtCenter :: ovrVector2f
  HmdToEyeViewOffset :: ovrVector3f

record ovrDistortionVertex =
  ScreenPosNDC :: ovrVector2f
  TimeWarpFactor :: real
  VignetteFactor :: real
  TanEyeAnglesR :: ovrVector2f
  TanEyeAnglesG :: ovrVector2f
  TanEyeAnglesB :: ovrVector2f

text \<open>A mesh descriptor holds two pointers into SDK-owned memory and two counts.\<close>

record ovrDistortionMesh =
  pVertexData :: nat
  pIndexData :: nat
  VertexCount :: nat
  IndexCount :: nat

text \<open>\<open>M[4][4]\<close>: a list of four rows of four floats.\<close>

type_synonym ovrMatrix4f = "real list list"

subsection \<open>The device record and the file-level variables\<close>

definition MAX_PSYCH_OCULUS_DEVS :: nat where
  "MAX_PSYCH_OCULUS_DEVS = 10"

definition verbosity :: nat where
  "verbosity = 3"

text \<open>
  The arrays inside a record (two eyes) and the device table are functions of the
  index; the code only indexes them after its range checks.
\<close>

record PsychOculusDevice =
  hmd :: ovrHmd
  isTracking :: bool
  texSize :: ovrSizei
  eyeRenderDesc :: "nat \<Rightarrow> ovrEyeRenderDesc"
  eyeDistortionMesh :: "nat \<Rightarrow> ovrDistortionMesh"
  UVScaleOffset :: "nat \<Rightarrow> nat \<Rightarrow> ovrVector2f"
  timeWarpMatrices :: "nat \<Rightarrow> ovrMatrix4f"
  headPose :: "nat \<Rightarrow> ovrPosef"

text \<open>The calls the driver makes into the SDK, with the values that identify a resource.\<close>

datatype sdk_call =
    Call_ovr_Initialize
  | Call_ovr_Shutdown
  | Call_ovrHmd_Detect
  | Call_ovrHmd_Create int
  | Call_ovrHmd_CreateDebug
  | Call_ovrHmd_Destroy ovrHmd
  | Call_ovrHmd_ConfigureTracking ovrHmd "ovrTrackingCaps list" "ovrTrackingCaps list"
  | Call_ovrHmd_GetTrackingState ovrHmd real
  | Call_ovrHmd_GetFovTextureSize ovrHmd ovrEyeType ovrFovPort real
  | Call_ovrHmd_GetRenderDesc ovrHmd ovrEyeType ovrFovPort
  | Call_ovrHmd_CreateDistortionMesh ovrHmd ovrEyeType ovrFovPort nat ovrDistortionMesh
  | Call_ovrHmd_DestroyDistortionMesh ovrDistortionMesh
  | Call_ovrHmd_GetRenderScaleAndOffset ovrFovPort ovrSizei ovrRecti
  | Call_ovrHmd_GetHmdPosePerEye ovrHmd ovrEyeType
  | Call_ovrHmd_GetEyeTimewarpMatrices ovrHmd ovrEyeType ovrPosef

record driver =
  oculusdevices :: "nat \<Rightarrow> PsychOculusDevice"
  available_devices :: int
  devicecount :: "32 word"
  initialized :: bool
  sdk_calls :: "sdk_call list"

text \<open>
  What \<open>ovrHmd_CreateDistortionMesh\<close> hands back: its return value, the descriptor it
  writes, and the contents of the two buffers the descriptor points to.
\<close>

record mesh_result =
  mesh_ok :: bool
  mesh_desc :: ovrDistortionMesh
  vertex_buffer :: "ovrDistortionVertex list"
  index_buffer :: "nat list"

text \<open>
  The SDK. Every function sees the calls made before it. \<open>hmd_DefaultEyeFov\<close> and
  \<open>hmd_EyeRenderOrder\<close> are the two fields of the SDK's device descriptor that the
  driver reads through the device pointer; an eye read from the descriptor is one of the
  two values of \<open>ovrEyeType\<close>. The last two fields are the two names the driver takes
  from \<open>math.h\<close>.
\<close>

record sdk =
  ovr_Initialize :: "sdk_call list \<Rightarrow> bool"
  ovrHmd_Detect :: "sdk_call list \<Rightarrow> int"
  ovrHmd_Create :: "sdk_call list \<Rightarrow> int \<Rightarrow> ovrHmd"
  ovrHmd_CreateDebug :: "sdk_call list \<Rightarrow> ovrHmd"
  ovrHmd_ConfigureTracking ::
    "sdk_call list \<Rightarrow> ovrHmd \<Rightarrow> ovrTrackingCaps list \<Rightarrow> ovrTrackingCaps list \<Rightarrow> bool"
  ovrHmd_GetTrackingState :: "sdk_call list \<Rightarrow> ovrHmd \<Rightarrow> real \<Rightarrow> ovrTrackingState"
  ovrHmd_GetFovTextureSize ::
    "sdk_call list \<Rightarrow> ovrHmd \<Rightarrow> ovrEyeType \<Rightarrow> ovrFovPort \<Rightarrow> real \<Rightarrow> ovrSizei"
  ovrHmd_GetRenderDesc ::
    "sdk_call list \<Rightarrow> ovrHmd \<Rightarrow> ovrEyeType \<Rightarrow> ovrFovPort \<Rightarrow> ovrEyeRenderDesc"
  ovrHmd_CreateDistortionMesh ::
    "sdk_call list \<Rightarrow> ovrHmd \<Rightarrow> ovrEyeType \<Rightarrow> ovrFovPort \<Rightarrow> nat \<Rightarrow> mesh_result"
  ovrHmd_DestroyDistortionMesh :: "sdk_call list \<Rightarrow> ovrDistortionMesh \<Rightarrow> ovrDistortionMesh"
  ovrHmd_GetRenderScaleAndOffset ::
    "sdk_call list \<Rightarrow> ovrFovPort \<Rightarrow> ovrSizei \<Rightarrow> ovrRecti \<Rightarrow> ovrVector2f \<times> ovrVector2f"
  ovrHmd_GetHmdPosePerEye :: "sdk_call list \<Rightarrow> ovrHmd \<Rightarrow> ovrEyeType \<Rightarrow> ovrPosef"
  ovrHmd_GetEyeTimewarpMatrices ::
    "sdk_call list \<Rightarrow> ovrHmd \<Rightarrow> ovrEyeType \<Rightarrow> ovrPosef \<Rightarrow> ovrMatrix4f \<times> ovrMatrix4f"
  hmd_DefaultEyeFov :: "sdk_call list \<Rightarrow> ovrHmd \<Rightarrow> nat \<Rightarrow> ovrFovPort"
  hmd_EyeRenderOrder :: "sdk_call list \<Rightarrow> ovrHmd \<Rightarrow> nat \<Rightarrow> ovrEyeType"
  M_PI :: real
  libm_tan :: "real \<Rightarrow> real"

subsection \<open>How a call ends\<close>

datatype PsychError = PsychError_user | PsychError_system | PsychError_internal

text \<open>
  Modelled from the spec: \<open>PsychErrorExitMsg\<close> lives in the scripting glue, which is
  not under src/. Per the spec an error is reported to the caller with its message and
  aborts the current call; the variables keep what was written before it. So every
  operation returns how it ended together with the state it leaves. \<open>SegFault\<close> is a
  read through a null pointer or past the end of an SDK buffer.
\<close>

datatype 'a outcome = Return 'a | ErrorExit PsychError string | SegFault

definition andThen ::
  "'a outcome \<times> driver \<Rightarrow> ('a \<Rightarrow> driver \<Rightarrow> 'b outcome \<times> driver) \<Rightarrow> 'b outcome \<times> driver" where
  "andThen r k =
     (case r of
        (Return v, s) \<Rightarrow> k v s
      | (ErrorExit e m, s) \<Rightarrow> (ErrorExit e m, s)
      | (SegFault, s) \<Rightarrow> (SegFault, s))"

definition sdk_log :: "sdk_call \<Rightarrow> driver \<Rightarrow> driver" where
  "sdk_log c s = s\<lparr>sdk_calls := sdk_calls s @ [c]\<rparr>"

definition set_device :: "nat \<Rightarrow> (PsychOculusDevice \<Rightarrow> PsychOculusDevice) \<Rightarrow> driver \<Rightarrow> driver" where
  "set_device i f s = s\<lparr>oculusdevices := (oculusdevices s)(i := f (oculusdevices s i))\<rparr>"

subsection \<open>Zero-initialised memory\<close>

definition zero_ovrVector2f :: ovrVector2f where
  "zero_ovrVector2f = \<lparr>x2 = 0, y2 = 0\<rparr>"

definition zero_ovrVector3f :: ovrVector3f where
  "zero_ovrVector3f = \<lparr>x3 = 0, y3 = 0, z3 = 0\<rparr>"

definition zero_ovrPosef :: ovrPosef where
  "zero_ovrPosef = \<lparr>Orientation = \<lparr>qx = 0, qy = 0, qz = 0, qw = 0\<rparr>, Position = zero_ovrVector3f\<rparr>"

definition zero_ovrSizei :: ovrSizei where
  "zero_ovrSizei = \<lparr>size_w = 0, size_h = 0\<rparr>"

definition zero_ovrEyeRenderDesc :: ovrEyeRenderDesc where
  "zero_ovrEyeRenderDesc =
     \<lparr>Eye = ovrEye_Left,
      Fov = \<lparr>UpTan = 0, DownTan = 0, LeftTan = 0, RightTan = 0\<rparr>,
      DistortedViewport = \<lparr>Pos = \<lparr>pos_x = 0, pos_y = 0\<rparr>, Size = zero_ovrSizei\<rparr>,
      PixelsPerTanAngleAtCenter = zero_ovrVector2f,
      HmdToEyeViewOffset = zero_ovrVector3f\<rparr>"

definition zero_ovrDistortionMesh :: ovrDistortionMesh where
  "zero_ovrDistortionMesh = \<lparr>pVertexData = NULL, pIndexData = NULL, VertexCount = 0, IndexCount = 0\<rparr>"

definition zero_ovrMatrix4f :: ovrMatrix4f where
  "zero_ovrMatrix4f = replicate 4 (replicate 4 0)"

definition zero_PsychOculusDevice :: PsychOculusDevice where
  "zero_PsychOculusDevice =
     \<lparr>hmd = NULL,
      isTracking = False,
      texSize = zero_ovrSizei,
      eyeRenderDesc = (\<lambda>_. zero_ovrEyeRenderDesc),
      eyeDistortionMesh = (\<lambda>_. zero_ovrDistortionMesh),
      UVScaleOffset = (\<lambda>_ _. zero_ovrVector2f),
      timeWarpMatrices = (\<lambda>_. zero_ovrMatrix4f),
      headPose = (\<lambda>_. zero_ovrPosef)\<rparr>"

text \<open>The variables as the C runtime zero-initialises them when the module is loaded.\<close>

definition static_storage :: driver where
  "static_storage =
     \<lparr>oculusdevices = (\<lambda>_. zero_PsychOculusDevice),
      available_devices = 0,
      devicecount = 0,
      initialized = False,
      sdk_calls = []\<rparr>"

subsection \<open>Handle lookup, initialisation, stop, close, shutdown\<close>

text \<open>
  \<open>PsychGetOculus\<close> returns the slot of an open handle, \<open>None\<close> for the null pointer
  it returns when \<open>dontfail\<close> is set, and exits with a user error otherwise.
\<close>

definition PsychGetOculus :: "driver \<Rightarrow> int \<Rightarrow> bool \<Rightarrow> nat option outcome" where
  "PsychGetOculus s handle dontfail =
     (if handle < 1 \<or> handle > int MAX_PSYCH_OCULUS_DEVS
         \<or> hmd (oculusdevices s (nat (handle - 1))) = NULL
      then (if \<not> dontfail then ErrorExit PsychError_user ''Invalid Oculus handle.''
            else Return None)
      else Return (Some (nat (handle - 1))))"

definition detect_devices :: "sdk \<Rightarrow> driver \<Rightarrow> driver" where
  "detect_devices k s =
     (let n = ovrHmd_Detect k (sdk_calls s);
          s1 = (sdk_log Call_ovrHmd_Detect s)\<lparr>available_devices := n\<rparr>
      in if available_devices s1 < 0 then s1\<lparr>available_devices := 0\<rparr> else s1)"

definition PsychOculusVRCheckInit :: "sdk \<Rightarrow> driver \<Rightarrow> unit outcome \<times> driver" where
  "PsychOculusVRCheckInit k s =
     (if initialized s then (Return (), s)
      else
        (let ok = ovr_Initialize k (sdk_calls s);
             s1 = sdk_log Call_ovr_Initialize s
         in if ok then (Return (), (detect_devices k s1)\<lparr>initialized := True\<rparr>)
            else (ErrorExit PsychError_system
                    ''PsychOculusVRCore-ERROR: Initialization of VR runtime failed. Driver disabled!'',
                  s1)))"

definition PsychOculusStop :: "sdk \<Rightarrow> driver \<Rightarrow> int \<Rightarrow> unit outcome \<times> driver" where
  "PsychOculusStop k s handle =
     (case PsychGetOculus s handle True of
        ErrorExit e m \<Rightarrow> (ErrorExit e m, s)
      | SegFault \<Rightarrow> (SegFault, s)
      | Return None \<Rightarrow> (Return (), s)
      | Return (Some i) \<Rightarrow>
          (if \<not> isTracking (oculusdevices s i) then (Return (), s)
           else
             (let ok = ovrHmd_ConfigureTracking k (sdk_calls s) (hmd (oculusdevices s i)) [] [];
                  s1 = sdk_log (Call_ovrHmd_ConfigureTracking (hmd (oculusdevices s i)) [] []) s
              in if \<not> ok
                 then (ErrorExit PsychError_system
                         ''Stop of Oculus HMD tracking failed for reason given above.'', s1)
                 else (Return (), set_device i (\<lambda>d. d\<lparr>isTracking := False\<rparr>) s1))))"

definition destroy_mesh :: "sdk \<Rightarrow> nat \<Rightarrow> nat \<Rightarrow> driver \<Rightarrow> driver" where
  "destroy_mesh k i e s =
     (let m = eyeDistortionMesh (oculusdevices s i) e;
          m' = ovrHmd_DestroyDistortionMesh k (sdk_calls s) m
      in set_device i (\<lambda>d. d\<lparr>eyeDistortionMesh := (eyeDistortionMesh d)(e := m')\<rparr>)
           (sdk_log (Call_ovrHmd_DestroyDistortionMesh m) s))"

text \<open>
  \<open>if (oculus->eyeDistortionMesh[e].pVertexData) ovrHmd_DestroyDistortionMesh(...)\<close>
\<close>

definition release_mesh :: "sdk \<Rightarrow> nat \<Rightarrow> nat \<Rightarrow> driver \<Rightarrow> driver" where
  "release_mesh k i e s =
     (if pVertexData (eyeDistortionMesh (oculusdevices s i) e) \<noteq> NULL
      then destroy_mesh k i e s else s)"

definition PsychOculusClose :: "sdk \<Rightarrow> driver \<Rightarrow> int \<Rightarrow> unit outcome \<times> driver" where
  "PsychOculusClose k s handle =
     (case PsychGetOculus s handle True of
        ErrorExit e m \<Rightarrow> (ErrorExit e m, s)
      | SegFault \<Rightarrow> (SegFault, s)
      | Return None \<Rightarrow> (Return (), s)
      | Return (Some i) \<Rightarrow>
          andThen (PsychOculusStop k s handle) (\<lambda>_ s1.
            (let s2 = release_mesh k i 0 s1;
                 s3 = release_mesh k i 1 s2;
                 s4 = sdk_log (Call_ovrHmd_Destroy (hmd (oculusdevices s3 i))) s3;
                 s5 = set_device i (\<lambda>d. d\<lparr>hmd := NULL\<rparr>) s4
             in (Return (), s5\<lparr>devicecount := devicecount s5 - 1\<rparr>))))"

text \<open>\<open>PsychOculusVRInit\<close>: the loop over the table clears every native pointer.\<close>

definition PsychOculusVRInit :: "driver \<Rightarrow> driver" where
  "PsychOculusVRInit s =
     s\<lparr>oculusdevices :=
          (\<lambda>i. if i < MAX_PSYCH_OCULUS_DEVS then (oculusdevices s i)\<lparr>hmd := NULL\<rparr>
               else oculusdevices s i),
       available_devices := 0,
       devicecount := 0,
       initialized := False\<rparr>"

text \<open>
  The loop of \<open>PsychOculusVRShutDown\<close>:
  \<open>for (handle = 0; handle < MAX_PSYCH_OCULUS_DEVS; handle++) PsychOculusClose(handle)\<close>.
  An error exit inside a close leaves the loop.
\<close>

function shutdown_loop :: "sdk \<Rightarrow> int \<Rightarrow> driver \<Rightarrow> unit outcome \<times> driver" where
  "shutdown_loop k handle s =
     (if handle < int MAX_PSYCH_OCULUS_DEVS
      then (case PsychOculusClose k s handle of
              (Return _, s') \<Rightarrow> shutdown_loop k (handle + 1) s'
            | (ErrorExit e m, s') \<Rightarrow> (ErrorExit e m, s')
            | (SegFault, s') \<Rightarrow> (SegFault, s'))
      else (Return (), s))"
  by pat_completeness auto
termination
  by (relation "measure (\<lambda>(k, handle, s). nat (int MAX_PSYCH_OCULUS_DEVS - handle))") auto

definition PsychOculusVRShutDown :: "sdk \<Rightarrow> driver \<Rightarrow> unit outcome \<times> driver" where
  "PsychOculusVRShutDown k s =
     (if initialized s
      then andThen (shutdown_loop k 0 s) (\<lambda>_ s1.
             (Return (), (sdk_log Call_ovr_Shutdown s1)\<lparr>initialized := False\<rparr>))
      else (Return (), s\<lparr>initialized := False\<rparr>))"

subsection \<open>The subfunctions\<close>

text \<open>
  Each subfunction is modelled from the point where no help text was asked for and its
  argument counts have been accepted. An optional argument is an \<open>option\<close>; \<open>None\<close>
  leaves the C default in place.
\<close>

definition PSYCHOCULUSVRGetCount :: "sdk \<Rightarrow> driver \<Rightarrow> int outcome \<times> driver" where
  "PSYCHOCULUSVRGetCount k s =
     andThen (PsychOculusVRCheckInit k s) (\<lambda>_ s1.
       (let s2 = detect_devices k s1 in (Return (available_devices s2), s2)))"

text \<open>
  \<open>for (handle = 0; (handle < MAX_PSYCH_OCULUS_DEVS) && oculusdevices[handle].hmd; handle++);\<close>
\<close>

function find_free_slot :: "(nat \<Rightarrow> PsychOculusDevice) \<Rightarrow> nat \<Rightarrow> nat" where
  "find_free_slot devs handle =
     (if handle < MAX_PSYCH_OCULUS_DEVS \<and> hmd (devs handle) \<noteq> NULL
      then find_free_slot devs (handle + 1) else handle)"
  by pat_completeness auto
termination
  by (relation "measure (\<lambda>(devs, handle). MAX_PSYCH_OCULUS_DEVS - handle)") auto

text \<open>
  The end of \<open>Open\<close>, after the native device has been requested: the device
  information is printed when \<open>verbosity >= 3\<close>, reading the SDK's descriptor through
  the pointer just stored; then the count goes up and the 1-based handle is returned.
\<close>

definition open_finish :: "nat \<Rightarrow> driver \<Rightarrow> int outcome \<times> driver" where
  "open_finish handle s =
     (if verbosity \<ge> 3 \<and> hmd (oculusdevices s handle) = NULL then (SegFault, s)
      else (Return (int handle + 1), s\<lparr>devicecount := devicecount s + 1\<rparr>))"

definition PSYCHOCULUSVROpen :: "sdk \<Rightarrow> driver \<Rightarrow> int option \<Rightarrow> int outcome \<times> driver" where
  "PSYCHOCULUSVROpen k s deviceIndexArg =
     andThen (PsychOculusVRCheckInit k s) (\<lambda>_ s1.
       (let handle = find_free_slot (oculusdevices s1) 0 in
        if handle \<ge> MAX_PSYCH_OCULUS_DEVS \<or> hmd (oculusdevices s1 handle) \<noteq> NULL
        then (ErrorExit PsychError_internal
                ''Maximum number of simultaneously open Oculus VR devices reached.'', s1)
        else
          (let deviceIndex = (case deviceIndexArg of None \<Rightarrow> 0 | Some d \<Rightarrow> d) in
           if deviceIndex < - 1
           then (ErrorExit PsychError_user
                   ''Invalid 'deviceIndex' provided. Must be greater or equal to zero!'', s1)
           else
             (let s2 = detect_devices k s1 in
              if deviceIndex \<ge> 0 \<and> deviceIndex \<ge> available_devices s2
              then (ErrorExit PsychError_user
                      ''Invalid 'deviceIndex' provided. Not enough HMDs available!'', s2)
              else
                (let s3 = set_device handle (\<lambda>_. zero_PsychOculusDevice) s2 in
                 if deviceIndex \<ge> 0
                 then
                   (let p = ovrHmd_Create k (sdk_calls s3) deviceIndex;
                        s4 = set_device handle (\<lambda>d. d\<lparr>hmd := p\<rparr>)
                               (sdk_log (Call_ovrHmd_Create deviceIndex) s3)
                    in if hmd (oculusdevices s4 handle) = NULL
                       then (ErrorExit PsychError_user
                               ''Could not connect to Rift device with given 'deviceIndex'! [ovrHmd_Create() failed]'',
                             s4)
                       else open_finish handle s4)
                 else
                   (let p = ovrHmd_CreateDebug k (sdk_calls s3);
                        s4 = set_device handle (\<lambda>d. d\<lparr>hmd := p\<rparr>)
                               (sdk_log Call_ovrHmd_CreateDebug s3)
                    in open_finish handle s4))))))"

definition PSYCHOCULUSVRClose :: "sdk \<Rightarrow> driver \<Rightarrow> int option \<Rightarrow> unit outcome \<times> driver" where
  "PSYCHOCULUSVRClose k s handleArg =
     andThen (PsychOculusVRCheckInit k s) (\<lambda>_ s1.
       (let handle = (case handleArg of None \<Rightarrow> - 1 | Some h \<Rightarrow> h) in
        if handle \<ge> 1 then PsychOculusClose k s1 handle
        else PsychOculusVRShutDown k s1))"

definition start_caps :: "ovrTrackingCaps list" where
  "start_caps =
     [ovrTrackingCap_Orientation, ovrTrackingCap_MagYawCorrection, ovrTrackingCap_Position]"

definition PSYCHOCULUSVRStart :: "sdk \<Rightarrow> driver \<Rightarrow> int \<Rightarrow> unit outcome \<times> driver" where
  "PSYCHOCULUSVRStart k s handle =
     andThen (PsychOculusVRCheckInit k s) (\<lambda>_ s1.
       (case PsychGetOculus s1 handle False of
          ErrorExit e m \<Rightarrow> (ErrorExit e m, s1)
        | SegFault \<Rightarrow> (SegFault, s1)
        | Return None \<Rightarrow> (SegFault, s1)
        | Return (Some i) \<Rightarrow>
            (if isTracking (oculusdevices s1 i)
             then (ErrorExit PsychError_user
                     ''Tried to start tracking on HMD, but tracking already active.'', s1)
             else
               (let ok = ovrHmd_ConfigureTracking k (sdk_calls s1) (hmd (oculusdevices s1 i))
                           start_caps [];
                    s2 = sdk_log (Call_ovrHmd_ConfigureTracking (hmd (oculusdevices s1 i))
                                    start_caps []) s1
                in if \<not> ok
                   then (ErrorExit PsychError_system
                           ''Start of Oculus HMD tracking failed for reason given above.'', s2)
                   else (Return (), set_device i (\<lambda>d. d\<lparr>isTracking := True\<rparr>) s2)))))"

definition PSYCHOCULUSVRStop :: "sdk \<Rightarrow> driver \<Rightarrow> int \<Rightarrow> unit outcome \<times> driver" where
  "PSYCHOCULUSVRStop k s handle =
     andThen (PsychOculusVRCheckInit k s) (\<lambda>_ s1. PsychOculusStop k s1 handle)"

text \<open>
  The output vector of \<open>GetTrackingState\<close>: twenty cells, written one by one.
\<close>

definition tracking_vector :: "ovrTrackingState \<Rightarrow> real list" where
  "tracking_vector state =
     (let hp = HeadPose state;
          v = replicate 20 0;
          v = v[0 := TimeInSeconds hp];
          v = v[1 := x3 (Position (ThePose hp))];
          v = v[2 := y3 (Position (ThePose hp))];
          v = v[3 := z3 (Position (ThePose hp))];
          v = v[4 := qx (Orientation (ThePose hp))];
          v = v[5 := qy (Orientation (ThePose hp))];
          v = v[6 := qz (Orientation (ThePose hp))];
          v = v[7 := qw (Orientation (ThePose hp))];
          v = v[8 := x3 (LinearVelocity hp)];
          v = v[9 := y3 (LinearVelocity hp)];
          v = v[10 := z3 (LinearVelocity hp)];
          v = v[11 := x3 (AngularVelocity hp)];
          v = v[12 := y3 (AngularVelocity hp)];
          v = v[13 := z3 (AngularVelocity hp)];
          v = v[14 := x3 (LinearAcceleration hp)];
          v = v[15 := y3 (LinearAcceleration hp)];
          v = v[16 := z3 (LinearAcceleration hp)];
          v = v[17 := x3 (AngularAcceleration hp)];
          v = v[18 := y3 (AngularAcceleration hp)];
          v = v[19 := z3 (AngularAcceleration hp)]
      in v)"

definition PSYCHOCULUSVRGetTrackingState ::
  "sdk \<Rightarrow> driver \<Rightarrow> int \<Rightarrow> real option \<Rightarrow> real list outcome \<times> driver" where
  "PSYCHOCULUSVRGetTrackingState k s handle predictionTimeArg =
     andThen (PsychOculusVRCheckInit k s) (\<lambda>_ s1.
       (case PsychGetOculus s1 handle False of
          ErrorExit e m \<Rightarrow> (ErrorExit e m, s1)
        | SegFault \<Rightarrow> (SegFault, s1)
        | Return None \<Rightarrow> (SegFault, s1)
        | Return (Some i) \<Rightarrow>
            (let predictionTime = (case predictionTimeArg of None \<Rightarrow> 0 | Some t \<Rightarrow> t);
                 state = ovrHmd_GetTrackingState k (sdk_calls s1) (hmd (oculusdevices s1 i))
                           predictionTime;
                 s2 = sdk_log (Call_ovrHmd_GetTrackingState (hmd (oculusdevices s1 i))
                                 predictionTime) s1
             in (Return (tracking_vector state), s2))))"

subsection \<open>GetFovTextureSize\<close>

definition deg2rad :: "sdk \<Rightarrow> real \<Rightarrow> real" where
  "deg2rad k deg = deg / 360 * 2 * M_PI k"

text \<open>The cast \<open>(ovrEyeType) eyeIndex\<close> and the use of an eye as an array index.\<close>

definition eye_of_index :: "int \<Rightarrow> ovrEyeType" where
  "eye_of_index e = (if e = 0 then ovrEye_Left else ovrEye_Right)"

definition index_of_eye :: "ovrEyeType \<Rightarrow> nat" where
  "index_of_eye e = (case e of ovrEye_Left \<Rightarrow> 0 | ovrEye_Right \<Rightarrow> 1)"

record fov_output =
  out_width :: real
  out_height :: real
  out_viewPx :: real
  out_viewPy :: real
  out_viewPw :: real
  out_viewPh :: real
  out_pptax :: real
  out_pptay :: real
  out_hmdShiftx :: real
  out_hmdShifty :: real
  out_hmdShiftz :: real
  out_meshVertices :: "real list"
  out_meshIndices :: "real list"
  out_uvScaleX :: real
  out_uvScaleY :: real
  out_uvOffsetX :: real
  out_uvOffsetY :: real
  out_eyeRotStartMatrix :: "real list"
  out_eyeRotEndMatrix :: "real list"

text \<open>
  The vertex loop: \<open>for (i = 0; i < n; i++)\<close> writes ten cells through
  \<open>outVertexMesh++\<close> and advances \<open>pVertexData\<close>. The third argument is what is left
  of the SDK's buffer from \<open>pVertexData\<close> on, the fourth the cells written so far;
  reading past the end of the buffer has no result.
\<close>

function vertex_loop ::
  "nat \<Rightarrow> nat \<Rightarrow> ovrDistortionVertex list \<Rightarrow> real list \<Rightarrow> real list option" where
  "vertex_loop i n pv out =
     (if i < n
      then (case pv of
              [] \<Rightarrow> None
            | v # pv' \<Rightarrow>
                vertex_loop (i + 1) n pv'
                  (out @ [x2 (ScreenPosNDC v)] @ [y2 (ScreenPosNDC v)]
                       @ [TimeWarpFactor v]
                       @ [VignetteFactor v]
                       @ [x2 (TanEyeAnglesR v)] @ [y2 (TanEyeAnglesR v) * - 1]
                       @ [x2 (TanEyeAnglesG v)] @ [y2 (TanEyeAnglesG v) * - 1]
                       @ [x2 (TanEyeAnglesB v)] @ [y2 (TanEyeAnglesB v) * - 1]))
      else Some out)"
  by pat_completeness auto
termination
  by (relation "measure (\<lambda>(i, n, pv, out). n - i)") auto

text \<open>The index loop converts each 16-bit index to a double.\<close>

function index_loop :: "nat \<Rightarrow> nat \<Rightarrow> nat list \<Rightarrow> real list \<Rightarrow> real list option" where
  "index_loop i n pidx out =
     (if i < n
      then (case pidx of
              [] \<Rightarrow> None
            | j # pidx' \<Rightarrow> index_loop (i + 1) n pidx' (out @ [real j]))
      else Some out)"
  by pat_completeness auto
termination
  by (relation "measure (\<lambda>(i, n, pidx, out). n - i)") auto

text \<open>The sixteen floats of a matrix in memory order, from \<open>&M[0][0]\<close> on.\<close>

definition matrix_cells :: "ovrMatrix4f \<Rightarrow> real list" where
  "matrix_cells M = map (\<lambda>i. M ! (i div 4) ! (i mod 4)) [0..<4 * 4]"

text \<open>
  Texture size and render description: the size the SDK recommends is stored and then
  overwritten twice by constants; the distorted viewport the SDK returns is overwritten
  by the origin and the texture size.
\<close>

definition fov_texture_and_desc ::
  "sdk \<Rightarrow> nat \<Rightarrow> int \<Rightarrow> ovrFovPort \<Rightarrow> real \<Rightarrow> driver \<Rightarrow> driver" where
  "fov_texture_and_desc k i eyeIndex ofov pixelsPerDisplay s =
     (let p = hmd (oculusdevices s i);
          e = nat eyeIndex;
          ts = ovrHmd_GetFovTextureSize k (sdk_calls s) p (eye_of_index eyeIndex) ofov
                 pixelsPerDisplay;
          s1 = set_device i (\<lambda>d. d\<lparr>texSize := ts\<rparr>)
                 (sdk_log (Call_ovrHmd_GetFovTextureSize p (eye_of_index eyeIndex) ofov
                             pixelsPerDisplay) s);
          s2 = set_device i (\<lambda>d. d\<lparr>texSize := (texSize d)\<lparr>size_w := 1680\<rparr>\<rparr>) s1;
          s3 = set_device i (\<lambda>d. d\<lparr>texSize := (texSize d)\<lparr>size_h := 1050\<rparr>\<rparr>) s2;
          s4 = set_device i (\<lambda>d. d\<lparr>texSize := (texSize d)\<lparr>size_w := 1080\<rparr>\<rparr>) s3;
          s5 = set_device i (\<lambda>d. d\<lparr>texSize := (texSize d)\<lparr>size_h := 1920\<rparr>\<rparr>) s4;
          rd = ovrHmd_GetRenderDesc k (sdk_calls s5) p (eye_of_index eyeIndex) ofov;
          s6 = set_device i (\<lambda>d. d\<lparr>eyeRenderDesc := (eyeRenderDesc d)(e := rd)\<rparr>)
                 (sdk_log (Call_ovrHmd_GetRenderDesc p (eye_of_index eyeIndex) ofov) s5)
      in set_device i
           (\<lambda>d. d\<lparr>eyeRenderDesc := (eyeRenderDesc d)
                  (e := (eyeRenderDesc d e)
                     \<lparr>DistortedViewport :=
                        \<lparr>Pos = \<lparr>pos_x = 0, pos_y = 0\<rparr>,
                         Size = \<lparr>size_w = size_w (texSize d), size_h = size_h (texSize d)\<rparr>\<rparr>\<rparr>)\<rparr>)
           s6)"

text \<open>
  The distortion mesh: the SDK writes a new descriptor into
  \<open>eyeDistortionMesh[eyeIndex]\<close>, whatever the cell held before.
\<close>

definition fov_create_mesh :: "sdk \<Rightarrow> nat \<Rightarrow> nat \<Rightarrow> driver \<Rightarrow> mesh_result \<times> driver" where
  "fov_create_mesh k i e s =
     (let d = oculusdevices s i;
          r = ovrHmd_CreateDistortionMesh k (sdk_calls s) (hmd d) (Eye (eyeRenderDesc d e))
                (Fov (eyeRenderDesc d e)) 0
      in (r, set_device i (\<lambda>d. d\<lparr>eyeDistortionMesh := (eyeDistortionMesh d)(e := mesh_desc r)\<rparr>)
               (sdk_log (Call_ovrHmd_CreateDistortionMesh (hmd d) (Eye (eyeRenderDesc d e))
                           (Fov (eyeRenderDesc d e)) 0 (mesh_desc r)) s)))"

text \<open>UV scale and offset, head pose and time-warp matrices, in the order of the code.\<close>

definition fov_uv_and_timewarp :: "sdk \<Rightarrow> nat \<Rightarrow> int \<Rightarrow> driver \<Rightarrow> driver" where
  "fov_uv_and_timewarp k i eyeIndex s =
     (let e = nat eyeIndex;
          d = oculusdevices s i;
          uv = ovrHmd_GetRenderScaleAndOffset k (sdk_calls s) (Fov (eyeRenderDesc d e))
                 (texSize d) (DistortedViewport (eyeRenderDesc d e));
          s1 = set_device i
                 (\<lambda>d. d\<lparr>UVScaleOffset := (UVScaleOffset d)
                        (e := (UVScaleOffset d e)(0 := fst uv, 1 := snd uv))\<rparr>)
                 (sdk_log (Call_ovrHmd_GetRenderScaleAndOffset (Fov (eyeRenderDesc d e))
                             (texSize d) (DistortedViewport (eyeRenderDesc d e))) s);
          eye = hmd_EyeRenderOrder k (sdk_calls s1) (hmd d) e;
          hp = ovrHmd_GetHmdPosePerEye k (sdk_calls s1) (hmd d) eye;
          s2 = set_device i (\<lambda>d. d\<lparr>headPose := (headPose d)(index_of_eye eye := hp)\<rparr>)
                 (sdk_log (Call_ovrHmd_GetHmdPosePerEye (hmd d) eye) s1);
          pose = headPose (oculusdevices s2 i) e;
          tw = ovrHmd_GetEyeTimewarpMatrices k (sdk_calls s2) (hmd d) (eye_of_index eyeIndex) pose
      in set_device i
           (\<lambda>d. d\<lparr>timeWarpMatrices := (timeWarpMatrices d)(0 := fst tw, 1 := snd tw)\<rparr>)
           (sdk_log (Call_ovrHmd_GetEyeTimewarpMatrices (hmd d) (eye_of_index eyeIndex) pose) s2))"

definition fov_outputs :: "nat \<Rightarrow> nat \<Rightarrow> real list \<Rightarrow> real list \<Rightarrow> driver \<Rightarrow> fov_output" where
  "fov_outputs i e outVertexMesh outIndexMesh s =
     (let d = oculusdevices s i; rd = eyeRenderDesc d e in
      \<lparr>out_width = real_of_int (size_w (texSize d)),
       out_height = real_of_int (size_h (texSize d)),
       out_viewPx = real_of_int (pos_x (Pos (DistortedViewport rd))),
       out_viewPy = real_of_int (pos_y (Pos (DistortedViewport rd))),
       out_viewPw = real_of_int (size_w (Size (DistortedViewport rd))),
       out_viewPh = real_of_int (size_h (Size (DistortedViewport rd))),
       out_pptax = x2 (PixelsPerTanAngleAtCenter rd),
       out_pptay = y2 (PixelsPerTanAngleAtCenter rd),
       out_hmdShiftx = x3 (HmdToEyeViewOffset rd),
       out_hmdShifty = y3 (HmdToEyeViewOffset rd),
       out_hmdShiftz = z3 (HmdToEyeViewOffset rd),
       out_meshVertices = outVertexMesh,
       out_meshIndices = outIndexMesh,
       out_uvScaleX = x2 (UVScaleOffset d e 0),
       out_uvScaleY = y2 (UVScaleOffset d e 0),
       out_uvOffsetX = x2 (UVScaleOffset d e 1),
       out_uvOffsetY = y2 (UVScaleOffset d e 1),
       out_eyeRotStartMatrix = matrix_cells (timeWarpMatrices d 0),
       out_eyeRotEndMatrix = matrix_cells (timeWarpMatrices d 1)\<rparr>)"

text \<open>The body of \<open>GetFovTextureSize\<close> after its arguments have been accepted.\<close>

definition fov_body ::
  "sdk \<Rightarrow> nat \<Rightarrow> int \<Rightarrow> ovrFovPort \<Rightarrow> real \<Rightarrow> driver \<Rightarrow> fov_output outcome \<times> driver" where
  "fov_body k i eyeIndex ofov pixelsPerDisplay s =
     (let e = nat eyeIndex;
          s1 = fov_texture_and_desc k i eyeIndex ofov pixelsPerDisplay s;
          (r, s2) = fov_create_mesh k i e s1
      in if \<not> mesh_ok r
         then (ErrorExit PsychError_system ''Failed to compute distortion mesh for eye.'', s2)
         else
           (let m = eyeDistortionMesh (oculusdevices s2 i) e in
            case vertex_loop 0 (VertexCount m)
                   (if pVertexData m = NULL then [] else vertex_buffer r) [] of
              None \<Rightarrow> (SegFault, s2)
            | Some outVertexMesh \<Rightarrow>
                (case index_loop 0 (IndexCount m)
                        (if pIndexData m = NULL then [] else index_buffer r) [] of
                   None \<Rightarrow> (SegFault, s2)
                 | Some outIndexMesh \<Rightarrow>
                     (let s3 = fov_uv_and_timewarp k i eyeIndex s2
                      in (Return (fov_outputs i e outVertexMesh outIndexMesh s3), s3)))))"

text \<open>
  The optional \<open>fov\<close> argument is the list of the cells of the matrix passed in, the
  optional \<open>pixelsPerDisplay\<close> a double.
\<close>

definition PSYCHOCULUSVRGetFovTextureSize ::
  "sdk \<Rightarrow> driver \<Rightarrow> int \<Rightarrow> int \<Rightarrow> real list option \<Rightarrow> real option
     \<Rightarrow> fov_output outcome \<times> driver" where
  "PSYCHOCULUSVRGetFovTextureSize k s handle eyeIndex fovArg pixelsPerDisplayArg =
     andThen (PsychOculusVRCheckInit k s) (\<lambda>_ s1.
       (case PsychGetOculus s1 handle False of
          ErrorExit e m \<Rightarrow> (ErrorExit e m, s1)
        | SegFault \<Rightarrow> (SegFault, s1)
        | Return None \<Rightarrow> (SegFault, s1)
        | Return (Some i) \<Rightarrow>
            (if eyeIndex < 0 \<or> eyeIndex > 1
             then (ErrorExit PsychError_user
                     ''Invalid 'eye' specified. Must be 0 or 1 for left- or right eye.'', s1)
             else if (case fovArg of Some fov \<Rightarrow> length fov \<noteq> 4 | None \<Rightarrow> False)
             then (ErrorExit PsychError_user
                     ''Invalid 'fov' specified. Must be a 4-component vector of form [leftdeg, rightdeg, updeg, downdeg].'',
                   s1)
             else
               (let ofov =
                      (case fovArg of
                         Some fov \<Rightarrow>
                           \<lparr>UpTan = libm_tan k (deg2rad k (fov ! 2)),
                            DownTan = libm_tan k (deg2rad k (fov ! 3)),
                            LeftTan = libm_tan k (deg2rad k (fov ! 0)),
                            RightTan = libm_tan k (deg2rad k (fov ! 1))\<rparr>
                       | None \<Rightarrow>
                           hmd_DefaultEyeFov k (sdk_calls s1) (hmd (oculusdevices s1 i))
                             (nat eyeIndex));
                    pixelsPerDisplay = (case pixelsPerDisplayArg of None \<Rightarrow> 1 | Some x \<Rightarrow> x)
                in if pixelsPerDisplay \<le> 0
                   then (ErrorExit PsychError_user
                           ''Invalid 'pixelsPerDisplay' specified. Must be greater than zero.'', s1)
                   else fov_body k i eyeIndex ofov pixelsPerDisplay s1))))"

subsection \<open>Reading the state\<close>

text \<open>A handle is open when \<open>PsychGetOculus\<close> resolves it to a slot.\<close>

definition is_open :: "driver \<Rightarrow> int \<Rightarrow> bool" where
  "is_open s handle \<longleftrightarrow>
     1 \<le> handle \<and> handle \<le> int MAX_PSYCH_OCULUS_DEVS
       \<and> hmd (oculusdevices s (nat (handle - 1))) \<noteq> NULL"

text \<open>The native pointer held by each slot.\<close>

definition natives :: "driver \<Rightarrow> nat \<Rightarrow> ovrHmd" where
  "natives s i = hmd (oculusdevices s i)"

definition device_of :: "driver \<Rightarrow> int \<Rightarrow> PsychOculusDevice" where
  "device_of s handle = oculusdevices s (nat (handle - 1))"

text \<open>The registry as the caller sees it: the record of every open handle.\<close>

definition registry :: "driver \<Rightarrow> int \<Rightarrow> PsychOculusDevice option" where
  "registry s handle = (if is_open s handle then Some (device_of s handle) else None)"

definition open_count :: "driver \<Rightarrow> nat" where
  "open_count s =
     length (filter (\<lambda>i. hmd (oculusdevices s i) \<noteq> NULL) [0..<MAX_PSYCH_OCULUS_DEVS])"

text \<open>
  What holds of the counters in every state the driver reaches: the open-device count
  is the number of occupied slots (modulo \<open>2^32\<close>, as an \<open>unsigned int\<close>), and while the
  runtime is down the slots of handles 1 to 9 are free.
\<close>

definition driver_inv :: "driver \<Rightarrow> bool" where
  "driver_inv s \<longleftrightarrow>
     devicecount s = word_of_nat (open_count s)
       \<and> (initialized s \<or> list_all (\<lambda>i. natives s i = NULL) [0..<9])"

text \<open>
  Two states agree on what the lifecycle operations read: native pointers, tracking
  flags, the counters and the initialisation flag.
\<close>

definition lifecycle_unchanged :: "driver \<Rightarrow> driver \<Rightarrow> bool" where
  "lifecycle_unchanged s s' \<longleftrightarrow>
     (\<forall>j. hmd (oculusdevices s' j) = hmd (oculusdevices s j)
          \<and> isTracking (oculusdevices s' j) = isTracking (oculusdevices s j))
     \<and> devicecount s' = devicecount s
     \<and> available_devices s' = available_devices s
     \<and> initialized s' = initialized s"

text \<open>The runtime is up, or the SDK will bring it up at the next call.\<close>

definition runtime_ready :: "sdk \<Rightarrow> driver \<Rightarrow> bool" where
  "runtime_ready k s \<longleftrightarrow> initialized s \<or> ovr_Initialize k (sdk_calls s)"

text \<open>The state a subfunction works on after its \<open>PsychOculusVRCheckInit\<close>.\<close>

definition after_init :: "sdk \<Rightarrow> driver \<Rightarrow> driver" where
  "after_init k s = snd (PsychOculusVRCheckInit k s)"

text \<open>The structure the SDK returns to \<open>GetTrackingState\<close> for a handle and a time.\<close>

definition sdk_tracking_state :: "sdk \<Rightarrow> driver \<Rightarrow> int \<Rightarrow> real option \<Rightarrow> ovrTrackingState" where
  "sdk_tracking_state k s handle t =
     ovrHmd_GetTrackingState k (sdk_calls (after_init k s)) (hmd (device_of s handle))
       (case t of None \<Rightarrow> 0 | Some x \<Rightarrow> x)"

text \<open>
  The state inside \<open>Open\<close> once the first free slot has been zeroed and the native
  pointer \<open>p\<close>, returned by the SDK call \<open>c\<close>, has been stored in it.
\<close>

definition slot_claimed :: "sdk \<Rightarrow> driver \<Rightarrow> sdk_call \<Rightarrow> ovrHmd \<Rightarrow> driver" where
  "slot_claimed k s c p =
     (let handle = find_free_slot (oculusdevices s) 0 in
      set_device handle (\<lambda>d. d\<lparr>hmd := p\<rparr>)
        (sdk_log c
           (set_device handle (\<lambda>_. zero_PsychOculusDevice)
              (detect_devices k (after_init k s)))))"

fun is_scale_query :: "sdk_call \<Rightarrow> bool" where
  "is_scale_query (Call_ovrHmd_GetFovTextureSize p e f x) = True"
| "is_scale_query _ = False"

text \<open>
  Mesh buffers handed out by the SDK and mesh buffers handed back, in call order, each
  named by its vertex pointer.
\<close>

fun meshes_acquired :: "sdk_call list \<Rightarrow> nat list" where
  "meshes_acquired [] = []"
| "meshes_acquired (Call_ovrHmd_CreateDistortionMesh p e f c m # cs) =
     (if pVertexData m \<noteq> NULL then pVertexData m # meshes_acquired cs
      else meshes_acquired cs)"
| "meshes_acquired (_ # cs) = meshes_acquired cs"

fun meshes_released :: "sdk_call list \<Rightarrow> nat list" where
  "meshes_released [] = []"
| "meshes_released (Call_ovrHmd_DestroyDistortionMesh m # cs) =
     pVertexData m # meshes_released cs"
| "meshes_released (_ # cs) = meshes_released cs"

subsection \<open>Sequences of requests\<close>

datatype request =
    GetCount
  | Open "int option"
  | Close "int option"
  | Start int
  | Stop int
  | GetTrackingState int "real option"
  | GetFovTextureSize int int "real list option" "real option"

text \<open>The value a call returned, if it returned.\<close>

definition returned :: "'a outcome \<Rightarrow> 'a option" where
  "returned r = (case r of Return v \<Rightarrow> Some v | ErrorExit e m \<Rightarrow> None | SegFault \<Rightarrow> None)"

text \<open>After a segmentation fault there is no next state.\<close>

definition survives :: "'a outcome \<times> driver \<Rightarrow> driver option" where
  "survives r = (case r of (SegFault, s) \<Rightarrow> None | (_, s) \<Rightarrow> Some s)"

fun step :: "sdk \<Rightarrow> request \<Rightarrow> driver \<Rightarrow> driver option" where
  "step k GetCount s = survives (PSYCHOCULUSVRGetCount k s)"
| "step k (Open d) s = survives (PSYCHOCULUSVROpen k s d)"
| "step k (Close h) s = survives (PSYCHOCULUSVRClose k s h)"
| "step k (Start h) s = survives (PSYCHOCULUSVRStart k s h)"
| "step k (Stop h) s = survives (PSYCHOCULUSVRStop k s h)"
| "step k (GetTrackingState h t) s = survives (PSYCHOCULUSVRGetTrackingState k s h t)"
| "step k (GetFovTextureSize h e f x) s = survives (PSYCHOCULUSVRGetFovTextureSize k s h e f x)"

text \<open>
  The states the driver can be in: the module is loaded, \<open>PsychOculusVRInit\<close> runs,
  and requests follow.
\<close>

inductive reachable :: "sdk \<Rightarrow> driver \<Rightarrow> bool" for k :: sdk where
  loaded: "reachable k (PsychOculusVRInit static_storage)"
| request: "reachable k s \<Longrightarrow> step k r s = Some s' \<Longrightarrow> reachable k s'"

text \<open>Successive \<open>Open\<close> calls with the given arguments; the outcomes are collected.\<close>

fun open_all :: "sdk \<Rightarrow> int option list \<Rightarrow> driver \<Rightarrow> int outcome list \<times> driver" where
  "open_all k [] s = ([], s)"
| "open_all k (d # ds) s =
     (let (r, s1) = PSYCHOCULUSVROpen k s d;
          (rs, s2) = open_all k ds s1
      in (r # rs, s2))"

text \<open>
  The SDK grants an \<open>Open\<close> with argument \<open>d\<close> whenever it is asked: for the emulated
  device it constructs a debug device, for a real one it detects more headsets than the
  index and constructs the device.
\<close>

definition sdk_grants :: "sdk \<Rightarrow> int option \<Rightarrow> bool" where
  "sdk_grants k d \<longleftrightarrow>
     (let deviceIndex = (case d of None \<Rightarrow> 0 | Some x \<Rightarrow> x) in
      (deviceIndex = - 1 \<and> (\<forall>t. ovrHmd_CreateDebug k t \<noteq> NULL))
      \<or> (0 \<le> deviceIndex
          \<and> (\<forall>t. deviceIndex < ovrHmd_Detect k t \<and> ovrHmd_Create k t deviceIndex \<noteq> NULL)))"

subsection \<open>Two SDKs to run the driver on\<close>

definition sample_vertex :: ovrDistortionVertex where
  "sample_vertex =
     \<lparr>ScreenPosNDC = \<lparr>x2 = 1 / 2, y2 = - 1 / 2\<rparr>,
      TimeWarpFactor = 1 / 4,
      VignetteFactor = 1,
      TanEyeAnglesR = \<lparr>x2 = 2, y2 = 3\<rparr>,
      TanEyeAnglesG = \<lparr>x2 = 4, y2 = 5\<rparr>,
      TanEyeAnglesB = \<lparr>x2 = 6, y2 = 7\<rparr>\<rparr>"

definition identity_ovrMatrix4f :: ovrMatrix4f where
  "identity_ovrMatrix4f = map (\<lambda>i. map (\<lambda>j. if i = j then 1 else 0) [0..<4]) [0..<4]"

definition static_head :: "real \<Rightarrow> ovrTrackingState" where
  "static_head t =
     \<lparr>HeadPose =
        \<lparr>ThePose = \<lparr>Orientation = \<lparr>qx = 0, qy = 0, qz = 0, qw = 1\<rparr>,
                    Position = \<lparr>x3 = 0, y3 = 17 / 10, z3 = 0\<rparr>\<rparr>,
         AngularVelocity = zero_ovrVector3f,
         LinearVelocity = zero_ovrVector3f,
         AngularAcceleration = zero_ovrVector3f,
         LinearAcceleration = zero_ovrVector3f,
         TimeInSeconds = t\<rparr>\<rparr>"

text \<open>
  An SDK that grants everything: one headset attached, every pointer fresh (one more
  than the number of calls so far), a static head, a mesh of one triangle; \<open>tan\<close> is
  a short Taylor polynomial.
\<close>

definition sdk_emulated :: sdk where
  "sdk_emulated =
     \<lparr>ovr_Initialize = (\<lambda>t. True),
      ovrHmd_Detect = (\<lambda>t. 1),
      ovrHmd_Create = (\<lambda>t d. Suc (length t)),
      ovrHmd_CreateDebug = (\<lambda>t. Suc (length t)),
      ovrHmd_ConfigureTracking = (\<lambda>t p c r. True),
      ovrHmd_GetTrackingState = (\<lambda>t p x. static_head x),
      ovrHmd_GetFovTextureSize = (\<lambda>t p e f x. \<lparr>size_w = 1182, size_h = 1461\<rparr>),
      ovrHmd_GetRenderDesc =
        (\<lambda>t p e f.
           \<lparr>Eye = e, Fov = f,
            DistortedViewport = \<lparr>Pos = \<lparr>pos_x = 960, pos_y = 0\<rparr>,
                                 Size = \<lparr>size_w = 960, size_h = 1080\<rparr>\<rparr>,
            PixelsPerTanAngleAtCenter = \<lparr>x2 = 549, y2 = 549\<rparr>,
            HmdToEyeViewOffset = \<lparr>x3 = 4 / 125, y3 = 0, z3 = 0\<rparr>\<rparr>),
      ovrHmd_CreateDistortionMesh =
        (\<lambda>t p e f c.
           \<lparr>mesh_ok = True,
            mesh_desc = \<lparr>pVertexData = Suc (length t), pIndexData = Suc (Suc (length t)),
                         VertexCount = 3, IndexCount = 3\<rparr>,
            vertex_buffer = [sample_vertex, sample_vertex, sample_vertex],
            index_buffer = [0, 1, 2]\<rparr>),
      ovrHmd_DestroyDistortionMesh = (\<lambda>t m. zero_ovrDistortionMesh),
      ovrHmd_GetRenderScaleAndOffset =
        (\<lambda>t f ts vp. (\<lparr>x2 = 1 / 4, y2 = 1 / 4\<rparr>, \<lparr>x2 = 1 / 2, y2 = 1 / 2\<rparr>)),
      ovrHmd_GetHmdPosePerEye = (\<lambda>t p e. zero_ovrPosef),
      ovrHmd_GetEyeTimewarpMatrices = (\<lambda>t p e q. (identity_ovrMatrix4f, identity_ovrMatrix4f)),
      hmd_DefaultEyeFov = (\<lambda>t p e. \<lparr>UpTan = 1, DownTan = 1, LeftTan = 1, RightTan = 1\<rparr>),
      hmd_EyeRenderOrder = (\<lambda>t p e. eye_of_index (int e)),
      M_PI = 355 / 113,
      libm_tan = (\<lambda>x. x + x ^ 3 / 3 + 2 * x ^ 5 / 15)\<rparr>"

text \<open>The same SDK, except that it cannot construct a debug device.\<close>

definition sdk_no_debug_device :: sdk where
  "sdk_no_debug_device = sdk_emulated\<lparr>ovrHmd_CreateDebug := (\<lambda>t. NULL)\<rparr>"

text \<open>The same SDK, except that it cannot construct the device of an attached headset.\<close>

definition sdk_no_real_device :: sdk where
  "sdk_no_real_device = sdk_emulated\<lparr>ovrHmd_Create := (\<lambda>t d. NULL)\<rparr>"

definition fresh :: driver where
  "fresh = PsychOculusVRInit static_storage"

text \<open>The driver after one emulated device has been opened on the granting SDK.\<close>

definition one_open :: driver where
  "one_open = snd (PSYCHOCULUSVROpen sdk_emulated fresh (Some (- 1)))"

text \<open>The driver after ten emulated devices have been opened: every slot is occupied.\<close>

definition ten_open :: driver where
  "ten_open = snd (open_all sdk_emulated (replicate 10 (Some (- 1))) fresh)"

text \<open>
  One emulated device, the mesh of the left eye computed twice, then the device closed.
\<close>

definition mesh_once :: driver where
  "mesh_once = snd (PSYCHOCULUSVRGetFovTextureSize sdk_emulated one_open 1 0 None None)"

definition mesh_twice :: driver where
  "mesh_twice = snd (PSYCHOCULUSVRGetFovTextureSize sdk_emulated mesh_once 1 0 None None)"

definition mesh_twice_closed :: driver where
  "mesh_twice_closed = snd (PSYCHOCULUSVRClose sdk_emulated mesh_twice (Some 1))"

text \<open>The driver after a first \<open>GetCount\<close> on the granting SDK: one headset detected.\<close>

definition counted :: driver where
  "counted = snd (PSYCHOCULUSVRGetCount sdk_emulated fresh)"

text \<open>The same driver after tracking has been started on that device.\<close>

definition one_tracking :: driver where
  "one_tracking = snd (PSYCHOCULUSVRStart sdk_emulated one_open 1)"

section \<open>Properties\<close>

subsection \<open>Plumbing\<close>

declare find_free_slot.simps [simp del]
declare shutdown_loop.simps [simp del]
declare vertex_loop.simps [simp del]
declare index_loop.simps [simp del]

lemma andThen_simps [simp]:
  "andThen (Return v, s) f = f v s"
  "andThen (ErrorExit e m, s) f = (ErrorExit e m, s)"
  "andThen (SegFault, s) f = (SegFault, s)"
  by (simp_all add: andThen_def)

lemma sdk_log_fields [simp]:
  "oculusdevices (sdk_log c s) = oculusdevices s"
  "available_devices (sdk_log c s) = available_devices s"
  "devicecount (sdk_log c s) = devicecount s"
  "initialized (sdk_log c s) = initialized s"
  "sdk_calls (sdk_log c s) = sdk_calls s @ [c]"
  by (simp_all add: sdk_log_def)

lemma set_device_fields [simp]:
  "oculusdevices (set_device i f s) = (oculusdevices s)(i := f (oculusdevices s i))"
  "available_devices (set_device i f s) = available_devices s"
  "devicecount (set_device i f s) = devicecount s"
  "initialized (set_device i f s) = initialized s"
  "sdk_calls (set_device i f s) = sdk_calls s"
  by (simp_all add: set_device_def)

lemma detect_devices_fields [simp]:
  "oculusdevices (detect_devices k s) = oculusdevices s"
  "devicecount (detect_devices k s) = devicecount s"
  "initialized (detect_devices k s) = initialized s"
  "sdk_calls (detect_devices k s) = sdk_calls s @ [Call_ovrHmd_Detect]"
  by (simp_all add: detect_devices_def Let_def)

lemma detect_devices_available:
  "available_devices (detect_devices k s) = max 0 (ovrHmd_Detect k (sdk_calls s))"
  by (simp add: detect_devices_def Let_def)

subsection \<open>Lazy initialisation\<close>

lemma CheckInit_initialized [simp]:
  "initialized s \<Longrightarrow> PsychOculusVRCheckInit k s = (Return (), s)"
  by (simp add: PsychOculusVRCheckInit_def)

lemma after_init_initialized [simp]:
  "initialized s \<Longrightarrow> after_init k s = s"
  by (simp add: after_init_def)

lemma CheckInit_ready:
  "runtime_ready k s \<Longrightarrow> PsychOculusVRCheckInit k s = (Return (), after_init k s)"
  by (auto simp: runtime_ready_def after_init_def PsychOculusVRCheckInit_def Let_def)

lemma CheckInit_not_ready:
  "\<not> runtime_ready k s \<Longrightarrow>
   PsychOculusVRCheckInit k s =
     (ErrorExit PsychError_system
        ''PsychOculusVRCore-ERROR: Initialization of VR runtime failed. Driver disabled!'',
      sdk_log Call_ovr_Initialize s)"
  by (auto simp: runtime_ready_def PsychOculusVRCheckInit_def Let_def)

lemma after_init_fields [simp]:
  "oculusdevices (after_init k s) = oculusdevices s"
  "devicecount (after_init k s) = devicecount s"
  by (simp_all add: after_init_def PsychOculusVRCheckInit_def Let_def)

lemma after_init_up: "runtime_ready k s \<Longrightarrow> initialized (after_init k s)"
  by (auto simp: runtime_ready_def after_init_def PsychOculusVRCheckInit_def Let_def)

lemma is_open_cong: "oculusdevices s' = oculusdevices s \<Longrightarrow> is_open s' h = is_open s h"
  by (simp add: is_open_def)

lemma is_open_after_init [simp]: "is_open (after_init k s) h = is_open s h"
  by (simp add: is_open_def)

lemma device_of_after_init [simp]: "device_of (after_init k s) h = device_of s h"
  by (simp add: device_of_def)

subsection \<open>Handle lookup\<close>

lemma GetOculus_open:
  "is_open s h \<Longrightarrow> PsychGetOculus s h b = Return (Some (nat (h - 1)))"
  by (auto simp: is_open_def PsychGetOculus_def)

lemma GetOculus_closed_fail:
  "\<not> is_open s h \<Longrightarrow> PsychGetOculus s h False = ErrorExit PsychError_user ''Invalid Oculus handle.''"
  by (auto simp: is_open_def PsychGetOculus_def)

lemma GetOculus_closed_dontfail:
  "\<not> is_open s h \<Longrightarrow> PsychGetOculus s h True = Return None"
  by (auto simp: is_open_def PsychGetOculus_def)

lemma tracking_vector_cells:
  "tracking_vector st =
     [TimeInSeconds (HeadPose st),
      x3 (Position (ThePose (HeadPose st))),
      y3 (Position (ThePose (HeadPose st))),
      z3 (Position (ThePose (HeadPose st))),
      qx (Orientation (ThePose (HeadPose st))),
      qy (Orientation (ThePose (HeadPose st))),
      qz (Orientation (ThePose (HeadPose st))),
      qw (Orientation (ThePose (HeadPose st))),
      x3 (LinearVelocity (HeadPose st)),
      y3 (LinearVelocity (HeadPose st)),
      z3 (LinearVelocity (HeadPose st)),
      x3 (AngularVelocity (HeadPose st)),
      y3 (AngularVelocity (HeadPose st)),
      z3 (AngularVelocity (HeadPose st)),
      x3 (LinearAcceleration (HeadPose st)),
      y3 (LinearAcceleration (HeadPose st)),
      z3 (LinearAcceleration (HeadPose st)),
      x3 (AngularAcceleration (HeadPose st)),
      y3 (AngularAcceleration (HeadPose st)),
      z3 (AngularAcceleration (HeadPose st))]"
  by (simp add: tracking_vector_def Let_def eval_nat_numeral replicate_Suc)

subsection \<open>Occupied slots\<close>

lemma natives_fields [simp]:
  "natives (sdk_log c s) = natives s"
  "natives (detect_devices k s) = natives s"
  "natives (after_init k s) = natives s"
  "natives (set_device i f s) = (natives s)(i := hmd (f (oculusdevices s i)))"
  "natives (s\<lparr>devicecount := n\<rparr>) = natives s"
  "natives (s\<lparr>initialized := b\<rparr>) = natives s"
  by (auto simp: natives_def fun_eq_iff)

lemma is_open_natives:
  "is_open s h \<longleftrightarrow> 1 \<le> h \<and> h \<le> 10 \<and> natives s (nat (h - 1)) \<noteq> NULL"
  by (simp add: is_open_def natives_def MAX_PSYCH_OCULUS_DEVS_def)

lemma open_count_card:
  "open_count s = card {i. i < 10 \<and> natives s i \<noteq> NULL}"
proof -
  have "open_count s = card (set (filter (\<lambda>i. natives s i \<noteq> NULL) [0..<10]))"
    unfolding open_count_def natives_def MAX_PSYCH_OCULUS_DEVS_def
    by (rule distinct_card [symmetric]) simp
  also have "set (filter (\<lambda>i. natives s i \<noteq> NULL) [0..<10]) = {i. i < 10 \<and> natives s i \<noteq> NULL}"
    by auto
  finally show ?thesis .
qed

lemma open_count_same: "natives s' = natives s \<Longrightarrow> open_count s' = open_count s"
  by (simp add: open_count_card)

lemma open_count_claim:
  assumes "i < 10" "natives s i = NULL" "p \<noteq> NULL" "natives s' = (natives s)(i := p)"
  shows "open_count s' = Suc (open_count s)"
proof -
  have "{j. j < 10 \<and> natives s' j \<noteq> NULL} = insert i {j. j < 10 \<and> natives s j \<noteq> NULL}"
    using assms by auto
  moreover have "i \<notin> {j. j < 10 \<and> natives s j \<noteq> NULL}" using assms by simp
  ultimately show ?thesis by (simp add: open_count_card)
qed

lemma open_count_release:
  assumes "i < 10" "natives s i \<noteq> NULL" "natives s' = (natives s)(i := NULL)"
  shows "Suc (open_count s') = open_count s"
proof -
  let ?A = "{j. j < 10 \<and> natives s j \<noteq> NULL}"
  have eq: "{j. j < 10 \<and> natives s' j \<noteq> NULL} = ?A - {i}"
    using assms by auto
  have "i \<in> ?A" using assms by simp
  moreover have "finite ?A" by simp
  ultimately have "Suc (card (?A - {i})) = card ?A"
    by (rule card_Suc_Diff1 [rotated])
  then show ?thesis
    unfolding open_count_card eq .
qed

subsection \<open>The search for a free slot\<close>

lemma find_free_slot_bounds:
  "n \<le> 10 \<Longrightarrow> n \<le> find_free_slot devs n \<and> find_free_slot devs n \<le> 10"
proof (induction devs n rule: find_free_slot.induct)
  case (1 devs handle)
  show ?case
  proof (cases "handle < MAX_PSYCH_OCULUS_DEVS \<and> hmd (devs handle) \<noteq> NULL")
    case True
    then have "handle + 1 \<le> 10" by (simp add: MAX_PSYCH_OCULUS_DEVS_def)
    with 1 True show ?thesis by (subst (1 2) find_free_slot.simps) auto
  next
    case False
    with 1 show ?thesis by (subst (1 2) find_free_slot.simps) auto
  qed
qed

lemma find_free_slot_free:
  "find_free_slot devs n < 10 \<Longrightarrow> hmd (devs (find_free_slot devs n)) = NULL"
proof (induction devs n rule: find_free_slot.induct)
  case (1 devs handle)
  show ?case
  proof (cases "handle < MAX_PSYCH_OCULUS_DEVS \<and> hmd (devs handle) \<noteq> NULL")
    case True
    with 1 show ?thesis by (subst (asm) (2) find_free_slot.simps, subst find_free_slot.simps) auto
  next
    case False
    with 1 show ?thesis
      by (subst (asm) (2) find_free_slot.simps, subst find_free_slot.simps)
         (auto simp: MAX_PSYCH_OCULUS_DEVS_def)
  qed
qed

lemma find_free_slot_occupied_below:
  "n \<le> j \<Longrightarrow> j < find_free_slot devs n \<Longrightarrow> hmd (devs j) \<noteq> NULL"
proof (induction devs n rule: find_free_slot.induct)
  case (1 devs handle)
  show ?case
  proof (cases "handle < MAX_PSYCH_OCULUS_DEVS \<and> hmd (devs handle) \<noteq> NULL")
    case True
    then have eq: "find_free_slot devs handle = find_free_slot devs (handle + 1)"
      by (subst find_free_slot.simps) simp
    show ?thesis
    proof (cases "j = handle")
      case True
      with \<open>handle < MAX_PSYCH_OCULUS_DEVS \<and> hmd (devs handle) \<noteq> NULL\<close> show ?thesis by simp
    next
      case False
      with 1 True eq show ?thesis by auto
    qed
  next
    case False
    then have "find_free_slot devs handle = handle" by (subst find_free_slot.simps) auto
    with 1 show ?thesis by simp
  qed
qed

lemma find_free_slot_cong:
  "(\<And>i. hmd (devs' i) = hmd (devs i)) \<Longrightarrow> find_free_slot devs' n = find_free_slot devs n"
proof (induction devs n rule: find_free_slot.induct)
  case (1 devs handle)
  show ?case
  proof (cases "handle < MAX_PSYCH_OCULUS_DEVS \<and> hmd (devs handle) \<noteq> NULL")
    case True
    with 1 show ?thesis by (subst (1 2) find_free_slot.simps) simp
  next
    case False
    with 1(2) show ?thesis by (subst (1 2) find_free_slot.simps) auto
  qed
qed

lemma find_free_slot_first:
  "n \<le> f \<Longrightarrow> f < 10 \<Longrightarrow> hmd (devs f) = NULL \<Longrightarrow> (\<And>j. n \<le> j \<Longrightarrow> j < f \<Longrightarrow> hmd (devs j) \<noteq> NULL)
   \<Longrightarrow> find_free_slot devs n = f"
proof (induction devs n rule: find_free_slot.induct)
  case (1 devs handle)
  show ?case
  proof (cases "handle = f")
    case True
    with 1 show ?thesis by (subst find_free_slot.simps) simp
  next
    case False
    with 1 have lt: "handle < f" by simp
    with 1 have occ: "handle < MAX_PSYCH_OCULUS_DEVS \<and> hmd (devs handle) \<noteq> NULL"
      by (simp add: MAX_PSYCH_OCULUS_DEVS_def)
    then have "find_free_slot devs handle = find_free_slot devs (handle + 1)"
      by (subst find_free_slot.simps) simp
    also have "\<dots> = f" using 1 occ lt by auto
    finally show ?thesis .
  qed
qed

subsection \<open>Stop\<close>

lemma slot_of_open: "is_open s h \<Longrightarrow> nat (h - 1) < 10"
  by (auto simp: is_open_natives)

lemma Stop_idle:
  "\<not> is_open s h \<or> \<not> isTracking (device_of s h) \<Longrightarrow> PsychOculusStop k s h = (Return (), s)"
  by (cases "is_open s h")
     (auto simp: PsychOculusStop_def GetOculus_open GetOculus_closed_dontfail device_of_def)

lemma Stop_tracking:
  "is_open s h \<Longrightarrow> isTracking (device_of s h) \<Longrightarrow>
   PsychOculusStop k s h =
     (if ovrHmd_ConfigureTracking k (sdk_calls s) (hmd (device_of s h)) [] []
      then (Return (),
            set_device (nat (h - 1)) (\<lambda>d. d\<lparr>isTracking := False\<rparr>)
              (sdk_log (Call_ovrHmd_ConfigureTracking (hmd (device_of s h)) [] []) s))
      else (ErrorExit PsychError_system
              ''Stop of Oculus HMD tracking failed for reason given above.'',
            sdk_log (Call_ovrHmd_ConfigureTracking (hmd (device_of s h)) [] []) s))"
  by (simp add: PsychOculusStop_def GetOculus_open device_of_def Let_def)

lemma Stop_cases:
  obtains (idle) "PsychOculusStop k s h = (Return (), s)"
  | (stopped) "is_open s h" "isTracking (device_of s h)"
      "PsychOculusStop k s h =
         (Return (), set_device (nat (h - 1)) (\<lambda>d. d\<lparr>isTracking := False\<rparr>)
            (sdk_log (Call_ovrHmd_ConfigureTracking (hmd (device_of s h)) [] []) s))"
  | (rejected) "is_open s h" "isTracking (device_of s h)"
      "PsychOculusStop k s h =
         (ErrorExit PsychError_system
            ''Stop of Oculus HMD tracking failed for reason given above.'',
          sdk_log (Call_ovrHmd_ConfigureTracking (hmd (device_of s h)) [] []) s)"
proof (cases "is_open s h \<and> isTracking (device_of s h)")
  case False
  then have "PsychOculusStop k s h = (Return (), s)" by (intro Stop_idle) auto
  then show ?thesis by (rule idle)
next
  case True
  then show ?thesis
    using Stop_tracking [of s h k] stopped rejected
    by (cases "ovrHmd_ConfigureTracking k (sdk_calls s) (hmd (device_of s h)) [] []") auto
qed

lemma Stop_frame:
  assumes "PsychOculusStop k s h = (r, s')"
  shows "natives s' = natives s" "devicecount s' = devicecount s"
    "available_devices s' = available_devices s" "initialized s' = initialized s"
    "r \<noteq> SegFault"
    "hmd (oculusdevices s' j) = hmd (oculusdevices s j)"
    "eyeDistortionMesh (oculusdevices s' j) = eyeDistortionMesh (oculusdevices s j)"
    "j \<noteq> nat (h - 1) \<Longrightarrow> oculusdevices s' j = oculusdevices s j"
proof -
  have "natives s' = natives s \<and> devicecount s' = devicecount s
      \<and> available_devices s' = available_devices s \<and> initialized s' = initialized s
      \<and> r \<noteq> SegFault \<and> hmd (oculusdevices s' j) = hmd (oculusdevices s j)
      \<and> eyeDistortionMesh (oculusdevices s' j) = eyeDistortionMesh (oculusdevices s j)
      \<and> (j \<noteq> nat (h - 1) \<longrightarrow> oculusdevices s' j = oculusdevices s j)"
  proof (rule Stop_cases [where k = k and s = s and h = h])
    assume "PsychOculusStop k s h = (Return (), s)"
    with assms show ?thesis by auto
  next
    assume "PsychOculusStop k s h =
         (Return (), set_device (nat (h - 1)) (\<lambda>d. d\<lparr>isTracking := False\<rparr>)
            (sdk_log (Call_ovrHmd_ConfigureTracking (hmd (device_of s h)) [] []) s))"
    with assms show ?thesis by (auto simp: natives_def fun_eq_iff)
  next
    assume "PsychOculusStop k s h =
         (ErrorExit PsychError_system
            ''Stop of Oculus HMD tracking failed for reason given above.'',
          sdk_log (Call_ovrHmd_ConfigureTracking (hmd (device_of s h)) [] []) s)"
    with assms show ?thesis by auto
  qed
  then show "natives s' = natives s" "devicecount s' = devicecount s"
    "available_devices s' = available_devices s" "initialized s' = initialized s"
    "r \<noteq> SegFault"
    "hmd (oculusdevices s' j) = hmd (oculusdevices s j)"
    "eyeDistortionMesh (oculusdevices s' j) = eyeDistortionMesh (oculusdevices s j)"
    "j \<noteq> nat (h - 1) \<Longrightarrow> oculusdevices s' j = oculusdevices s j"
    by auto
qed

lemma Stop_clears:
  "PsychOculusStop k s h = (Return u, s') \<Longrightarrow> is_open s h \<Longrightarrow>
   \<not> isTracking (oculusdevices s' (nat (h - 1)))"
  by (cases "isTracking (device_of s h)")
     (auto simp: Stop_tracking Stop_idle device_of_def split: if_splits)

subsection \<open>Close\<close>

lemma destroy_mesh_fields [simp]:
  "natives (destroy_mesh k i e s) = natives s"
  "devicecount (destroy_mesh k i e s) = devicecount s"
  "available_devices (destroy_mesh k i e s) = available_devices s"
  "initialized (destroy_mesh k i e s) = initialized s"
  "hmd (oculusdevices (destroy_mesh k i e s) j) = hmd (oculusdevices s j)"
  "isTracking (oculusdevices (destroy_mesh k i e s) j) = isTracking (oculusdevices s j)"
  "j \<noteq> i \<Longrightarrow> oculusdevices (destroy_mesh k i e s) j = oculusdevices s j"
  by (auto simp: destroy_mesh_def Let_def natives_def fun_eq_iff)

lemma release_mesh_fields [simp]:
  "natives (release_mesh k i e s) = natives s"
  "devicecount (release_mesh k i e s) = devicecount s"
  "available_devices (release_mesh k i e s) = available_devices s"
  "initialized (release_mesh k i e s) = initialized s"
  "hmd (oculusdevices (release_mesh k i e s) j) = hmd (oculusdevices s j)"
  "isTracking (oculusdevices (release_mesh k i e s) j) = isTracking (oculusdevices s j)"
  "j \<noteq> i \<Longrightarrow> oculusdevices (release_mesh k i e s) j = oculusdevices s j"
  by (simp_all add: release_mesh_def)

lemma release_mesh_none:
  "pVertexData (eyeDistortionMesh (oculusdevices s i) e) = NULL \<Longrightarrow> release_mesh k i e s = s"
  by (simp add: release_mesh_def)

lemma Close_closed: "\<not> is_open s h \<Longrightarrow> PsychOculusClose k s h = (Return (), s)"
  by (simp add: PsychOculusClose_def GetOculus_closed_dontfail)

text \<open>What a close does to an open slot once its stop has returned.\<close>

lemma Close_open:
  "is_open s h \<Longrightarrow>
   PsychOculusClose k s h =
     andThen (PsychOculusStop k s h) (\<lambda>_ s1.
       (let i = nat (h - 1);
            s2 = release_mesh k i 0 s1;
            s3 = release_mesh k i 1 s2;
            s4 = sdk_log (Call_ovrHmd_Destroy (hmd (oculusdevices s3 i))) s3;
            s5 = set_device i (\<lambda>d. d\<lparr>hmd := NULL\<rparr>) s4
        in (Return (), s5\<lparr>devicecount := devicecount s5 - 1\<rparr>)))"
  by (simp add: PsychOculusClose_def GetOculus_open Let_def)

lemma Close_frame:
  assumes "PsychOculusClose k s h = (r, s')"
  shows "available_devices s' = available_devices s" "initialized s' = initialized s"
    "r \<noteq> SegFault" "j \<noteq> nat (h - 1) \<Longrightarrow> oculusdevices s' j = oculusdevices s j"
proof -
  have "available_devices s' = available_devices s \<and> initialized s' = initialized s
      \<and> r \<noteq> SegFault \<and> (j \<noteq> nat (h - 1) \<longrightarrow> oculusdevices s' j = oculusdevices s j)"
  proof (cases "is_open s h")
    case False
    with assms show ?thesis by (auto simp: Close_closed)
  next
    case True
    obtain r1 s1 where st: "PsychOculusStop k s h = (r1, s1)" by (cases "PsychOculusStop k s h")
    note fr = Stop_frame [OF st]
    show ?thesis
      using assms fr(3,4,5) fr(8) [of j]
      by (cases r1) (auto simp: Close_open [OF True] st Let_def)
  qed
  then show "available_devices s' = available_devices s" "initialized s' = initialized s"
    "r \<noteq> SegFault" "j \<noteq> nat (h - 1) \<Longrightarrow> oculusdevices s' j = oculusdevices s j"
    by auto
qed

lemma Close_return:
  assumes "is_open s h" "PsychOculusClose k s h = (Return u, s')"
  shows "natives s' = (natives s)(nat (h - 1) := NULL)" "devicecount s' = devicecount s - 1"
proof -
  obtain r1 s1 where st: "PsychOculusStop k s h = (r1, s1)" by (cases "PsychOculusStop k s h")
  note fr = Stop_frame [OF st]
  have "natives s' = (natives s)(nat (h - 1) := NULL) \<and> devicecount s' = devicecount s - 1"
    using assms(2) fr(1,2)
    by (cases r1) (auto simp: Close_open [OF assms(1)] st Let_def)
  then show "natives s' = (natives s)(nat (h - 1) := NULL)" "devicecount s' = devicecount s - 1"
    by auto
qed

lemma Close_error:
  assumes "PsychOculusClose k s h = (ErrorExit e m, s')"
  shows "natives s' = natives s" "devicecount s' = devicecount s"
proof -
  have "natives s' = natives s \<and> devicecount s' = devicecount s"
  proof (cases "is_open s h")
    case False
    with assms show ?thesis by (simp add: Close_closed)
  next
    case True
    obtain r1 s1 where st: "PsychOculusStop k s h = (r1, s1)" by (cases "PsychOculusStop k s h")
    note fr = Stop_frame [OF st]
    show ?thesis
      using assms fr(1,2)
      by (cases r1) (auto simp: Close_open [OF True] st Let_def)
  qed
  then show "natives s' = natives s" "devicecount s' = devicecount s" by auto
qed

lemma Close_inv_count:
  assumes "devicecount s = word_of_nat (open_count s)" "PsychOculusClose k s h = (r, s')"
  shows "devicecount s' = word_of_nat (open_count s')"
proof (cases "is_open s h")
  case False
  with assms show ?thesis by (simp add: Close_closed)
next
  case True
  show ?thesis
  proof (cases r)
    case (Return u)
    with assms have c: "PsychOculusClose k s h = (Return u, s')" by simp
    have "Suc (open_count s') = open_count s"
      using True Close_return(1) [OF True c]
      by (intro open_count_release [of "nat (h - 1)"]) (auto simp: is_open_natives)
    then have "(word_of_nat (open_count s) :: 32 word) = word_of_nat (Suc (open_count s'))"
      by (rule arg_cong [OF sym])
    then have "(word_of_nat (open_count s) :: 32 word) - 1 = word_of_nat (open_count s')"
      by (simp only: of_nat_Suc add_diff_cancel_left')
    moreover have "devicecount s' = word_of_nat (open_count s) - 1"
      by (simp only: Close_return(2) [OF True c] assms(1))
    ultimately show ?thesis by (rule trans [rotated])
  next
    case (ErrorExit e m)
    with assms have c: "PsychOculusClose k s h = (ErrorExit e m, s')" by simp
    have "open_count s' = open_count s"
      by (rule open_count_same) (rule Close_error(1) [OF c])
    then show ?thesis
      by (simp only: Close_error(2) [OF c] assms(1))
  next
    case SegFault
    with assms Close_frame(3) [of k s h r s'] show ?thesis by simp
  qed
qed

subsection \<open>Open\<close>

lemma free_slot_facts:
  "find_free_slot (oculusdevices s) 0 \<le> 10"
  "find_free_slot (oculusdevices s) 0 < 10 \<Longrightarrow> natives s (find_free_slot (oculusdevices s) 0) = NULL"
  "j < find_free_slot (oculusdevices s) 0 \<Longrightarrow> natives s j \<noteq> NULL"
  using find_free_slot_bounds [of 0 "oculusdevices s"]
        find_free_slot_free [of "oculusdevices s" 0]
        find_free_slot_occupied_below [of 0 j "oculusdevices s"]
  by (auto simp: natives_def)

lemma free_slot_natives:
  "natives s' = natives s \<Longrightarrow>
   find_free_slot (oculusdevices s') 0 = find_free_slot (oculusdevices s) 0"
  by (rule find_free_slot_cong) (simp add: natives_def fun_eq_iff)

lemma slot_claimed_fields:
  "natives (slot_claimed k s c p) = (natives s)(find_free_slot (oculusdevices s) 0 := p)"
  "devicecount (slot_claimed k s c p) = devicecount s"
  "initialized (slot_claimed k s c p) = initialized (after_init k s)"
  "sdk_calls (slot_claimed k s c p) = sdk_calls (after_init k s) @ [Call_ovrHmd_Detect, c]"
  "available_devices (slot_claimed k s c p) = max 0 (ovrHmd_Detect k (sdk_calls (after_init k s)))"
  "j \<noteq> find_free_slot (oculusdevices s) 0 \<Longrightarrow>
     oculusdevices (slot_claimed k s c p) j = oculusdevices s j"
  "oculusdevices (slot_claimed k s c p) (find_free_slot (oculusdevices s) 0) =
     zero_PsychOculusDevice\<lparr>hmd := p\<rparr>"
  by (simp_all add: slot_claimed_def Let_def natives_def fun_eq_iff detect_devices_available)

lemma Open_down:
  "\<not> runtime_ready k s \<Longrightarrow>
   PSYCHOCULUSVROpen k s d =
     (ErrorExit PsychError_system
        ''PsychOculusVRCore-ERROR: Initialization of VR runtime failed. Driver disabled!'',
      sdk_log Call_ovr_Initialize s)"
  by (simp add: PSYCHOCULUSVROpen_def CheckInit_not_ready)

lemma Open_full:
  "runtime_ready k s \<Longrightarrow> find_free_slot (oculusdevices s) 0 \<ge> 10 \<Longrightarrow>
   PSYCHOCULUSVROpen k s d =
     (ErrorExit PsychError_internal
        ''Maximum number of simultaneously open Oculus VR devices reached.'', after_init k s)"
  by (simp add: PSYCHOCULUSVROpen_def CheckInit_ready Let_def MAX_PSYCH_OCULUS_DEVS_def)

lemma Open_bad_index:
  "runtime_ready k s \<Longrightarrow> find_free_slot (oculusdevices s) 0 < 10 \<Longrightarrow>
   (case d of None \<Rightarrow> 0 | Some x \<Rightarrow> x) < - 1 \<Longrightarrow>
   PSYCHOCULUSVROpen k s d =
     (ErrorExit PsychError_user
        ''Invalid 'deviceIndex' provided. Must be greater or equal to zero!'', after_init k s)"
  using free_slot_facts(2) [of s]
  by (simp add: PSYCHOCULUSVROpen_def CheckInit_ready Let_def MAX_PSYCH_OCULUS_DEVS_def natives_def)

lemma Open_not_enough:
  "runtime_ready k s \<Longrightarrow> find_free_slot (oculusdevices s) 0 < 10 \<Longrightarrow>
   0 \<le> (case d of None \<Rightarrow> 0 | Some x \<Rightarrow> x) \<Longrightarrow>
   ovrHmd_Detect k (sdk_calls (after_init k s)) \<le> (case d of None \<Rightarrow> 0 | Some x \<Rightarrow> x) \<Longrightarrow>
   PSYCHOCULUSVROpen k s d =
     (ErrorExit PsychError_user
        ''Invalid 'deviceIndex' provided. Not enough HMDs available!'',
      detect_devices k (after_init k s))"
  using free_slot_facts(2) [of s]
  by (simp add: PSYCHOCULUSVROpen_def CheckInit_ready Let_def MAX_PSYCH_OCULUS_DEVS_def natives_def
        detect_devices_available)

lemma Open_real:
  "runtime_ready k s \<Longrightarrow> find_free_slot (oculusdevices s) 0 < 10 \<Longrightarrow>
   0 \<le> (case d of None \<Rightarrow> 0 | Some x \<Rightarrow> x) \<Longrightarrow>
   (case d of None \<Rightarrow> 0 | Some x \<Rightarrow> x) < ovrHmd_Detect k (sdk_calls (after_init k s)) \<Longrightarrow>
   p = ovrHmd_Create k (sdk_calls (after_init k s) @ [Call_ovrHmd_Detect])
         (case d of None \<Rightarrow> 0 | Some x \<Rightarrow> x) \<Longrightarrow>
   c = Call_ovrHmd_Create (case d of None \<Rightarrow> 0 | Some x \<Rightarrow> x) \<Longrightarrow>
   PSYCHOCULUSVROpen k s d =
     (if p = NULL
      then (ErrorExit PsychError_user
              ''Could not connect to Rift device with given 'deviceIndex'! [ovrHmd_Create() failed]'',
            slot_claimed k s c p)
      else (Return (int (find_free_slot (oculusdevices s) 0) + 1),
            (slot_claimed k s c p)\<lparr>devicecount := devicecount s + 1\<rparr>))"
  using free_slot_facts(2) [of s]
  by (simp add: PSYCHOCULUSVROpen_def CheckInit_ready Let_def MAX_PSYCH_OCULUS_DEVS_def natives_def
        detect_devices_available slot_claimed_def open_finish_def verbosity_def)

lemma Open_debug:
  "runtime_ready k s \<Longrightarrow> find_free_slot (oculusdevices s) 0 < 10 \<Longrightarrow>
   (case d of None \<Rightarrow> 0 | Some x \<Rightarrow> x) = - 1 \<Longrightarrow>
   p = ovrHmd_CreateDebug k (sdk_calls (after_init k s) @ [Call_ovrHmd_Detect]) \<Longrightarrow>
   PSYCHOCULUSVROpen k s d =
     (if p = NULL
      then (SegFault, slot_claimed k s Call_ovrHmd_CreateDebug p)
      else (Return (int (find_free_slot (oculusdevices s) 0) + 1),
            (slot_claimed k s Call_ovrHmd_CreateDebug p)\<lparr>devicecount := devicecount s + 1\<rparr>))"
  using free_slot_facts(2) [of s]
  by (simp add: PSYCHOCULUSVROpen_def CheckInit_ready Let_def MAX_PSYCH_OCULUS_DEVS_def natives_def
        slot_claimed_def open_finish_def verbosity_def)


text \<open>Every way an \<open>Open\<close> can end.\<close>

lemma Open_cases:
  assumes "PSYCHOCULUSVROpen k s d = (r, s')"
  obtains (down) "\<not> runtime_ready k s" "s' = sdk_log Call_ovr_Initialize s" "\<And>h. r \<noteq> Return h"
  | (early) "runtime_ready k s" "s' = after_init k s \<or> s' = detect_devices k (after_init k s)"
      "\<And>h. r \<noteq> Return h"
  | (failed) c where "runtime_ready k s" "find_free_slot (oculusdevices s) 0 < 10"
      "s' = slot_claimed k s c NULL" "\<And>h. r \<noteq> Return h"
  | (returned) p c where "runtime_ready k s" "find_free_slot (oculusdevices s) 0 < 10" "p \<noteq> NULL"
      "r = Return (int (find_free_slot (oculusdevices s) 0) + 1)"
      "s' = (slot_claimed k s c p)\<lparr>devicecount := devicecount s + 1\<rparr>"
proof (cases "runtime_ready k s")
  case False
  with assms down show ?thesis by (auto simp: Open_down)
next
  case ready: True
  let ?d = "case d of None \<Rightarrow> 0 | Some x \<Rightarrow> x"
  show ?thesis
  proof (cases "find_free_slot (oculusdevices s) 0 \<ge> 10")
    case True
    with assms ready early show ?thesis by (auto simp: Open_full)
  next
    case False
    then have free: "find_free_slot (oculusdevices s) 0 < 10" by simp
    consider "?d < - 1" | "?d = - 1"
      | "0 \<le> ?d" "ovrHmd_Detect k (sdk_calls (after_init k s)) \<le> ?d"
      | "0 \<le> ?d" "?d < ovrHmd_Detect k (sdk_calls (after_init k s))"
      by linarith
    then show ?thesis
    proof cases
      case 1
      with assms ready free early show ?thesis by (auto simp: Open_bad_index)
    next
      case 2
      from assms Open_debug [OF ready free 2 refl] ready free failed returned
      show ?thesis by (auto split: if_splits)
    next
      case 3
      with assms ready free early show ?thesis by (auto simp: Open_not_enough)
    next
      case 4
      from assms Open_real [OF ready free 4 refl refl] ready free failed returned
      show ?thesis by (auto split: if_splits)
    qed
  qed
qed

lemma Open_frame:
  assumes "PSYCHOCULUSVROpen k s d = (r, s')"
  shows "natives s j \<noteq> NULL \<Longrightarrow> oculusdevices s' j = oculusdevices s j"
    and "(\<And>h. r \<noteq> Return h) \<Longrightarrow> natives s' = natives s \<and> devicecount s' = devicecount s"
    and "\<not> initialized s' \<Longrightarrow> natives s' = natives s \<and> \<not> initialized s"
    and "r \<noteq> SegFault \<Longrightarrow> runtime_ready k s \<Longrightarrow> initialized s'"
proof -
  let ?f = "find_free_slot (oculusdevices s) 0"
  have free: "?f < 10 \<Longrightarrow> natives s ?f = NULL" by (rule free_slot_facts)
  have "(natives s j \<noteq> NULL \<longrightarrow> oculusdevices s' j = oculusdevices s j)
      \<and> ((\<forall>h. r \<noteq> Return h) \<longrightarrow> natives s' = natives s \<and> devicecount s' = devicecount s)
      \<and> (\<not> initialized s' \<longrightarrow> natives s' = natives s \<and> \<not> initialized s)
      \<and> (runtime_ready k s \<longrightarrow> initialized s')"
    using assms
  proof (cases rule: Open_cases)
    case down
    then show ?thesis by (auto simp: runtime_ready_def)
  next
    case early
    with after_init_up [OF early(1)] show ?thesis by auto
  next
    case (failed c)
    have "natives s j \<noteq> NULL \<Longrightarrow> j \<noteq> ?f" using free failed(2) by auto
    with failed free after_init_up [OF failed(1)] show ?thesis
      by (auto simp: slot_claimed_fields fun_eq_iff)
  next
    case (returned p c)
    have "natives s j \<noteq> NULL \<Longrightarrow> j \<noteq> ?f" using free returned(2) by auto
    with returned free after_init_up [OF returned(1)] show ?thesis
      by (auto simp: slot_claimed_fields)
  qed
  then show "natives s j \<noteq> NULL \<Longrightarrow> oculusdevices s' j = oculusdevices s j"
    and "(\<And>h. r \<noteq> Return h) \<Longrightarrow> natives s' = natives s \<and> devicecount s' = devicecount s"
    and "\<not> initialized s' \<Longrightarrow> natives s' = natives s \<and> \<not> initialized s"
    and "r \<noteq> SegFault \<Longrightarrow> runtime_ready k s \<Longrightarrow> initialized s'"
    by auto
qed

lemma Open_returns:
  assumes "PSYCHOCULUSVROpen k s d = (Return h, s')"
  shows "h = int (find_free_slot (oculusdevices s) 0) + 1"
    and "find_free_slot (oculusdevices s) 0 < 10"
    and "natives s (find_free_slot (oculusdevices s) 0) = NULL"
    and "natives s' (find_free_slot (oculusdevices s) 0) \<noteq> NULL"
    and "natives s' = (natives s)(find_free_slot (oculusdevices s) 0 :=
                          natives s' (find_free_slot (oculusdevices s) 0))"
    and "devicecount s' = devicecount s + 1"
    and "initialized s'"
    and "j \<noteq> find_free_slot (oculusdevices s) 0 \<Longrightarrow> oculusdevices s' j = oculusdevices s j"
    and "oculusdevices s' (find_free_slot (oculusdevices s) 0) =
           zero_PsychOculusDevice\<lparr>hmd := natives s' (find_free_slot (oculusdevices s) 0)\<rparr>"
    and "runtime_ready k s"
proof -
  let ?f = "find_free_slot (oculusdevices s) 0"
  have free: "?f < 10 \<Longrightarrow> natives s ?f = NULL" by (rule free_slot_facts)
  have "h = int ?f + 1 \<and> ?f < 10 \<and> natives s ?f = NULL \<and> natives s' ?f \<noteq> NULL
      \<and> natives s' = (natives s)(?f := natives s' ?f)
      \<and> devicecount s' = devicecount s + 1 \<and> initialized s'
      \<and> (j \<noteq> ?f \<longrightarrow> oculusdevices s' j = oculusdevices s j)
      \<and> oculusdevices s' ?f = zero_PsychOculusDevice\<lparr>hmd := natives s' ?f\<rparr>
      \<and> runtime_ready k s"
    using assms
  proof (cases rule: Open_cases)
    case (returned p c)
    with free after_init_up [OF returned(1)] show ?thesis
      by (auto simp: slot_claimed_fields)
  qed auto
  then show "h = int ?f + 1" and "?f < 10" and "natives s ?f = NULL" and "natives s' ?f \<noteq> NULL"
    and "natives s' = (natives s)(?f := natives s' ?f)"
    and "devicecount s' = devicecount s + 1" and "initialized s'"
    and "j \<noteq> ?f \<Longrightarrow> oculusdevices s' j = oculusdevices s j"
    and "oculusdevices s' ?f = zero_PsychOculusDevice\<lparr>hmd := natives s' ?f\<rparr>"
    and "runtime_ready k s"
    by auto
qed

lemma Open_inv_count:
  assumes "devicecount s = word_of_nat (open_count s)" "PSYCHOCULUSVROpen k s d = (r, s')"
  shows "devicecount s' = word_of_nat (open_count s')"
proof (cases "\<exists>h. r = Return h")
  case True
  then obtain h where c: "PSYCHOCULUSVROpen k s d = (Return h, s')" using assms by auto
  have "open_count s' = Suc (open_count s)"
    using Open_returns(2,3,4,5) [OF c] by (rule open_count_claim)
  then show ?thesis
    by (simp only: Open_returns(6) [OF c] assms(1) of_nat_Suc add.commute)
next
  case False
  then have same: "natives s' = natives s \<and> devicecount s' = devicecount s"
    by (intro Open_frame(2) [OF assms(2)]) auto
  then have "open_count s' = open_count s" by (intro open_count_same) simp
  then show ?thesis using assms(1) same by simp
qed

subsection \<open>Operations that leave the lifecycle alone\<close>

lemma lifecycle_unchanged_refl [simp]: "lifecycle_unchanged s s"
  by (simp add: lifecycle_unchanged_def)

lemma lifecycle_unchanged_trans:
  "lifecycle_unchanged s s1 \<Longrightarrow> lifecycle_unchanged s1 s2 \<Longrightarrow> lifecycle_unchanged s s2"
  by (simp add: lifecycle_unchanged_def)

lemma lifecycle_unchanged_log [simp]: "lifecycle_unchanged s (sdk_log c s)"
  by (simp add: lifecycle_unchanged_def)

lemma lifecycle_unchanged_set_device:
  "hmd (f (oculusdevices s i)) = hmd (oculusdevices s i) \<Longrightarrow>
   isTracking (f (oculusdevices s i)) = isTracking (oculusdevices s i) \<Longrightarrow>
   lifecycle_unchanged s (set_device i f s)"
  by (simp add: lifecycle_unchanged_def)

lemma lifecycle_unchanged_natives: "lifecycle_unchanged s s' \<Longrightarrow> natives s' = natives s"
  by (simp add: lifecycle_unchanged_def natives_def fun_eq_iff)

lemma lifecycle_unchanged_open: "lifecycle_unchanged s s' \<Longrightarrow> is_open s' h = is_open s h"
  by (simp add: lifecycle_unchanged_def is_open_def)

lemma fov_texture_and_desc_lifecycle:
  "lifecycle_unchanged s (fov_texture_and_desc k i e f x s)"
  unfolding fov_texture_and_desc_def Let_def
  by (intro lifecycle_unchanged_trans [OF _ lifecycle_unchanged_set_device]
        lifecycle_unchanged_trans [OF _ lifecycle_unchanged_log] lifecycle_unchanged_refl) simp_all

lemma fov_create_mesh_lifecycle:
  "lifecycle_unchanged s (snd (fov_create_mesh k i e s))"
  unfolding fov_create_mesh_def Let_def snd_conv
  by (intro lifecycle_unchanged_trans [OF _ lifecycle_unchanged_set_device]
        lifecycle_unchanged_trans [OF _ lifecycle_unchanged_log] lifecycle_unchanged_refl) simp_all

lemma fov_uv_and_timewarp_lifecycle:
  "lifecycle_unchanged s (fov_uv_and_timewarp k i e s)"
  unfolding fov_uv_and_timewarp_def Let_def
  by (intro lifecycle_unchanged_trans [OF _ lifecycle_unchanged_set_device]
        lifecycle_unchanged_trans [OF _ lifecycle_unchanged_log] lifecycle_unchanged_refl) simp_all

lemma fov_body_lifecycle:
  assumes "fov_body k i e f x s = (r, s')"
  shows "lifecycle_unchanged s s'"
proof -
  let ?s1 = "fov_texture_and_desc k i e f x s"
  let ?s2 = "snd (fov_create_mesh k i (nat e) ?s1)"
  have 1: "lifecycle_unchanged s ?s2"
    by (rule lifecycle_unchanged_trans [OF fov_texture_and_desc_lifecycle fov_create_mesh_lifecycle])
  have 2: "lifecycle_unchanged s (fov_uv_and_timewarp k i e ?s2)"
    by (rule lifecycle_unchanged_trans [OF 1 fov_uv_and_timewarp_lifecycle])
  have "s' = ?s2 \<or> s' = fov_uv_and_timewarp k i e ?s2"
    using assms unfolding fov_body_def Let_def
    by (auto simp: split_def split: if_splits option.splits)
  with 1 2 show ?thesis by auto
qed

lemma fov_body_not_user_error:
  "fov_body k i e f x s = (r, s') \<Longrightarrow> r \<noteq> ErrorExit PsychError_user m"
  unfolding fov_body_def Let_def
  by (auto simp: split_def split: if_splits option.splits)

subsection \<open>Shutdown\<close>

lemma shutdown_loop_step:
  "handle < 10 \<Longrightarrow> PsychOculusClose k s handle = (Return u, s1) \<Longrightarrow>
   shutdown_loop k handle s = shutdown_loop k (handle + 1) s1"
  by (subst shutdown_loop.simps) (simp add: MAX_PSYCH_OCULUS_DEVS_def)

lemma shutdown_loop_abort:
  "handle < 10 \<Longrightarrow> PsychOculusClose k s handle = (ErrorExit e m, s1) \<Longrightarrow>
   shutdown_loop k handle s = (ErrorExit e m, s1)"
  by (subst shutdown_loop.simps) (simp add: MAX_PSYCH_OCULUS_DEVS_def)

lemma shutdown_loop_done: "\<not> handle < 10 \<Longrightarrow> shutdown_loop k handle s = (Return (), s)"
  by (subst shutdown_loop.simps) (simp add: MAX_PSYCH_OCULUS_DEVS_def)

lemma Close_keeps_free:
  assumes "PsychOculusClose k s h = (r, s1)" "natives s i = NULL"
  shows "natives s1 i = NULL"
proof (cases r)
  case (Return u)
  show ?thesis
  proof (cases "is_open s h")
    case True
    from Close_return(1) [OF True assms(1) [unfolded Return]] assms(2) show ?thesis by simp
  next
    case False
    with assms show ?thesis by (simp add: Close_closed)
  qed
next
  case (ErrorExit e m)
  from Close_error(1) [OF assms(1) [unfolded ErrorExit]] assms(2) show ?thesis by simp
next
  case SegFault
  with Close_frame(3) [OF assms(1)] show ?thesis by simp
qed

lemma shutdown_loop_frame:
  "shutdown_loop k handle s = (r, s') \<Longrightarrow>
   initialized s' = initialized s \<and> available_devices s' = available_devices s \<and> r \<noteq> SegFault
     \<and> oculusdevices s' 9 = oculusdevices s 9
     \<and> (devicecount s = word_of_nat (open_count s) \<longrightarrow> devicecount s' = word_of_nat (open_count s'))
     \<and> (natives s i = NULL \<longrightarrow> natives s' i = NULL)"
proof (induction k handle s rule: shutdown_loop.induct)
  case (1 k handle s)
  show ?case
  proof (cases "handle < 10")
    case False
    with 1(2) show ?thesis by (auto simp: shutdown_loop_done)
  next
    case True
    obtain r1 s1 where c: "PsychOculusClose k s handle = (r1, s1)"
      by (cases "PsychOculusClose k s handle")
    note fr = Close_frame [OF c]
    have slot9: "oculusdevices s1 9 = oculusdevices s 9"
      using True by (intro fr(4)) simp
    have cnt: "devicecount s = word_of_nat (open_count s) \<Longrightarrow> devicecount s1 = word_of_nat (open_count s1)"
      by (rule Close_inv_count [OF _ c])
    have keep: "natives s i = NULL \<Longrightarrow> natives s1 i = NULL"
      by (rule Close_keeps_free [OF c])
    show ?thesis
    proof (cases r1)
      case (Return u)
      have "shutdown_loop k (handle + 1) s1 = (r, s')"
        using 1(2) shutdown_loop_step [OF True c [unfolded Return]] by simp
      from 1(1) [OF _ c [symmetric] Return this] True
      show ?thesis using fr(1,2) slot9 cnt keep by (simp add: MAX_PSYCH_OCULUS_DEVS_def)
    next
      case (ErrorExit e m)
      with 1(2) shutdown_loop_abort [OF True c [unfolded ErrorExit]]
      show ?thesis using fr(1,2) slot9 cnt keep by auto
    next
      case SegFault
      with fr(3) show ?thesis by simp
    qed
  qed
qed

lemma shutdown_loop_closes:
  "shutdown_loop k handle s = (Return u, s') \<Longrightarrow>
   (\<forall>h. handle \<le> h \<and> 1 \<le> h \<and> h \<le> 9 \<longrightarrow> natives s' (nat (h - 1)) = NULL)
     \<and> (\<forall>i. natives s i = NULL \<longrightarrow> natives s' i = NULL)"
proof (induction k handle s rule: shutdown_loop.induct)
  case (1 k handle s)
  show ?case
  proof (cases "handle < 10")
    case False
    with 1(2) show ?thesis by (simp add: shutdown_loop_done)
  next
    case True
    obtain r1 s1 where c: "PsychOculusClose k s handle = (r1, s1)"
      by (cases "PsychOculusClose k s handle")
    show ?thesis
    proof (cases r1)
      case (Return v)
      note c' = c [unfolded Return]
      have rest: "shutdown_loop k (handle + 1) s1 = (Return u, s')"
        using 1(2) shutdown_loop_step [OF True c'] by simp
      have ih: "(\<forall>h. handle + 1 \<le> h \<and> 1 \<le> h \<and> h \<le> 9 \<longrightarrow> natives s' (nat (h - 1)) = NULL)
          \<and> (\<forall>i. natives s1 i = NULL \<longrightarrow> natives s' i = NULL)"
        using 1(1) [OF _ c [symmetric] Return rest] True by (simp add: MAX_PSYCH_OCULUS_DEVS_def)
      have s1: "natives s1 = (if is_open s handle then (natives s)(nat (handle - 1) := NULL)
                              else natives s)"
        using c' Close_return(1) [of s handle k v s1] by (auto simp: Close_closed)
      have here: "1 \<le> handle \<Longrightarrow> natives s1 (nat (handle - 1)) = NULL"
        using s1 True by (auto simp: is_open_natives)
      have keep: "\<And>i. natives s i = NULL \<Longrightarrow> natives s1 i = NULL"
        using s1 by auto
      show ?thesis
      proof (intro conjI allI impI)
        fix h assume h: "handle \<le> h \<and> 1 \<le> h \<and> h \<le> 9"
        show "natives s' (nat (h - 1)) = NULL"
        proof (cases "h = handle")
          case True
          with h here ih show ?thesis by auto
        next
          case False
          with h ih show ?thesis by auto
        qed
      next
        fix i assume "natives s i = NULL"
        with keep ih show "natives s' i = NULL" by auto
      qed
    next
      case (ErrorExit e m)
      with 1(2) shutdown_loop_abort [OF True c [unfolded ErrorExit]] show ?thesis by simp
    next
      case SegFault
      with Close_frame(3) [OF c] show ?thesis by simp
    qed
  qed
qed

lemma slots_below_9: "list_all (\<lambda>i. natives s i = NULL) [0..<9] \<longleftrightarrow> (\<forall>i<9. natives s i = NULL)"
  by (auto simp: list_all_iff)

lemma slots_below_9_handles:
  "(\<forall>i<9. natives s i = NULL) \<longleftrightarrow> (\<forall>h. 1 \<le> h \<and> h \<le> 9 \<longrightarrow> \<not> is_open s h)"
proof
  assume a: "\<forall>i<9. natives s i = NULL"
  show "\<forall>h. 1 \<le> h \<and> h \<le> 9 \<longrightarrow> \<not> is_open s h"
  proof (intro allI impI)
    fix h :: int assume "1 \<le> h \<and> h \<le> 9"
    then have "nat (h - 1) < 9" by linarith
    with a show "\<not> is_open s h" by (simp add: is_open_natives)
  qed
next
  assume a: "\<forall>h. 1 \<le> h \<and> h \<le> 9 \<longrightarrow> \<not> is_open s h"
  show "\<forall>i<9. natives s i = NULL"
  proof (intro allI impI)
    fix i :: nat assume "i < 9"
    then have "1 \<le> int i + 1 \<and> int i + 1 \<le> 9" by simp
    with a have "\<not> is_open s (int i + 1)" by blast
    with \<open>i < 9\<close> show "natives s i = NULL" by (simp add: is_open_natives)
  qed
qed

lemma initialized_False_idem: "\<not> initialized s \<Longrightarrow> s\<lparr>initialized := False\<rparr> = s"
  by (cases s) simp

lemma ShutDown_effect:
  assumes "PsychOculusVRShutDown k s = (r, s')"
  shows "r \<noteq> SegFault"
    and "available_devices s' = available_devices s"
    and "oculusdevices s' 9 = oculusdevices s 9"
    and "devicecount s = word_of_nat (open_count s) \<Longrightarrow> devicecount s' = word_of_nat (open_count s')"
    and "r = Return u \<Longrightarrow> \<not> initialized s'"
    and "r = Return u \<Longrightarrow> initialized s \<Longrightarrow> \<forall>i<9. natives s' i = NULL"
    and "\<not> initialized s \<Longrightarrow> s' = s \<and> r = Return ()"
    and "r = ErrorExit e m \<Longrightarrow> initialized s'"
    and "natives s i = NULL \<Longrightarrow> natives s' i = NULL"
proof -
  have "r \<noteq> SegFault \<and> available_devices s' = available_devices s
      \<and> oculusdevices s' 9 = oculusdevices s 9
      \<and> (devicecount s = word_of_nat (open_count s) \<longrightarrow> devicecount s' = word_of_nat (open_count s'))
      \<and> (r = Return u \<longrightarrow> \<not> initialized s')
      \<and> (r = Return u \<longrightarrow> initialized s \<longrightarrow> (\<forall>i<9. natives s' i = NULL))
      \<and> (\<not> initialized s \<longrightarrow> s' = s \<and> r = Return ())
      \<and> (r = ErrorExit e m \<longrightarrow> initialized s')
      \<and> (natives s i = NULL \<longrightarrow> natives s' i = NULL)"
  proof (cases "initialized s")
    case False
    with assms show ?thesis by (auto simp: PsychOculusVRShutDown_def initialized_False_idem)
  next
    case True
    obtain r1 s1 where l: "shutdown_loop k 0 s = (r1, s1)" by (cases "shutdown_loop k 0 s")
    note fr = shutdown_loop_frame [OF l, of i]
    show ?thesis
    proof (cases r1)
      case (Return v)
      from shutdown_loop_closes [OF l [unfolded Return]]
      have closed: "\<forall>h. 1 \<le> h \<and> h \<le> 9 \<longrightarrow> natives s1 (nat (h - 1)) = NULL"
        and keep: "\<forall>i. natives s i = NULL \<longrightarrow> natives s1 i = NULL" by auto
      have "\<forall>i<9. natives s1 i = NULL"
      proof (intro allI impI)
        fix i :: nat assume "i < 9"
        then have "1 \<le> int i + 1 \<and> int i + 1 \<le> 9" by simp
        with closed have "natives s1 (nat (int i + 1 - 1)) = NULL" by blast
        then show "natives s1 i = NULL" by simp
      qed
      moreover have "open_count ((sdk_log Call_ovr_Shutdown s1)\<lparr>initialized := False\<rparr>) = open_count s1"
        by (intro open_count_same) simp
      ultimately show ?thesis
        using assms True fr keep
        by (auto simp: PsychOculusVRShutDown_def l Return)
    next
      case (ErrorExit e' m')
      with assms True fr show ?thesis
        by (auto simp: PsychOculusVRShutDown_def l)
    next
      case SegFault
      with fr show ?thesis by simp
    qed
  qed
  then show "r \<noteq> SegFault"
    and "available_devices s' = available_devices s"
    and "oculusdevices s' 9 = oculusdevices s 9"
    and "devicecount s = word_of_nat (open_count s) \<Longrightarrow> devicecount s' = word_of_nat (open_count s')"
    and "r = Return u \<Longrightarrow> \<not> initialized s'"
    and "r = Return u \<Longrightarrow> initialized s \<Longrightarrow> \<forall>i<9. natives s' i = NULL"
    and "\<not> initialized s \<Longrightarrow> s' = s \<and> r = Return ()"
    and "r = ErrorExit e m \<Longrightarrow> initialized s'"
    and "natives s i = NULL \<Longrightarrow> natives s' i = NULL"
    by auto
qed

subsection \<open>The subfunctions after their initialisation check\<close>

lemma subfunctions_down:
  assumes "\<not> runtime_ready k s"
  shows "fst (PSYCHOCULUSVRGetCount k s) \<noteq> SegFault \<and> snd (PSYCHOCULUSVRGetCount k s) = sdk_log Call_ovr_Initialize s"
    and "fst (PSYCHOCULUSVRClose k s a) \<noteq> SegFault \<and> snd (PSYCHOCULUSVRClose k s a) = sdk_log Call_ovr_Initialize s"
    and "fst (PSYCHOCULUSVRStart k s h) \<noteq> SegFault \<and> snd (PSYCHOCULUSVRStart k s h) = sdk_log Call_ovr_Initialize s"
    and "fst (PSYCHOCULUSVRStop k s h) \<noteq> SegFault \<and> snd (PSYCHOCULUSVRStop k s h) = sdk_log Call_ovr_Initialize s"
    and "fst (PSYCHOCULUSVRGetTrackingState k s h t) \<noteq> SegFault
         \<and> snd (PSYCHOCULUSVRGetTrackingState k s h t) = sdk_log Call_ovr_Initialize s"
    and "fst (PSYCHOCULUSVRGetFovTextureSize k s h e f x) \<noteq> SegFault
         \<and> snd (PSYCHOCULUSVRGetFovTextureSize k s h e f x) = sdk_log Call_ovr_Initialize s"
  using assms
  by (simp_all add: PSYCHOCULUSVRGetCount_def PSYCHOCULUSVRClose_def PSYCHOCULUSVRStart_def
        PSYCHOCULUSVRStop_def PSYCHOCULUSVRGetTrackingState_def PSYCHOCULUSVRGetFovTextureSize_def
        CheckInit_not_ready)

lemma GetCount_ready:
  "runtime_ready k s \<Longrightarrow>
   PSYCHOCULUSVRGetCount k s =
     (Return (max 0 (ovrHmd_Detect k (sdk_calls (after_init k s)))),
      detect_devices k (after_init k s))"
  by (simp add: PSYCHOCULUSVRGetCount_def CheckInit_ready Let_def detect_devices_available)

lemma Stop_ready:
  "runtime_ready k s \<Longrightarrow> PSYCHOCULUSVRStop k s h = PsychOculusStop k (after_init k s) h"
  by (simp add: PSYCHOCULUSVRStop_def CheckInit_ready)

lemma Close_ready:
  "runtime_ready k s \<Longrightarrow>
   PSYCHOCULUSVRClose k s a =
     (if (case a of None \<Rightarrow> - 1 | Some h \<Rightarrow> h) \<ge> 1
      then PsychOculusClose k (after_init k s) (case a of None \<Rightarrow> - 1 | Some h \<Rightarrow> h)
      else PsychOculusVRShutDown k (after_init k s))"
  by (simp add: PSYCHOCULUSVRClose_def CheckInit_ready Let_def)

lemma Start_closed:
  "runtime_ready k s \<Longrightarrow> \<not> is_open s h \<Longrightarrow>
   PSYCHOCULUSVRStart k s h = (ErrorExit PsychError_user ''Invalid Oculus handle.'', after_init k s)"
  by (simp add: PSYCHOCULUSVRStart_def CheckInit_ready GetOculus_closed_fail)

lemma Start_tracking:
  "runtime_ready k s \<Longrightarrow> is_open s h \<Longrightarrow> isTracking (device_of s h) \<Longrightarrow>
   PSYCHOCULUSVRStart k s h =
     (ErrorExit PsychError_user ''Tried to start tracking on HMD, but tracking already active.'',
      after_init k s)"
  by (simp add: PSYCHOCULUSVRStart_def CheckInit_ready GetOculus_open device_of_def)

lemma Start_stopped:
  "runtime_ready k s \<Longrightarrow> is_open s h \<Longrightarrow> \<not> isTracking (device_of s h) \<Longrightarrow>
   PSYCHOCULUSVRStart k s h =
     (if ovrHmd_ConfigureTracking k (sdk_calls (after_init k s)) (hmd (device_of s h)) start_caps []
      then (Return (),
            set_device (nat (h - 1)) (\<lambda>d. d\<lparr>isTracking := True\<rparr>)
              (sdk_log (Call_ovrHmd_ConfigureTracking (hmd (device_of s h)) start_caps [])
                 (after_init k s)))
      else (ErrorExit PsychError_system
              ''Start of Oculus HMD tracking failed for reason given above.'',
            sdk_log (Call_ovrHmd_ConfigureTracking (hmd (device_of s h)) start_caps [])
              (after_init k s)))"
  by (simp add: PSYCHOCULUSVRStart_def CheckInit_ready GetOculus_open device_of_def Let_def)

lemma GetTrackingState_closed:
  "runtime_ready k s \<Longrightarrow> \<not> is_open s h \<Longrightarrow>
   PSYCHOCULUSVRGetTrackingState k s h t =
     (ErrorExit PsychError_user ''Invalid Oculus handle.'', after_init k s)"
  by (simp add: PSYCHOCULUSVRGetTrackingState_def CheckInit_ready GetOculus_closed_fail)

lemma GetTrackingState_open:
  "runtime_ready k s \<Longrightarrow> is_open s h \<Longrightarrow>
   PSYCHOCULUSVRGetTrackingState k s h t =
     (Return (tracking_vector (sdk_tracking_state k s h t)),
      sdk_log (Call_ovrHmd_GetTrackingState (hmd (device_of s h))
                 (case t of None \<Rightarrow> 0 | Some x \<Rightarrow> x)) (after_init k s))"
  by (simp add: PSYCHOCULUSVRGetTrackingState_def CheckInit_ready GetOculus_open device_of_def
        Let_def sdk_tracking_state_def)

lemma GetFov_closed:
  "runtime_ready k s \<Longrightarrow> \<not> is_open s h \<Longrightarrow>
   PSYCHOCULUSVRGetFovTextureSize k s h e f x =
     (ErrorExit PsychError_user ''Invalid Oculus handle.'', after_init k s)"
  by (simp add: PSYCHOCULUSVRGetFovTextureSize_def CheckInit_ready GetOculus_closed_fail)

lemma GetFov_bad_scale:
  "runtime_ready k s \<Longrightarrow> is_open s h \<Longrightarrow> 0 \<le> e \<Longrightarrow> e \<le> 1 \<Longrightarrow> x \<le> 0 \<Longrightarrow>
   PSYCHOCULUSVRGetFovTextureSize k s h e f (Some x) =
     (ErrorExit PsychError_user
        (if (case f of Some fov \<Rightarrow> length fov \<noteq> 4 | None \<Rightarrow> False)
         then ''Invalid 'fov' specified. Must be a 4-component vector of form [leftdeg, rightdeg, updeg, downdeg].''
         else ''Invalid 'pixelsPerDisplay' specified. Must be greater than zero.''),
      after_init k s)"
  by (simp add: PSYCHOCULUSVRGetFovTextureSize_def CheckInit_ready GetOculus_open Let_def)

lemma GetFov_lifecycle:
  assumes "runtime_ready k s" "PSYCHOCULUSVRGetFovTextureSize k s h e f x = (r, s')"
  shows "lifecycle_unchanged (after_init k s) s'"
proof (cases "is_open s h")
  case False
  with assms show ?thesis by (simp add: GetFov_closed)
next
  case True
  have "s' = after_init k s \<or> (\<exists>i ofov ppd. fov_body k i e ofov ppd (after_init k s) = (r, s'))"
    using assms(2)
    by (auto simp: PSYCHOCULUSVRGetFovTextureSize_def CheckInit_ready [OF assms(1)]
          GetOculus_open [OF True [folded is_open_after_init [of k s h]]] Let_def
        split: if_splits)
  then show ?thesis by (auto dest: fov_body_lifecycle)
qed

subsection \<open>The sample states\<close>

lemma fresh_fields [simp]:
  "natives fresh = (\<lambda>_. NULL)"
  "oculusdevices fresh = (\<lambda>_. zero_PsychOculusDevice)"
  "devicecount fresh = 0"
  "available_devices fresh = 0"
  "initialized fresh = False"
  "sdk_calls fresh = []"
  by (auto simp: fresh_def PsychOculusVRInit_def static_storage_def natives_def
        zero_PsychOculusDevice_def fun_eq_iff)

lemma emulated_ready [simp]: "runtime_ready sdk_emulated s"
  by (simp add: runtime_ready_def sdk_emulated_def)

lemma no_debug_ready [simp]: "runtime_ready sdk_no_debug_device s"
  by (simp add: runtime_ready_def sdk_no_debug_device_def sdk_emulated_def)

lemma find_free_slot_fresh [simp]: "find_free_slot (\<lambda>_. zero_PsychOculusDevice) 0 = 0"
  by (subst find_free_slot.simps) (simp add: zero_PsychOculusDevice_def)

lemma after_init_calls:
  "sdk_calls (after_init k s) =
     sdk_calls s @
       (if initialized s then []
        else if ovr_Initialize k (sdk_calls s) then [Call_ovr_Initialize, Call_ovrHmd_Detect]
        else [Call_ovr_Initialize])"
  by (simp add: after_init_def PsychOculusVRCheckInit_def Let_def)

lemma emulated_fields [simp]:
  "ovr_Initialize sdk_emulated t = True"
  "ovrHmd_Detect sdk_emulated t = 1"
  "ovrHmd_Create sdk_emulated t d = Suc (length t)"
  "ovrHmd_CreateDebug sdk_emulated t = Suc (length t)"
  "ovrHmd_ConfigureTracking sdk_emulated t p c r = True"
  "ovrHmd_GetTrackingState sdk_emulated t p x = static_head x"
  by (simp_all add: sdk_emulated_def)

lemma one_open_eq:
  "PSYCHOCULUSVROpen sdk_emulated fresh (Some (- 1)) =
     (Return 1, (slot_claimed sdk_emulated fresh Call_ovrHmd_CreateDebug 4)\<lparr>devicecount := 1\<rparr>)"
  by (subst Open_debug [where p = 4]) (simp_all add: after_init_calls)

lemma one_open_fields:
  "is_open one_open 1" "initialized one_open" "\<not> isTracking (device_of one_open 1)"
  "\<not> is_open one_open 2" "devicecount one_open = 1"
  "hmd (device_of one_open 1) = 4"
  "sdk_calls one_open =
     [Call_ovr_Initialize, Call_ovrHmd_Detect, Call_ovrHmd_Detect, Call_ovrHmd_CreateDebug]"
proof -
  have f: "find_free_slot (oculusdevices fresh) 0 = 0" by simp
  note fields = slot_claimed_fields [where k = sdk_emulated and s = fresh, unfolded f]
  show "is_open one_open 1" "\<not> is_open one_open 2"
    by (simp_all add: one_open_def one_open_eq is_open_natives fields(1))
  show "initialized one_open"
    by (simp add: one_open_def one_open_eq fields(3) after_init_up)
  show "\<not> isTracking (device_of one_open 1)" "hmd (device_of one_open 1) = 4"
    by (simp_all add: one_open_def one_open_eq device_of_def fields(7) zero_PsychOculusDevice_def)
  show "devicecount one_open = 1" by (simp add: one_open_def one_open_eq)
  show "sdk_calls one_open =
     [Call_ovr_Initialize, Call_ovrHmd_Detect, Call_ovrHmd_Detect, Call_ovrHmd_CreateDebug]"
    by (simp add: one_open_def one_open_eq fields(4) after_init_calls)
qed

subsection \<open>Tracking state, scale factor, handles that are not open\<close>

text \<open>
  Claim C8. For an open handle, with the runtime up or able to start, and for every
  prediction time (given or left at its default 0), \<open>GetTrackingState\<close> returns
  twenty numbers: the time stamp, position x/y/z, orientation x/y/z/w, linear velocity,
  angular velocity, linear acceleration and angular acceleration, each the field of the
  structure the SDK returned, unchanged; the SDK is asked once, with that time.
\<close>

theorem tracking_state_layout:
  assumes "is_open s handle" and "runtime_ready k s"
  shows "fst (PSYCHOCULUSVRGetTrackingState k s handle t) =
           Return
             [TimeInSeconds (HeadPose (sdk_tracking_state k s handle t)),
              x3 (Position (ThePose (HeadPose (sdk_tracking_state k s handle t)))),
              y3 (Position (ThePose (HeadPose (sdk_tracking_state k s handle t)))),
              z3 (Position (ThePose (HeadPose (sdk_tracking_state k s handle t)))),
              qx (Orientation (ThePose (HeadPose (sdk_tracking_state k s handle t)))),
              qy (Orientation (ThePose (HeadPose (sdk_tracking_state k s handle t)))),
              qz (Orientation (ThePose (HeadPose (sdk_tracking_state k s handle t)))),
              qw (Orientation (ThePose (HeadPose (sdk_tracking_state k s handle t)))),
              x3 (LinearVelocity (HeadPose (sdk_tracking_state k s handle t))),
              y3 (LinearVelocity (HeadPose (sdk_tracking_state k s handle t))),
              z3 (LinearVelocity (HeadPose (sdk_tracking_state k s handle t))),
              x3 (AngularVelocity (HeadPose (sdk_tracking_state k s handle t))),
              y3 (AngularVelocity (HeadPose (sdk_tracking_state k s handle t))),
              z3 (AngularVelocity (HeadPose (sdk_tracking_state k s handle t))),
              x3 (LinearAcceleration (HeadPose (sdk_tracking_state k s handle t))),
              y3 (LinearAcceleration (HeadPose (sdk_tracking_state k s handle t))),
              z3 (LinearAcceleration (HeadPose (sdk_tracking_state k s handle t))),
              x3 (AngularAcceleration (HeadPose (sdk_tracking_state k s handle t))),
              y3 (AngularAcceleration (HeadPose (sdk_tracking_state k s handle t))),
              z3 (AngularAcceleration (HeadPose (sdk_tracking_state k s handle t)))]
       \<and> length (case fst (PSYCHOCULUSVRGetTrackingState k s handle t) of
                   Return v \<Rightarrow> v | _ \<Rightarrow> []) = 20
       \<and> sdk_calls (snd (PSYCHOCULUSVRGetTrackingState k s handle t)) =
           sdk_calls (after_init k s) @
             [Call_ovrHmd_GetTrackingState (hmd (device_of s handle))
                (case t of None \<Rightarrow> 0 | Some x \<Rightarrow> x)]"
  by (simp add: GetTrackingState_open [OF assms(2,1)] tracking_vector_cells)

theorem tracking_state_layout_witness:
  "is_open one_open 1 \<and> runtime_ready sdk_emulated one_open
   \<and> fst (PSYCHOCULUSVRGetTrackingState sdk_emulated one_open 1 (Some 2)) =
       Return [2, 0, 17 / 10, 0, 0, 0, 0, 1, 0, 0, 0, 0, 0, 0, 0, 0, 0, 0, 0, 0]"
proof -
  have o: "is_open one_open 1" by (rule one_open_fields)
  have r: "runtime_ready sdk_emulated one_open" by simp
  from tracking_state_layout [OF o r, of "Some 2"] o r show ?thesis
    by (simp add: sdk_tracking_state_def static_head_def zero_ovrVector3f_def)
qed

text \<open>
  Claim C9. For an open handle, an eye index of 0 or 1 and any field-of-view argument,
  \<open>GetFovTextureSize\<close> with \<open>pixelsPerDisplay <= 0\<close> exits with a user error, and
  it leaves the state its initialisation check produced: no call into the SDK carries
  the scale factor.
\<close>

theorem nonpositive_scale_rejected:
  assumes "is_open s handle" and "runtime_ready k s"
    and "0 \<le> eyeIndex" and "eyeIndex \<le> 1" and "pixelsPerDisplay \<le> 0"
  shows "fst (PSYCHOCULUSVRGetFovTextureSize k s handle eyeIndex fov (Some pixelsPerDisplay)) =
           ErrorExit PsychError_user
             (if (case fov of Some cells \<Rightarrow> length cells \<noteq> 4 | None \<Rightarrow> False)
              then ''Invalid 'fov' specified. Must be a 4-component vector of form [leftdeg, rightdeg, updeg, downdeg].''
              else ''Invalid 'pixelsPerDisplay' specified. Must be greater than zero.'')
       \<and> snd (PSYCHOCULUSVRGetFovTextureSize k s handle eyeIndex fov (Some pixelsPerDisplay)) =
           after_init k s
       \<and> filter is_scale_query
           (sdk_calls (snd (PSYCHOCULUSVRGetFovTextureSize k s handle eyeIndex fov
                              (Some pixelsPerDisplay)))) =
           filter is_scale_query (sdk_calls s)"
  by (simp add: GetFov_bad_scale [OF assms(2,1,3,4,5)] after_init_calls)

theorem nonpositive_scale_rejected_witness:
  "is_open one_open 1 \<and> runtime_ready sdk_emulated one_open \<and> (0::int) \<le> 1 \<and> (1::int) \<le> 1
   \<and> (- 1 / 2 :: real) \<le> 0
   \<and> PSYCHOCULUSVRGetFovTextureSize sdk_emulated one_open 1 1 (Some [45, 45, 45, 45]) (Some (- 1 / 2)) =
       (ErrorExit PsychError_user
          ''Invalid 'pixelsPerDisplay' specified. Must be greater than zero.'', one_open)"
proof -
  have o: "is_open one_open 1" by (rule one_open_fields)
  have r: "runtime_ready sdk_emulated one_open" by simp
  have i: "after_init sdk_emulated one_open = one_open"
    by (simp add: one_open_fields)
  from nonpositive_scale_rejected [OF o r, of 1 "- 1 / 2" "Some [45, 45, 45, 45]"] o r i
  show ?thesis by (simp add: prod_eq_iff)
qed

text \<open>
  Claim C1, as the code has it. For a handle that is not open, with the runtime up or
  able to start: \<open>Start\<close>, \<open>GetTrackingState\<close> and \<open>GetFovTextureSize\<close> exit with
  the user error "Invalid Oculus handle."; \<open>Stop\<close>, and \<open>Close\<close> of a handle of at
  least 1, return normally. Each leaves the state its initialisation check produced,
  which is the state it started from when the runtime was already up.
\<close>

theorem invalid_handle_outcomes:
  assumes "\<not> is_open s handle" and "runtime_ready k s"
  shows "PSYCHOCULUSVRStart k s handle =
           (ErrorExit PsychError_user ''Invalid Oculus handle.'', after_init k s)
       \<and> PSYCHOCULUSVRGetTrackingState k s handle t =
           (ErrorExit PsychError_user ''Invalid Oculus handle.'', after_init k s)
       \<and> PSYCHOCULUSVRGetFovTextureSize k s handle e f x =
           (ErrorExit PsychError_user ''Invalid Oculus handle.'', after_init k s)
       \<and> PSYCHOCULUSVRStop k s handle = (Return (), after_init k s)
       \<and> (1 \<le> handle \<longrightarrow> PSYCHOCULUSVRClose k s (Some handle) = (Return (), after_init k s))
       \<and> (initialized s \<longrightarrow> after_init k s = s)"
  using assms
  by (simp add: Start_closed GetTrackingState_closed GetFov_closed Stop_ready Stop_idle
        Close_ready Close_closed)

theorem invalid_handle_outcomes_witness:
  "\<not> is_open one_open 2 \<and> runtime_ready sdk_emulated one_open \<and> (1::int) \<le> 2 \<and> initialized one_open
   \<and> PSYCHOCULUSVRStart sdk_emulated one_open 2 =
       (ErrorExit PsychError_user ''Invalid Oculus handle.'', one_open)
   \<and> PSYCHOCULUSVRGetTrackingState sdk_emulated one_open 2 None =
       (ErrorExit PsychError_user ''Invalid Oculus handle.'', one_open)
   \<and> PSYCHOCULUSVRGetFovTextureSize sdk_emulated one_open 2 0 None None =
       (ErrorExit PsychError_user ''Invalid Oculus handle.'', one_open)
   \<and> PSYCHOCULUSVRStop sdk_emulated one_open 2 = (Return (), one_open)
   \<and> PSYCHOCULUSVRClose sdk_emulated one_open (Some 2) = (Return (), one_open)"
proof -
  have c: "\<not> is_open one_open 2" by (rule one_open_fields)
  have r: "runtime_ready sdk_emulated one_open" by simp
  have i: "initialized one_open" by (rule one_open_fields)
  from invalid_handle_outcomes [OF c r, of None 0 None None] c r i show ?thesis by simp
qed

text \<open>
  Claim C1 as stated fails: handle 2 is not open, and \<open>Stop\<close> and \<open>Close\<close> on it
  return normally instead of exiting with a user error.
\<close>

theorem invalid_handle_counterexample:
  "\<not> is_open one_open 2
   \<and> fst (PSYCHOCULUSVRStop sdk_emulated one_open 2) = Return ()
   \<and> fst (PSYCHOCULUSVRClose sdk_emulated one_open (Some 2)) = Return ()
   \<and> fst (PSYCHOCULUSVRStop sdk_emulated one_open 2) \<noteq> ErrorExit PsychError_user ''Invalid Oculus handle.''"
  by (simp add: one_open_fields Stop_ready Stop_idle Close_ready Close_closed)

subsection \<open>The tracking flag\<close>

lemma slots_differ:
  "is_open s h \<Longrightarrow> is_open s h' \<Longrightarrow> h' \<noteq> h \<Longrightarrow> nat (h - 1) \<noteq> nat (h' - 1)"
  by (auto simp: is_open_def)

lemma flag_after_init [simp]:
  "isTracking (device_of (after_init k s) h) = isTracking (device_of s h)"
  by simp

lemma flag_GetCount:
  "isTracking (device_of (snd (PSYCHOCULUSVRGetCount k s)) h) = isTracking (device_of s h)"
proof (cases "runtime_ready k s")
  case True
  then show ?thesis by (simp add: GetCount_ready device_of_def)
next
  case False
  from subfunctions_down(1) [OF this] show ?thesis by (simp add: device_of_def)
qed

lemma flag_Open:
  assumes "is_open s h"
  shows "isTracking (device_of (snd (PSYCHOCULUSVROpen k s d)) h) = isTracking (device_of s h)"
proof -
  obtain r s' where o: "PSYCHOCULUSVROpen k s d = (r, s')" by (cases "PSYCHOCULUSVROpen k s d")
  have "natives s (nat (h - 1)) \<noteq> NULL" using assms by (simp add: is_open_natives)
  from Open_frame(1) [OF o this] show ?thesis by (simp add: o device_of_def)
qed

lemma flag_GetTrackingState:
  "isTracking (device_of (snd (PSYCHOCULUSVRGetTrackingState k s h' t)) h) = isTracking (device_of s h)"
proof (cases "runtime_ready k s")
  case True
  then show ?thesis
    by (cases "is_open s h'")
       (simp_all add: GetTrackingState_open GetTrackingState_closed device_of_def)
next
  case False
  from subfunctions_down(5) [OF this] show ?thesis by (simp add: device_of_def)
qed

lemma flag_GetFov:
  "isTracking (device_of (snd (PSYCHOCULUSVRGetFovTextureSize k s h' e f x)) h) =
     isTracking (device_of s h)"
proof (cases "runtime_ready k s")
  case True
  obtain r s' where o: "PSYCHOCULUSVRGetFovTextureSize k s h' e f x = (r, s')"
    by (cases "PSYCHOCULUSVRGetFovTextureSize k s h' e f x")
  from GetFov_lifecycle [OF True o] show ?thesis
    by (simp add: o lifecycle_unchanged_def device_of_def)
next
  case False
  from subfunctions_down(6) [OF this] show ?thesis by (simp add: device_of_def)
qed

lemma flag_Start_other:
  assumes "is_open s h" "h' \<noteq> h"
  shows "isTracking (device_of (snd (PSYCHOCULUSVRStart k s h')) h) = isTracking (device_of s h)"
proof (cases "runtime_ready k s")
  case False
  from subfunctions_down(3) [OF this] show ?thesis by (simp add: device_of_def)
next
  case True
  show ?thesis
  proof (cases "is_open s h'")
    case False
    with True show ?thesis by (simp add: Start_closed)
  next
    case o: True
    note ne = slots_differ [OF assms(1) o assms(2)]
    show ?thesis
    proof (cases "isTracking (device_of s h')")
      case True
      with \<open>runtime_ready k s\<close> o show ?thesis by (simp add: Start_tracking)
    next
      case False
      with \<open>runtime_ready k s\<close> o ne show ?thesis
        by (simp add: Start_stopped device_of_def)
    qed
  qed
qed

lemma flag_Stop_other:
  assumes "is_open s h" "h' \<noteq> h"
  shows "isTracking (device_of (snd (PSYCHOCULUSVRStop k s h')) h) = isTracking (device_of s h)"
proof (cases "runtime_ready k s")
  case False
  from subfunctions_down(4) [OF this] show ?thesis by (simp add: device_of_def)
next
  case True
  obtain r s' where o: "PsychOculusStop k (after_init k s) h' = (r, s')"
    by (cases "PsychOculusStop k (after_init k s) h'")
  show ?thesis
  proof (cases "is_open s h'")
    case False
    with True show ?thesis by (simp add: Stop_ready Stop_idle)
  next
    case o': True
    note ne = slots_differ [OF assms(1) o' assms(2)]
    from Stop_frame(8) [OF o, of "nat (h - 1)"] ne True show ?thesis
      by (simp add: Stop_ready o device_of_def)
  qed
qed

lemma flag_Start_same:
  assumes "is_open s h" "runtime_ready k s"
  shows "isTracking (device_of (snd (PSYCHOCULUSVRStart k s h)) h) \<longleftrightarrow>
           isTracking (device_of s h) \<or> fst (PSYCHOCULUSVRStart k s h) = Return ()"
    and "\<not> isTracking (device_of s h) \<Longrightarrow>
           fst (PSYCHOCULUSVRStart k s h) = Return () \<longleftrightarrow>
           ovrHmd_ConfigureTracking k (sdk_calls (after_init k s)) (hmd (device_of s h)) start_caps []"
  using assms
  by (cases "isTracking (device_of s h)"; simp add: Start_tracking Start_stopped device_of_def)+

lemma flag_Stop_same:
  assumes "is_open s h" "runtime_ready k s"
  shows "isTracking (device_of (snd (PSYCHOCULUSVRStop k s h)) h) \<longleftrightarrow>
           isTracking (device_of s h) \<and> fst (PSYCHOCULUSVRStop k s h) \<noteq> Return ()"
    and "isTracking (device_of s h) \<Longrightarrow>
           fst (PSYCHOCULUSVRStop k s h) = Return () \<longleftrightarrow>
           ovrHmd_ConfigureTracking k (sdk_calls (after_init k s)) (hmd (device_of s h)) [] []"
  using assms
  by (cases "isTracking (device_of s h)";
      simp add: Stop_ready Stop_idle Stop_tracking device_of_def)+

text \<open>
  Claim C3. For an open device, with the runtime up or able to start: \<open>Start\<close> on a
  device that is tracking exits with a user error and the flag stays set; \<open>Stop\<close> on a
  device that is not tracking returns normally, does nothing, and the flag stays clear;
  \<open>Start\<close> sets the flag exactly when it returns normally, which it does when the SDK
  accepts the request, and \<open>Stop\<close> clears it exactly when it returns normally, likewise;
  \<open>GetCount\<close>, \<open>Open\<close>, \<open>GetTrackingState\<close> and \<open>GetFovTextureSize\<close> on any handle,
  and \<open>Start\<close> and \<open>Stop\<close> on another handle, leave the flag as it is.
\<close>

theorem tracking_flag_state_machine:
  assumes "is_open s handle" and "runtime_ready k s"
  shows "(isTracking (device_of s handle) \<longrightarrow>
            PSYCHOCULUSVRStart k s handle =
              (ErrorExit PsychError_user
                 ''Tried to start tracking on HMD, but tracking already active.'', after_init k s)
            \<and> isTracking (device_of (snd (PSYCHOCULUSVRStart k s handle)) handle))
       \<and> (\<not> isTracking (device_of s handle) \<longrightarrow>
            PSYCHOCULUSVRStop k s handle = (Return (), after_init k s)
            \<and> \<not> isTracking (device_of (snd (PSYCHOCULUSVRStop k s handle)) handle))
       \<and> (\<not> isTracking (device_of s handle) \<longrightarrow>
            (fst (PSYCHOCULUSVRStart k s handle) = Return () \<longleftrightarrow>
               ovrHmd_ConfigureTracking k (sdk_calls (after_init k s)) (hmd (device_of s handle))
                 start_caps [])
            \<and> (isTracking (device_of (snd (PSYCHOCULUSVRStart k s handle)) handle) \<longleftrightarrow>
                 fst (PSYCHOCULUSVRStart k s handle) = Return ()))
       \<and> (isTracking (device_of s handle) \<longrightarrow>
            (fst (PSYCHOCULUSVRStop k s handle) = Return () \<longleftrightarrow>
               ovrHmd_ConfigureTracking k (sdk_calls (after_init k s)) (hmd (device_of s handle))
                 [] [])
            \<and> (isTracking (device_of (snd (PSYCHOCULUSVRStop k s handle)) handle) \<longleftrightarrow>
                 fst (PSYCHOCULUSVRStop k s handle) \<noteq> Return ()))
       \<and> isTracking (device_of (snd (PSYCHOCULUSVRGetCount k s)) handle) =
           isTracking (device_of s handle)
       \<and> isTracking (device_of (snd (PSYCHOCULUSVROpen k s d)) handle) =
           isTracking (device_of s handle)
       \<and> isTracking (device_of (snd (PSYCHOCULUSVRGetTrackingState k s h' t)) handle) =
           isTracking (device_of s handle)
       \<and> isTracking (device_of (snd (PSYCHOCULUSVRGetFovTextureSize k s h' e f x)) handle) =
           isTracking (device_of s handle)
       \<and> (h' \<noteq> handle \<longrightarrow>
            isTracking (device_of (snd (PSYCHOCULUSVRStart k s h')) handle) =
              isTracking (device_of s handle)
            \<and> isTracking (device_of (snd (PSYCHOCULUSVRStop k s h')) handle) =
              isTracking (device_of s handle))"
proof -
  note a = assms(2,1)
  have 1: "isTracking (device_of s handle) \<longrightarrow>
            PSYCHOCULUSVRStart k s handle =
              (ErrorExit PsychError_user
                 ''Tried to start tracking on HMD, but tracking already active.'', after_init k s)
            \<and> isTracking (device_of (snd (PSYCHOCULUSVRStart k s handle)) handle)"
    using a by (simp add: Start_tracking)
  have 2: "\<not> isTracking (device_of s handle) \<longrightarrow>
            PSYCHOCULUSVRStop k s handle = (Return (), after_init k s)
            \<and> \<not> isTracking (device_of (snd (PSYCHOCULUSVRStop k s handle)) handle)"
    using a by (simp add: Stop_ready Stop_idle)
  have 3: "\<not> isTracking (device_of s handle) \<longrightarrow>
            (fst (PSYCHOCULUSVRStart k s handle) = Return () \<longleftrightarrow>
               ovrHmd_ConfigureTracking k (sdk_calls (after_init k s)) (hmd (device_of s handle))
                 start_caps [])
            \<and> (isTracking (device_of (snd (PSYCHOCULUSVRStart k s handle)) handle) \<longleftrightarrow>
                 fst (PSYCHOCULUSVRStart k s handle) = Return ())"
    using flag_Start_same [OF assms] by simp
  have 4: "isTracking (device_of s handle) \<longrightarrow>
            (fst (PSYCHOCULUSVRStop k s handle) = Return () \<longleftrightarrow>
               ovrHmd_ConfigureTracking k (sdk_calls (after_init k s)) (hmd (device_of s handle))
                 [] [])
            \<and> (isTracking (device_of (snd (PSYCHOCULUSVRStop k s handle)) handle) \<longleftrightarrow>
                 fst (PSYCHOCULUSVRStop k s handle) \<noteq> Return ())"
    using flag_Stop_same [OF assms] by simp
  have 5: "h' \<noteq> handle \<longrightarrow>
            isTracking (device_of (snd (PSYCHOCULUSVRStart k s h')) handle) =
              isTracking (device_of s handle)
            \<and> isTracking (device_of (snd (PSYCHOCULUSVRStop k s h')) handle) =
              isTracking (device_of s handle)"
    using flag_Start_other [OF assms(1)] flag_Stop_other [OF assms(1)] by simp
  show ?thesis
    by (intro conjI 1 2 3 4 5 flag_GetCount flag_Open [OF assms(1)] flag_GetTrackingState flag_GetFov)
qed

lemma one_tracking_eq:
  "PSYCHOCULUSVRStart sdk_emulated one_open 1 =
     (Return (),
      set_device 0 (\<lambda>d. d\<lparr>isTracking := True\<rparr>)
        (sdk_log (Call_ovrHmd_ConfigureTracking 4 start_caps []) one_open))"
  by (simp add: Start_stopped one_open_fields)

lemma one_tracking_fields:
  "is_open one_tracking 1" "initialized one_tracking" "isTracking (device_of one_tracking 1)"
  "hmd (device_of one_tracking 1) = 4"
  using one_open_fields(1,2,6)
  by (simp_all add: one_tracking_def one_tracking_eq is_open_natives device_of_def natives_def)

theorem tracking_flag_state_machine_witness:
  "is_open one_tracking 1 \<and> runtime_ready sdk_emulated one_tracking
   \<and> isTracking (device_of one_tracking 1)
   \<and> PSYCHOCULUSVRStart sdk_emulated one_tracking 1 =
       (ErrorExit PsychError_user
          ''Tried to start tracking on HMD, but tracking already active.'', one_tracking)
   \<and> fst (PSYCHOCULUSVRStop sdk_emulated one_tracking 1) = Return ()
   \<and> \<not> isTracking (device_of (snd (PSYCHOCULUSVRStop sdk_emulated one_tracking 1)) 1)
   \<and> (2::int) \<noteq> 1
   \<and> isTracking (device_of (snd (PSYCHOCULUSVRStop sdk_emulated one_tracking 2)) 1)
   \<and> is_open one_open 1 \<and> runtime_ready sdk_emulated one_open
   \<and> \<not> isTracking (device_of one_open 1)
   \<and> PSYCHOCULUSVRStop sdk_emulated one_open 1 = (Return (), one_open)
   \<and> fst (PSYCHOCULUSVRStart sdk_emulated one_open 1) = Return ()
   \<and> isTracking (device_of (snd (PSYCHOCULUSVRStart sdk_emulated one_open 1)) 1)"
proof -
  have r: "runtime_ready sdk_emulated one_tracking" "runtime_ready sdk_emulated one_open"
    by simp_all
  note t = tracking_flag_state_machine [OF one_tracking_fields(1) r(1), where h' = 2]
  note u = tracking_flag_state_machine [OF one_open_fields(1) r(2), where h' = 2]
  from t u r one_tracking_fields one_open_fields(1,2,3) show ?thesis by simp
qed

subsection \<open>What every reachable state satisfies\<close>

lemma driver_inv_iff:
  "driver_inv s \<longleftrightarrow>
     devicecount s = word_of_nat (open_count s) \<and> (initialized s \<or> (\<forall>i<9. natives s i = NULL))"
  by (simp add: driver_inv_def slots_below_9)

lemma inv_kept:
  assumes "driver_inv s" "natives s' = natives s" "devicecount s' = devicecount s"
    "initialized s \<Longrightarrow> initialized s'"
  shows "driver_inv s'"
proof -
  have "open_count s' = open_count s" by (rule open_count_same) (rule assms(2))
  with assms show ?thesis by (auto simp: driver_inv_iff)
qed

lemma inv_after_init:
  assumes "driver_inv s"
  shows "driver_inv (after_init k s)"
  using assms by (rule inv_kept) simp_all

lemma inv_log:
  assumes "driver_inv s"
  shows "driver_inv (sdk_log c s)"
  using assms by (rule inv_kept) simp_all

lemma inv_lifecycle:
  assumes "driver_inv s" "lifecycle_unchanged s s'"
  shows "driver_inv s'"
  using assms(1)
proof (rule inv_kept)
  show "natives s' = natives s" by (rule lifecycle_unchanged_natives [OF assms(2)])
  show "devicecount s' = devicecount s" "initialized s \<Longrightarrow> initialized s'"
    using assms(2) by (simp_all add: lifecycle_unchanged_def)
qed

lemma inv_fresh: "driver_inv (PsychOculusVRInit static_storage)"
proof -
  have "open_count fresh = 0"
    by (simp add: open_count_card)
  then show ?thesis
    by (simp add: driver_inv_iff fresh_def [symmetric])
qed

lemma inv_GetCount: "driver_inv s \<Longrightarrow> driver_inv (snd (PSYCHOCULUSVRGetCount k s))"
proof (cases "runtime_ready k s")
  case True
  assume "driver_inv s"
  then show ?thesis by (rule inv_kept) (simp_all add: GetCount_ready True after_init_up)
next
  case False
  assume "driver_inv s"
  with subfunctions_down(1) [OF False] show ?thesis by (simp add: inv_log)
qed

lemma inv_Open: "driver_inv s \<Longrightarrow> driver_inv (snd (PSYCHOCULUSVROpen k s d))"
proof -
  assume i: "driver_inv s"
  obtain r s' where o: "PSYCHOCULUSVROpen k s d = (r, s')" by (cases "PSYCHOCULUSVROpen k s d")
  have "devicecount s' = word_of_nat (open_count s')"
    using i by (intro Open_inv_count [OF _ o]) (simp add: driver_inv_iff)
  moreover have "initialized s' \<or> (\<forall>i<9. natives s' i = NULL)"
    using Open_frame(3) [OF o] i by (auto simp: driver_inv_iff)
  ultimately show ?thesis by (simp add: o driver_inv_iff)
qed

lemma inv_Start: "driver_inv s \<Longrightarrow> driver_inv (snd (PSYCHOCULUSVRStart k s h))"
proof (cases "runtime_ready k s")
  case False
  assume "driver_inv s"
  with subfunctions_down(3) [OF False] show ?thesis by (simp add: inv_log)
next
  case True
  assume "driver_inv s"
  then show ?thesis
  proof (rule inv_kept)
    show "natives (snd (PSYCHOCULUSVRStart k s h)) = natives s"
      "devicecount (snd (PSYCHOCULUSVRStart k s h)) = devicecount s"
      "initialized (snd (PSYCHOCULUSVRStart k s h))"
      using True after_init_up [OF True]
      by (cases "is_open s h"; cases "isTracking (device_of s h)";
          simp add: Start_closed Start_tracking Start_stopped fun_eq_iff natives_def)+
  qed
qed

lemma inv_Stop: "driver_inv s \<Longrightarrow> driver_inv (snd (PSYCHOCULUSVRStop k s h))"
proof (cases "runtime_ready k s")
  case False
  assume "driver_inv s"
  with subfunctions_down(4) [OF False] show ?thesis by (simp add: inv_log)
next
  case True
  assume "driver_inv s"
  obtain r s' where o: "PsychOculusStop k (after_init k s) h = (r, s')"
    by (cases "PsychOculusStop k (after_init k s) h")
  from \<open>driver_inv s\<close> show ?thesis
  proof (rule inv_kept)
    show "natives (snd (PSYCHOCULUSVRStop k s h)) = natives s"
      "devicecount (snd (PSYCHOCULUSVRStop k s h)) = devicecount s"
      "initialized (snd (PSYCHOCULUSVRStop k s h))"
      using Stop_frame(1,2,4) [OF o] after_init_up [OF True]
      by (simp_all add: Stop_ready True o)
  qed
qed

lemma inv_GetTrackingState:
  "driver_inv s \<Longrightarrow> driver_inv (snd (PSYCHOCULUSVRGetTrackingState k s h t))"
proof (cases "runtime_ready k s")
  case False
  assume "driver_inv s"
  with subfunctions_down(5) [OF False] show ?thesis by (simp add: inv_log)
next
  case True
  assume "driver_inv s"
  then show ?thesis
    by (rule inv_kept)
       (cases "is_open s h";
        simp add: True GetTrackingState_open GetTrackingState_closed after_init_up)+
qed

lemma inv_GetFov:
  "driver_inv s \<Longrightarrow> driver_inv (snd (PSYCHOCULUSVRGetFovTextureSize k s h e f x))"
proof (cases "runtime_ready k s")
  case False
  assume "driver_inv s"
  with subfunctions_down(6) [OF False] show ?thesis by (simp add: inv_log)
next
  case True
  assume i: "driver_inv s"
  obtain r s' where o: "PSYCHOCULUSVRGetFovTextureSize k s h e f x = (r, s')"
    by (cases "PSYCHOCULUSVRGetFovTextureSize k s h e f x")
  from inv_lifecycle [OF inv_after_init [OF i] GetFov_lifecycle [OF True o]]
  show ?thesis by (simp add: o)
qed

lemma inv_ShutDown:
  assumes "driver_inv s"
  shows "driver_inv (snd (PsychOculusVRShutDown k s))"
proof -
  obtain r s' where o: "PsychOculusVRShutDown k s = (r, s')"
    by (cases "PsychOculusVRShutDown k s")
  note e = ShutDown_effect [OF o]
  have cnt: "devicecount s' = word_of_nat (open_count s')"
    using assms by (intro e(4)) (simp add: driver_inv_iff)
  have "initialized s' \<or> (\<forall>i<9. natives s' i = NULL)"
  proof (cases "initialized s")
    case False
    with e(7) assms show ?thesis by (auto simp: driver_inv_iff)
  next
    case True
    show ?thesis
    proof (cases r)
      case (Return u)
      from e(6) [OF Return True] show ?thesis by simp
    next
      case (ErrorExit m1 m2)
      from e(8) [OF ErrorExit] show ?thesis by simp
    next
      case SegFault
      with e(1) show ?thesis by simp
    qed
  qed
  with cnt show ?thesis by (simp add: o driver_inv_iff)
qed

lemma inv_Close: "driver_inv s \<Longrightarrow> driver_inv (snd (PSYCHOCULUSVRClose k s a))"
proof (cases "runtime_ready k s")
  case False
  assume "driver_inv s"
  with subfunctions_down(2) [OF False] show ?thesis by (simp add: inv_log)
next
  case True
  assume i: "driver_inv s"
  let ?h = "case a of None \<Rightarrow> - 1 | Some h \<Rightarrow> h"
  show ?thesis
  proof (cases "?h \<ge> 1")
    case False
    with inv_ShutDown [OF inv_after_init [OF i]] show ?thesis
      by (simp add: Close_ready True)
  next
    case h: True
    obtain r s' where o: "PsychOculusClose k (after_init k s) ?h = (r, s')"
      by (cases "PsychOculusClose k (after_init k s) ?h")
    have "devicecount s' = word_of_nat (open_count s')"
      using inv_after_init [OF i, of k] by (intro Close_inv_count [OF _ o]) (simp add: driver_inv_iff)
    moreover have "initialized s'"
      using Close_frame(2) [OF o] after_init_up [OF True] by simp
    ultimately show ?thesis using h by (simp add: Close_ready True o driver_inv_iff)
  qed
qed

lemma survives_snd: "survives r = Some s' \<Longrightarrow> s' = snd r \<and> fst r \<noteq> SegFault"
  by (cases r; cases "fst r") (auto simp: survives_def)

lemma inv_step: "driver_inv s \<Longrightarrow> step k r s = Some s' \<Longrightarrow> driver_inv s'"
  by (cases r)
     (auto dest!: survives_snd
        simp: inv_GetCount inv_Open inv_Close inv_Start inv_Stop inv_GetTrackingState inv_GetFov)

lemma reachable_inv: "reachable k s \<Longrightarrow> driver_inv s"
  by (induction rule: reachable.induct) (auto intro: inv_fresh inv_step)

subsection \<open>Shutdown returns when the SDK accepts every stop\<close>

lemma Stop_accepted:
  "\<forall>t p. ovrHmd_ConfigureTracking k t p [] [] \<Longrightarrow> fst (PsychOculusStop k s h) = Return ()"
  by (cases "is_open s h \<and> isTracking (device_of s h)") (auto simp: Stop_tracking Stop_idle)

lemma Close_accepted:
  assumes "\<forall>t p. ovrHmd_ConfigureTracking k t p [] []"
  shows "fst (PsychOculusClose k s h) = Return ()"
proof (cases "is_open s h")
  case False
  then show ?thesis by (simp add: Close_closed)
next
  case True
  obtain r1 s1 where st: "PsychOculusStop k s h = (r1, s1)" by (cases "PsychOculusStop k s h")
  with Stop_accepted [OF assms, of s h] have "r1 = Return ()" by simp
  then show ?thesis by (simp add: Close_open [OF True] st Let_def)
qed

lemma shutdown_loop_accepted:
  assumes "\<forall>t p. ovrHmd_ConfigureTracking k t p [] []"
  shows "fst (shutdown_loop k handle s) = Return ()"
  using assms
proof (induction k handle s rule: shutdown_loop.induct)
  case (1 k handle s)
  show ?case
  proof (cases "handle < 10")
    case False
    then show ?thesis by (simp add: shutdown_loop_done)
  next
    case True
    obtain r1 s1 where c: "PsychOculusClose k s handle = (r1, s1)"
      by (cases "PsychOculusClose k s handle")
    with Close_accepted [OF 1(2), of s handle] have r1: "r1 = Return ()" by simp
    from 1(1) [OF _ c [symmetric] r1 1(2)] True
    show ?thesis by (simp add: shutdown_loop_step [OF True c [unfolded r1]] MAX_PSYCH_OCULUS_DEVS_def)
  qed
qed

lemma ShutDown_accepted:
  assumes "\<forall>t p. ovrHmd_ConfigureTracking k t p [] []"
  shows "fst (PsychOculusVRShutDown k s) = Return ()"
proof (cases "initialized s")
  case False
  then show ?thesis by (simp add: PsychOculusVRShutDown_def)
next
  case True
  obtain r1 s1 where l: "shutdown_loop k 0 s = (r1, s1)" by (cases "shutdown_loop k 0 s")
  with shutdown_loop_accepted [OF assms, of 0 s] have "r1 = Return ()" by simp
  with True l show ?thesis by (simp add: PsychOculusVRShutDown_def)
qed

lemma ShutDown_inv:
  assumes "driver_inv s"
  shows "fst (PsychOculusVRShutDown k s) \<noteq> SegFault
       \<and> ((\<forall>t p. ovrHmd_ConfigureTracking k t p [] []) \<longrightarrow>
            fst (PsychOculusVRShutDown k s) = Return ())
       \<and> (fst (PsychOculusVRShutDown k s) = Return () \<longrightarrow>
            \<not> initialized (snd (PsychOculusVRShutDown k s))
            \<and> (\<forall>h. 1 \<le> h \<and> h \<le> 9 \<longrightarrow> \<not> is_open (snd (PsychOculusVRShutDown k s)) h)
            \<and> devicecount (snd (PsychOculusVRShutDown k s)) =
                word_of_nat (open_count (snd (PsychOculusVRShutDown k s))))
       \<and> available_devices (snd (PsychOculusVRShutDown k s)) = available_devices s"
proof -
  obtain r s' where o: "PsychOculusVRShutDown k s = (r, s')"
    by (cases "PsychOculusVRShutDown k s")
  note e = ShutDown_effect [OF o]
  have i': "driver_inv s'" using inv_ShutDown [OF assms, of k] by (simp add: o)
  have "\<forall>h. 1 \<le> h \<and> h \<le> 9 \<longrightarrow> \<not> is_open s' h" if "r = Return ()"
  proof -
    have "\<forall>i<9. natives s' i = NULL"
      using e(5) [of "()"] i' that by (auto simp: driver_inv_iff)
    then show ?thesis by (simp only: slots_below_9_handles)
  qed
  with e(1,2) e(5) [of "()"] i' ShutDown_accepted [of k s] show ?thesis
    by (simp add: o driver_inv_iff)
qed

text \<open>
  What the shutdown operation does in every reachable state, called directly or as
  \<open>Close\<close> without a handle: it never faults, and it returns normally when the SDK
  accepts every request to stop tracking. When it returns normally the initialisation
  flag is clear, no handle from 1 to 9 is open, and the open-device count equals the
  number of occupied slots. The detected-device count keeps the value it had after the
  initialisation check. Nothing is said here of handle 10.
\<close>

lemma ShutDown_reachable:
  assumes "reachable k s"
  shows "fst (PsychOculusVRShutDown k s) \<noteq> SegFault
       \<and> ((\<forall>t p. ovrHmd_ConfigureTracking k t p [] []) \<longrightarrow>
            fst (PsychOculusVRShutDown k s) = Return ())
       \<and> (fst (PsychOculusVRShutDown k s) = Return () \<longrightarrow>
            \<not> initialized (snd (PsychOculusVRShutDown k s))
            \<and> (\<forall>h. 1 \<le> h \<and> h \<le> 9 \<longrightarrow> \<not> is_open (snd (PsychOculusVRShutDown k s)) h)
            \<and> devicecount (snd (PsychOculusVRShutDown k s)) =
                word_of_nat (open_count (snd (PsychOculusVRShutDown k s))))
       \<and> available_devices (snd (PsychOculusVRShutDown k s)) = available_devices s
       \<and> (fst (PSYCHOCULUSVRClose k s None) = Return () \<longrightarrow>
            \<not> initialized (snd (PSYCHOCULUSVRClose k s None))
            \<and> (\<forall>h. 1 \<le> h \<and> h \<le> 9 \<longrightarrow> \<not> is_open (snd (PSYCHOCULUSVRClose k s None)) h)
            \<and> devicecount (snd (PSYCHOCULUSVRClose k s None)) =
                word_of_nat (open_count (snd (PSYCHOCULUSVRClose k s None)))
            \<and> available_devices (snd (PSYCHOCULUSVRClose k s None)) =
                available_devices (after_init k s))"
proof -
  note i = reachable_inv [OF assms]
  have direct: "fst (PsychOculusVRShutDown k s) \<noteq> SegFault
       \<and> ((\<forall>t p. ovrHmd_ConfigureTracking k t p [] []) \<longrightarrow>
            fst (PsychOculusVRShutDown k s) = Return ())
       \<and> (fst (PsychOculusVRShutDown k s) = Return () \<longrightarrow>
            \<not> initialized (snd (PsychOculusVRShutDown k s))
            \<and> (\<forall>h. 1 \<le> h \<and> h \<le> 9 \<longrightarrow> \<not> is_open (snd (PsychOculusVRShutDown k s)) h)
            \<and> devicecount (snd (PsychOculusVRShutDown k s)) =
                word_of_nat (open_count (snd (PsychOculusVRShutDown k s))))
       \<and> available_devices (snd (PsychOculusVRShutDown k s)) = available_devices s"
    by (rule ShutDown_inv [OF i])
  have "fst (PSYCHOCULUSVRClose k s None) = Return () \<longrightarrow>
            \<not> initialized (snd (PSYCHOCULUSVRClose k s None))
            \<and> (\<forall>h. 1 \<le> h \<and> h \<le> 9 \<longrightarrow> \<not> is_open (snd (PSYCHOCULUSVRClose k s None)) h)
            \<and> devicecount (snd (PSYCHOCULUSVRClose k s None)) =
                word_of_nat (open_count (snd (PSYCHOCULUSVRClose k s None)))
            \<and> available_devices (snd (PSYCHOCULUSVRClose k s None)) =
                available_devices (after_init k s)"
  proof (cases "runtime_ready k s")
    case False
    then show ?thesis by (simp add: PSYCHOCULUSVRClose_def CheckInit_not_ready)
  next
    case True
    have eq: "PSYCHOCULUSVRClose k s None = PsychOculusVRShutDown k (after_init k s)"
      by (simp add: Close_ready [OF True])
    from ShutDown_inv [OF inv_after_init [OF i], of k k] show ?thesis
      unfolding eq by blast
  qed
  with direct show ?thesis by blast
qed

lemma counted_eq:
  "PSYCHOCULUSVRGetCount sdk_emulated fresh =
     (Return 1, detect_devices sdk_emulated (after_init sdk_emulated fresh))"
  by (simp add: GetCount_ready)

lemma reachable_fresh: "reachable k fresh"
  unfolding fresh_def by (rule reachable.loaded)

lemma reachable_counted: "reachable sdk_emulated counted"
  by (rule reachable.request [OF reachable_fresh, where r = GetCount])
     (simp add: survives_def counted_def counted_eq)

text \<open>
  Only \<open>PsychOculusVRInit\<close> assigns the detected-device count: after a \<open>GetCount\<close>
  that detected one headset, shutdown returns normally and the count of detected devices
  is still 1.
\<close>

lemma ShutDown_keeps_detected_count:
  "reachable sdk_emulated counted
   \<and> fst (PsychOculusVRShutDown sdk_emulated counted) = Return ()
   \<and> available_devices (snd (PsychOculusVRShutDown sdk_emulated counted)) = 1
   \<and> available_devices (PsychOculusVRInit static_storage) = 0"
proof -
  have "available_devices counted = 1"
    by (simp add: counted_def counted_eq detect_devices_available)
  moreover have "available_devices (snd (PsychOculusVRShutDown sdk_emulated counted)) =
      available_devices counted"
    using ShutDown_effect(2) [of sdk_emulated counted] by (simp add: prod_eq_iff)
  moreover have "fst (PsychOculusVRShutDown sdk_emulated counted) = Return ()"
    by (rule ShutDown_accepted) simp
  ultimately show ?thesis
    using reachable_counted fresh_fields(4) by (simp add: fresh_def)
qed

subsection \<open>Filling the table\<close>

lemma free_slot_exists:
  assumes "i < 10" "natives s i = NULL"
  shows "find_free_slot (oculusdevices s) 0 < 10"
proof (rule ccontr)
  assume "\<not> find_free_slot (oculusdevices s) 0 < 10"
  then have "i < find_free_slot (oculusdevices s) 0" using assms(1) by simp
  from free_slot_facts(3) [OF this] assms(2) show False by simp
qed

lemma free_slot_prefix:
  assumes "n < 10" "\<forall>i<n. natives s i \<noteq> NULL" "natives s n = NULL"
  shows "find_free_slot (oculusdevices s) 0 = n"
  using assms by (intro find_free_slot_first) (auto simp: natives_def)

lemma free_slot_none:
  assumes "\<forall>i<10. natives s i \<noteq> NULL"
  shows "find_free_slot (oculusdevices s) 0 \<ge> 10"
proof (rule ccontr)
  assume "\<not> find_free_slot (oculusdevices s) 0 \<ge> 10"
  then have lt: "find_free_slot (oculusdevices s) 0 < 10" by simp
  from free_slot_facts(2) [OF lt] assms lt show False by auto
qed

lemma Open_granted:
  assumes "sdk_grants k d" "runtime_ready k s" "find_free_slot (oculusdevices s) 0 < 10"
  shows "\<exists>p c. p \<noteq> NULL
           \<and> PSYCHOCULUSVROpen k s d =
               (Return (int (find_free_slot (oculusdevices s) 0) + 1),
                (slot_claimed k s c p)\<lparr>devicecount := devicecount s + 1\<rparr>)"
proof -
  let ?d = "case d of None \<Rightarrow> 0 | Some x \<Rightarrow> x"
  from assms(1) consider
      (debug) "?d = - 1" "\<forall>t. ovrHmd_CreateDebug k t \<noteq> NULL"
    | (real) "0 \<le> ?d" "\<forall>t. ?d < ovrHmd_Detect k t \<and> ovrHmd_Create k t ?d \<noteq> NULL"
    by (auto simp: sdk_grants_def Let_def)
  then show ?thesis
  proof cases
    case debug
    from Open_debug [OF assms(2,3) debug(1) refl] debug(2) show ?thesis by auto
  next
    case real
    then have "?d < ovrHmd_Detect k (sdk_calls (after_init k s))" by simp
    from Open_real [OF assms(2,3) real(1) this refl refl] real(2) show ?thesis by auto
  qed
qed

lemma open_all_prefix:
  assumes "\<forall>d\<in>set ds. sdk_grants k d" "runtime_ready k s"
    "\<forall>i<n. natives s i \<noteq> NULL" "\<forall>i\<ge>n. natives s i = NULL" "n + length ds \<le> 10"
  shows "fst (open_all k ds s) = map (\<lambda>i. Return (int i + 1)) [n..<n + length ds]
       \<and> runtime_ready k (snd (open_all k ds s))
       \<and> (ds \<noteq> [] \<longrightarrow> initialized (snd (open_all k ds s)))
       \<and> (\<forall>i<n + length ds. natives (snd (open_all k ds s)) i \<noteq> NULL)
       \<and> (\<forall>i\<ge>n + length ds. natives (snd (open_all k ds s)) i = NULL)"
  using assms
proof (induction ds arbitrary: s n)
  case Nil
  then show ?case by simp
next
  case (Cons d ds)
  from Cons.prems have n: "n < 10" by simp
  have f: "find_free_slot (oculusdevices s) 0 = n"
    using n Cons.prems(3,4) by (intro free_slot_prefix) auto
  from Open_granted [of k d s] Cons.prems(1,2) f n obtain p c where p: "p \<noteq> NULL"
    and o: "PSYCHOCULUSVROpen k s d =
              (Return (int n + 1), (slot_claimed k s c p)\<lparr>devicecount := devicecount s + 1\<rparr>)"
    by auto
  let ?s1 = "(slot_claimed k s c p)\<lparr>devicecount := devicecount s + 1\<rparr>"
  have nat1: "natives (slot_claimed k s c p) = (natives s)(n := p)"
    by (simp add: slot_claimed_fields(1) f)
  have init1: "initialized ?s1"
    by (simp add: slot_claimed_fields(3) after_init_up [OF Cons.prems(2)])
  then have ready1: "runtime_ready k ?s1" by (simp add: runtime_ready_def)
  have ih: "fst (open_all k ds ?s1) = map (\<lambda>i. Return (int i + 1)) [Suc n..<Suc n + length ds]
       \<and> runtime_ready k (snd (open_all k ds ?s1))
       \<and> (ds \<noteq> [] \<longrightarrow> initialized (snd (open_all k ds ?s1)))
       \<and> (\<forall>i<Suc n + length ds. natives (snd (open_all k ds ?s1)) i \<noteq> NULL)
       \<and> (\<forall>i\<ge>Suc n + length ds. natives (snd (open_all k ds ?s1)) i = NULL)"
  proof (rule Cons.IH [OF _ ready1])
    show "\<forall>d\<in>set ds. sdk_grants k d" using Cons.prems(1) by simp
    show "\<forall>i<Suc n. natives ?s1 i \<noteq> NULL" using Cons.prems(3) p by (simp add: nat1 less_Suc_eq)
    show "\<forall>i\<ge>Suc n. natives ?s1 i = NULL" using Cons.prems(4) by (simp add: nat1)
    show "Suc n + length ds \<le> 10" using Cons.prems(5) by simp
  qed
  have split: "open_all k (d # ds) s =
      (Return (int n + 1) # fst (open_all k ds ?s1), snd (open_all k ds ?s1))"
    by (simp add: o split_def Let_def)
  have "[n..<n + length (d # ds)] = n # [Suc n..<n + length (d # ds)]"
    by (rule upt_conv_Cons) simp
  then have upt: "[n..<n + length (d # ds)] = n # [Suc n..<Suc n + length ds]"
    by simp
  show ?case
    unfolding split upt using ih init1 by (cases "ds = []") simp_all
qed

lemma fresh_all_free: "\<forall>i\<ge>0. natives fresh i = NULL"
  by simp

lemma table_full:
  assumes "\<forall>i<10. natives s i \<noteq> NULL" "initialized s"
  shows "PSYCHOCULUSVROpen k s d =
           (ErrorExit PsychError_internal
              ''Maximum number of simultaneously open Oculus VR devices reached.'', s)"
proof -
  have "runtime_ready k s" using assms(2) by (simp add: runtime_ready_def)
  from Open_full [OF this free_slot_none [OF assms(1)]] assms(2) show ?thesis by simp
qed

lemma handles_1_to_10:
  "map (\<lambda>i. (Return (int i + 1) :: int outcome)) [0..<0 + 10] =
     [Return 1, Return 2, Return 3, Return 4, Return 5, Return 6, Return 7, Return 8, Return 9,
      Return 10]"
  by (simp add: upt_rec)

text \<open>
  Claim C4, as the code has it. Starting from the empty registry, on an SDK whose
  runtime starts and that grants each of ten \<open>Open\<close> requests, the ten calls return
  the handles 1 to 10; the next \<open>Open\<close>, whatever its argument, exits with the error
  "Maximum number of simultaneously open Oculus VR devices reached." of kind
  \<open>PsychError_internal\<close> and leaves the state as it was.
\<close>

theorem capacity_reached:
  assumes "runtime_ready k fresh" and "\<forall>d\<in>set ds. sdk_grants k d" and "length ds = 10"
  shows "fst (open_all k ds fresh) =
           [Return 1, Return 2, Return 3, Return 4, Return 5, Return 6, Return 7, Return 8,
            Return 9, Return 10]
       \<and> PSYCHOCULUSVROpen k (snd (open_all k ds fresh)) d =
           (ErrorExit PsychError_internal
              ''Maximum number of simultaneously open Oculus VR devices reached.'',
            snd (open_all k ds fresh))"
proof -
  have "ds \<noteq> []" using assms(3) by auto
  with open_all_prefix [OF assms(2,1), of 0] assms(3)
  have outs: "fst (open_all k ds fresh) = map (\<lambda>i. Return (int i + 1)) [0..<0 + 10]"
    and full: "\<forall>i<10. natives (snd (open_all k ds fresh)) i \<noteq> NULL"
    and up: "initialized (snd (open_all k ds fresh))"
    by simp_all
  from outs table_full [OF full up] show ?thesis
    by (simp only: handles_1_to_10 simp_thms)
qed

lemma emulated_grants: "sdk_grants sdk_emulated (Some (- 1))"
  by (simp add: sdk_grants_def)

theorem capacity_reached_witness:
  "runtime_ready sdk_emulated fresh
   \<and> set (replicate 10 (Some (- 1 :: int))) = {Some (- 1)}
   \<and> sdk_grants sdk_emulated (Some (- 1))
   \<and> length (replicate 10 (Some (- 1 :: int))) = 10
   \<and> fst (open_all sdk_emulated (replicate 10 (Some (- 1))) fresh) =
       [Return 1, Return 2, Return 3, Return 4, Return 5, Return 6, Return 7, Return 8,
        Return 9, Return 10]
   \<and> PSYCHOCULUSVROpen sdk_emulated ten_open (Some (- 1)) =
       (ErrorExit PsychError_internal
          ''Maximum number of simultaneously open Oculus VR devices reached.'', ten_open)"
proof -
  have g: "\<forall>d\<in>set (replicate 10 (Some (- 1))). sdk_grants sdk_emulated d"
    by (simp add: emulated_grants)
  have r: "runtime_ready sdk_emulated fresh" by simp
  have l: "length (replicate 10 (Some (- 1 :: int))) = 10" by simp
  from capacity_reached [OF r g l, of "Some (- 1)"] emulated_grants r l show ?thesis
    unfolding ten_open_def by simp
qed

text \<open>
  Claim C4 as stated fails on the kind of the error: with every slot occupied, \<open>Open\<close>
  exits with \<open>PsychError_internal\<close>, not with a user error.
\<close>

theorem capacity_reached_counterexample:
  "fst (PSYCHOCULUSVROpen sdk_emulated ten_open (Some (- 1))) =
     ErrorExit PsychError_internal
       ''Maximum number of simultaneously open Oculus VR devices reached.''
   \<and> PsychError_internal \<noteq> PsychError_user"
proof -
  have g: "\<forall>d\<in>set (replicate 10 (Some (- 1))). sdk_grants sdk_emulated d"
    by (simp add: emulated_grants)
  from open_all_prefix [OF g emulated_ready, of 0 fresh]
  have "\<forall>i<10. natives ten_open i \<noteq> NULL" "initialized ten_open"
    unfolding ten_open_def by simp_all
  from table_full [OF this] show ?thesis by simp
qed

subsection \<open>Shutdown and the last slot\<close>

lemma reachable_open_all:
  assumes "reachable k s" "SegFault \<notin> set (fst (open_all k ds s))"
  shows "reachable k (snd (open_all k ds s))"
  using assms
proof (induction ds arbitrary: s)
  case Nil
  then show ?case by simp
next
  case (Cons d ds)
  obtain r s1 where o: "PSYCHOCULUSVROpen k s d = (r, s1)"
    by (cases "PSYCHOCULUSVROpen k s d")
  from Cons.prems(2) have r: "r \<noteq> SegFault"
    and rest: "SegFault \<notin> set (fst (open_all k ds s1))"
    by (auto simp: o split_def Let_def)
  from r have "step k (Open d) s = Some s1"
    by (cases r) (simp_all add: o survives_def)
  with Cons.prems(1) have "reachable k s1" by (rule reachable.request)
  from Cons.IH [OF this rest] show ?case by (simp add: o split_def Let_def)
qed

lemma ten_open_handles:
  "fst (open_all sdk_emulated (replicate 10 (Some (- 1))) fresh) =
     [Return 1, Return 2, Return 3, Return 4, Return 5, Return 6, Return 7, Return 8, Return 9,
      Return 10]"
  and ten_open_full: "\<forall>i<10. natives ten_open i \<noteq> NULL"
  and ten_open_up: "initialized ten_open"
proof -
  have g: "\<forall>d\<in>set (replicate 10 (Some (- 1))). sdk_grants sdk_emulated d"
    by (simp add: emulated_grants)
  note p = open_all_prefix [OF g emulated_ready, of 0 fresh]
  from p show "fst (open_all sdk_emulated (replicate 10 (Some (- 1))) fresh) =
     [Return 1, Return 2, Return 3, Return 4, Return 5, Return 6, Return 7, Return 8, Return 9,
      Return 10]"
    by (simp add: handles_1_to_10 [symmetric])
  from p show "\<forall>i<10. natives ten_open i \<noteq> NULL" unfolding ten_open_def by simp
  from p show "initialized ten_open" unfolding ten_open_def by simp
qed

lemma reachable_ten_open: "reachable sdk_emulated ten_open"
  unfolding ten_open_def
  by (rule reachable_open_all [OF reachable_fresh]) (simp add: ten_open_handles)

text \<open>
  Claim C2 on the code. Ten emulated devices are opened from the empty registry, which
  returns the handles 1 to 10 and brings the open-device count to 10; then the shutdown
  operation runs, directly or as \<open>Close\<close> without a handle. It returns normally and
  clears the initialisation flag, but handle 10 is still open: its slot holds the native
  pointer it held before, one slot is occupied and the open-device count is 1, not 0.
  The loop of \<open>PsychOculusVRShutDown\<close> passes the handles 0 to 9 to \<open>PsychOculusClose\<close>,
  which takes handles from 1, so handle 0 is a no-op and handle 10 is never closed.
\<close>

theorem shutdown_leaves_handle_10_open:
  "fst (open_all sdk_emulated (replicate 10 (Some (- 1))) fresh) =
     [Return 1, Return 2, Return 3, Return 4, Return 5, Return 6, Return 7, Return 8, Return 9,
      Return 10]
   \<and> reachable sdk_emulated ten_open
   \<and> is_open ten_open 10
   \<and> devicecount ten_open = 10
   \<and> PSYCHOCULUSVRClose sdk_emulated ten_open None = PsychOculusVRShutDown sdk_emulated ten_open
   \<and> fst (PsychOculusVRShutDown sdk_emulated ten_open) = Return ()
   \<and> \<not> initialized (snd (PsychOculusVRShutDown sdk_emulated ten_open))
   \<and> is_open (snd (PsychOculusVRShutDown sdk_emulated ten_open)) 10
   \<and> natives (snd (PsychOculusVRShutDown sdk_emulated ten_open)) 9 = natives ten_open 9
   \<and> open_count (snd (PsychOculusVRShutDown sdk_emulated ten_open)) = 1
   \<and> devicecount (snd (PsychOculusVRShutDown sdk_emulated ten_open)) = 1"
proof -
  obtain r s' where o: "PsychOculusVRShutDown sdk_emulated ten_open = (r, s')"
    by (cases "PsychOculusVRShutDown sdk_emulated ten_open")
  note full = ten_open_full and up = ten_open_up
  have inv: "driver_inv ten_open" by (rule reachable_inv [OF reachable_ten_open])
  have "{i. i < 10 \<and> natives ten_open i \<noteq> NULL} = {..<10}" using full by auto
  then have "open_count ten_open = 10" by (simp add: open_count_card)
  with inv have count: "devicecount ten_open = 10" by (simp add: driver_inv_iff)
  have close: "PSYCHOCULUSVRClose sdk_emulated ten_open None =
      PsychOculusVRShutDown sdk_emulated ten_open"
    by (simp add: Close_ready up)
  have r: "r = Return ()" using ShutDown_accepted [of sdk_emulated ten_open] by (simp add: o)
  note e = ShutDown_effect [OF o]
  have same: "natives s' 9 = natives ten_open 9" using e(3) by (simp add: natives_def)
  with full have last: "natives s' 9 \<noteq> NULL" by simp
  have rest: "\<forall>i<9. natives s' i = NULL" using e(6) [OF r up] .
  have "{i. i < 10 \<and> natives s' i \<noteq> NULL} = {9}"
  proof (rule set_eqI)
    fix i :: nat
    have "i < 10 \<longleftrightarrow> i < 9 \<or> i = 9" by auto
    with rest last show "i \<in> {i. i < 10 \<and> natives s' i \<noteq> NULL} \<longleftrightarrow> i \<in> {9}" by auto
  qed
  then have one: "open_count s' = 1" by (simp add: open_count_card)
  moreover have "devicecount s' = word_of_nat (open_count s')"
    using e(4) inv by (simp add: driver_inv_iff)
  moreover have "\<not> initialized s'" using e(5) [OF r] .
  ultimately show ?thesis
    using full last r same count close reachable_ten_open ten_open_handles
    by (simp add: o is_open_natives)
qed

subsection \<open>Open, then close\<close>

lemma registry_eq:
  assumes "natives s' = natives s" "\<And>j. natives s j \<noteq> NULL \<Longrightarrow> oculusdevices s' j = oculusdevices s j"
  shows "registry s' = registry s"
proof (rule ext)
  fix h
  have o: "is_open s' h = is_open s h" by (simp add: is_open_natives assms(1))
  show "registry s' h = registry s h"
  proof (cases "is_open s h")
    case True
    then have "natives s (nat (h - 1)) \<noteq> NULL" by (simp add: is_open_natives)
    from assms(2) [OF this] True o show ?thesis by (simp add: registry_def device_of_def)
  next
    case False
    with o show ?thesis by (simp add: registry_def)
  qed
qed

lemma Close_fresh_device:
  assumes "is_open s h" "oculusdevices s (nat (h - 1)) = zero_PsychOculusDevice\<lparr>hmd := p\<rparr>"
  shows "PsychOculusClose k s h =
           (Return (),
            (set_device (nat (h - 1)) (\<lambda>d. d\<lparr>hmd := NULL\<rparr>) (sdk_log (Call_ovrHmd_Destroy p) s))
              \<lparr>devicecount := devicecount s - 1\<rparr>)"
proof -
  have idle: "\<not> isTracking (device_of s h)"
    by (simp add: device_of_def assms(2) zero_PsychOculusDevice_def)
  have m: "release_mesh k (nat (h - 1)) e s = s" for e
    by (rule release_mesh_none)
       (simp add: assms(2) zero_PsychOculusDevice_def zero_ovrDistortionMesh_def)
  show ?thesis
    by (simp add: Close_open [OF assms(1)] Stop_idle idle Let_def m assms(2))
qed

text \<open>
  Claim C5. When \<open>Open\<close> returns a handle, \<open>Close\<close> on that handle returns normally,
  and afterwards the open-device count is what it was before the \<open>Open\<close>, the claimed
  slot holds a null native pointer, and the registry, as the map from open handles to
  their records, is the one before the \<open>Open\<close>. The handle was the index of the first
  free slot plus one, that slot is again the first free one, so a later \<open>Open\<close> that
  returns a handle returns the same one, and it does return one when the SDK grants it.
\<close>

theorem open_close_round_trip:
  assumes "PSYCHOCULUSVROpen k s d = (Return h, s1)"
  shows "fst (PSYCHOCULUSVRClose k s1 (Some h)) = Return ()
       \<and> devicecount (snd (PSYCHOCULUSVRClose k s1 (Some h))) = devicecount s
       \<and> natives (snd (PSYCHOCULUSVRClose k s1 (Some h))) (nat (h - 1)) = NULL
       \<and> \<not> is_open (snd (PSYCHOCULUSVRClose k s1 (Some h))) h
       \<and> registry (snd (PSYCHOCULUSVRClose k s1 (Some h))) = registry s
       \<and> h = int (find_free_slot (oculusdevices s) 0) + 1
       \<and> find_free_slot (oculusdevices (snd (PSYCHOCULUSVRClose k s1 (Some h)))) 0 =
           find_free_slot (oculusdevices s) 0
       \<and> (\<forall>h' s3. PSYCHOCULUSVROpen k (snd (PSYCHOCULUSVRClose k s1 (Some h))) d' = (Return h', s3)
             \<longrightarrow> h' = h)
       \<and> (sdk_grants k d' \<longrightarrow>
             fst (PSYCHOCULUSVROpen k (snd (PSYCHOCULUSVRClose k s1 (Some h))) d') = Return h)"
proof -
  let ?f = "find_free_slot (oculusdevices s) 0"
  note o = Open_returns [OF assms]
  have h: "h = int ?f + 1" by (rule o(1))
  then have slot: "nat (h - 1) = ?f" and h1: "1 \<le> h" by simp_all
  have open1: "is_open s1 h"
    using o(2,4) by (simp add: is_open_natives slot h)
  have ready1: "runtime_ready k s1" using o(7) by (simp add: runtime_ready_def)
  define s2 where "s2 = (set_device ?f (\<lambda>d. d\<lparr>hmd := NULL\<rparr>)
               (sdk_log (Call_ovrHmd_Destroy (natives s1 ?f)) s1))\<lparr>devicecount := devicecount s1 - 1\<rparr>"
  have c: "PSYCHOCULUSVRClose k s1 (Some h) = (Return (), s2)"
    using Close_fresh_device [OF open1 o(9) [folded slot], of k] h1 o(7)
    by (simp add: Close_ready [OF ready1] slot s2_def)
  have "natives s2 = (natives s1)(?f := NULL)" by (simp add: s2_def)
  also have "\<dots> = ((natives s)(?f := natives s1 ?f))(?f := NULL)" by (subst o(5)) (rule refl)
  also have "\<dots> = natives s" using o(3) by (auto simp: fun_eq_iff)
  finally have nat2: "natives s2 = natives s" .
  have dev2: "oculusdevices s2 j = oculusdevices s j" if "natives s j \<noteq> NULL" for j
  proof -
    from that o(3) have "j \<noteq> ?f" by auto
    with o(8) [of j] show ?thesis by (simp add: s2_def)
  qed
  have free2: "find_free_slot (oculusdevices s2) 0 = ?f"
    by (rule free_slot_natives [OF nat2])
  have init2: "runtime_ready k s2" using o(7) by (simp add: runtime_ready_def s2_def)
  have again: "h' = h" if "PSYCHOCULUSVROpen k s2 d' = (Return h', s3)" for h' s3
    using Open_returns(1) [OF that] by (simp add: free2 h)
  have granted: "fst (PSYCHOCULUSVROpen k s2 d') = Return h" if "sdk_grants k d'"
    using Open_granted [OF that init2] o(2) by (auto simp: free2 h)
  have "devicecount s2 = devicecount s" by (simp add: o(6) s2_def)
  moreover have "natives s2 (nat (h - 1)) = NULL" by (simp add: nat2 slot o(3))
  moreover have "\<not> is_open s2 h" by (simp add: is_open_natives nat2 slot o(3))
  moreover have "registry s2 = registry s" by (rule registry_eq [OF nat2 dev2])
  ultimately show ?thesis
    unfolding c fst_conv snd_conv using h free2 again granted by blast
qed

theorem open_close_round_trip_witness:
  "PSYCHOCULUSVROpen sdk_emulated one_open (Some (- 1)) =
     (Return 2, snd (PSYCHOCULUSVROpen sdk_emulated one_open (Some (- 1))))
   \<and> sdk_grants sdk_emulated (Some (- 1))
   \<and> fst (PSYCHOCULUSVRClose sdk_emulated
            (snd (PSYCHOCULUSVROpen sdk_emulated one_open (Some (- 1)))) (Some 2)) = Return ()
   \<and> devicecount (snd (PSYCHOCULUSVRClose sdk_emulated
            (snd (PSYCHOCULUSVROpen sdk_emulated one_open (Some (- 1)))) (Some 2))) = 1
   \<and> devicecount one_open = 1
   \<and> registry (snd (PSYCHOCULUSVRClose sdk_emulated
            (snd (PSYCHOCULUSVROpen sdk_emulated one_open (Some (- 1)))) (Some 2))) =
       registry one_open
   \<and> fst (PSYCHOCULUSVROpen sdk_emulated
            (snd (PSYCHOCULUSVRClose sdk_emulated
                    (snd (PSYCHOCULUSVROpen sdk_emulated one_open (Some (- 1)))) (Some 2)))
            (Some (- 1))) = Return 2"
proof -
  have occ: "\<forall>i<1. natives one_open i \<noteq> NULL" and free: "natives one_open 1 = NULL"
    using one_open_fields(1,4) by (simp_all add: is_open_natives)
  have f: "find_free_slot (oculusdevices one_open) 0 = 1"
    by (rule free_slot_prefix [OF _ occ free]) simp
  from Open_granted [OF emulated_grants emulated_ready, of one_open] f
  have o: "PSYCHOCULUSVROpen sdk_emulated one_open (Some (- 1)) =
     (Return 2, snd (PSYCHOCULUSVROpen sdk_emulated one_open (Some (- 1))))"
    by auto
  from open_close_round_trip [OF o, of "Some (- 1)"] o emulated_grants one_open_fields(5)
  show ?thesis by simp
qed

subsection \<open>The emulated device\<close>

lemma Open_never_SegFault_real:
  "0 \<le> (case d of None \<Rightarrow> 0 | Some x \<Rightarrow> x) \<Longrightarrow> fst (PSYCHOCULUSVROpen k s d) \<noteq> SegFault"
proof (cases "runtime_ready k s")
  case False
  then show ?thesis by (simp add: Open_down)
next
  case ready: True
  assume d: "0 \<le> (case d of None \<Rightarrow> 0 | Some x \<Rightarrow> x)"
  show ?thesis
  proof (cases "find_free_slot (oculusdevices s) 0 \<ge> 10")
    case True
    with ready show ?thesis by (simp add: Open_full)
  next
    case False
    then have free: "find_free_slot (oculusdevices s) 0 < 10" by simp
    show ?thesis
    proof (cases "ovrHmd_Detect k (sdk_calls (after_init k s)) \<le> (case d of None \<Rightarrow> 0 | Some x \<Rightarrow> x)")
      case True
      from Open_not_enough [OF ready free d True] show ?thesis by simp
    next
      case False
      then have "(case d of None \<Rightarrow> 0 | Some x \<Rightarrow> x) < ovrHmd_Detect k (sdk_calls (after_init k s))"
        by simp
      from Open_real [OF ready free d this refl refl] show ?thesis by simp
    qed
  qed
qed

lemma Open_debug_no_connect_error:
  "fst (PSYCHOCULUSVROpen k s (Some (- 1))) \<noteq>
     ErrorExit PsychError_user
       ''Could not connect to Rift device with given 'deviceIndex'! [ovrHmd_Create() failed]''"
proof -
  obtain r s' where o: "PSYCHOCULUSVROpen k s (Some (- 1)) = (r, s')"
    by (cases "PSYCHOCULUSVROpen k s (Some (- 1))")
  show ?thesis
  proof (cases "runtime_ready k s")
    case False
    then show ?thesis by (simp add: Open_down)
  next
    case ready: True
    show ?thesis
    proof (cases "find_free_slot (oculusdevices s) 0 \<ge> 10")
      case True
      with ready show ?thesis by (simp add: Open_full)
    next
      case False
      then have free: "find_free_slot (oculusdevices s) 0 < 10" by simp
      from Open_debug [OF ready free _ refl, of "Some (- 1)"] show ?thesis by simp
    qed
  qed
qed

text \<open>
  The emulated path when the construction succeeds: with the runtime up or able to
  start, a free slot in the table and a non-null pointer from the SDK, \<open>Open\<close> stores
  the pointer in the first free slot, increments the open-device count and returns that
  slot's index plus one, a handle that is then open.
\<close>

lemma Open_debug_nonnull:
  assumes "runtime_ready k s" and "i < MAX_PSYCH_OCULUS_DEVS" and "natives s i = NULL"
    and "ovrHmd_CreateDebug k (sdk_calls (after_init k s) @ [Call_ovrHmd_Detect]) \<noteq> NULL"
  shows "fst (PSYCHOCULUSVROpen k s (Some (- 1))) =
           Return (int (find_free_slot (oculusdevices s) 0) + 1)
       \<and> find_free_slot (oculusdevices s) 0 \<le> i
       \<and> devicecount (snd (PSYCHOCULUSVROpen k s (Some (- 1)))) = devicecount s + 1
       \<and> natives (snd (PSYCHOCULUSVROpen k s (Some (- 1)))) (find_free_slot (oculusdevices s) 0) =
           ovrHmd_CreateDebug k (sdk_calls (after_init k s) @ [Call_ovrHmd_Detect])
       \<and> is_open (snd (PSYCHOCULUSVROpen k s (Some (- 1))))
           (int (find_free_slot (oculusdevices s) 0) + 1)"
proof -
  let ?f = "find_free_slot (oculusdevices s) 0"
  have i: "i < 10" using assms(2) by (simp add: MAX_PSYCH_OCULUS_DEVS_def)
  have free: "?f < 10" by (rule free_slot_exists [OF i assms(3)])
  have le: "?f \<le> i"
  proof (rule ccontr)
    assume "\<not> ?f \<le> i"
    then have "i < ?f" by simp
    from free_slot_facts(3) [OF this] assms(3) show False by simp
  qed
  from Open_debug [OF assms(1) free _ refl, of "Some (- 1)"] assms(4) free le
  show ?thesis
    by (simp add: slot_claimed_fields(1) is_open_natives)
qed

text \<open>
  The emulated path when the construction fails, in any state with a free slot: the
  null pointer is stored unchecked, and the printout of the device information, which
  \<open>verbosity = 3\<close> enables, reads through it. No handle is returned, the open-device
  count is not incremented and no error is raised.
\<close>

lemma Open_debug_null:
  assumes "runtime_ready k s" and "i < MAX_PSYCH_OCULUS_DEVS" and "natives s i = NULL"
    and "ovrHmd_CreateDebug k (sdk_calls (after_init k s) @ [Call_ovrHmd_Detect]) = NULL"
  shows "fst (PSYCHOCULUSVROpen k s (Some (- 1))) = SegFault
       \<and> devicecount (snd (PSYCHOCULUSVROpen k s (Some (- 1)))) = devicecount s
       \<and> natives (snd (PSYCHOCULUSVROpen k s (Some (- 1)))) = natives s"
proof -
  let ?f = "find_free_slot (oculusdevices s) 0"
  have i: "i < 10" using assms(2) by (simp add: MAX_PSYCH_OCULUS_DEVS_def)
  have free: "?f < 10" by (rule free_slot_exists [OF i assms(3)])
  have "(natives s)(?f := NULL) = natives s"
    using free_slot_facts(2) [OF free] by (auto simp: fun_eq_iff)
  with Open_debug [OF assms(1) free _ refl, of "Some (- 1)"] assms(4)
  show ?thesis
    by (simp add: slot_claimed_fields(1,2))
qed

lemma no_real_device_fields [simp]:
  "runtime_ready sdk_no_real_device s"
  "ovrHmd_Detect sdk_no_real_device t = 1"
  "ovrHmd_Create sdk_no_real_device t d = NULL"
  by (simp_all add: runtime_ready_def sdk_no_real_device_def sdk_emulated_def)

lemma no_debug_device_fields [simp]:
  "ovr_Initialize sdk_no_debug_device t = True"
  "ovrHmd_CreateDebug sdk_no_debug_device t = NULL"
  by (simp_all add: sdk_no_debug_device_def sdk_emulated_def)

text \<open>
  Claim C10 on the code. The registry is empty, the runtime starts, and the SDK returns
  a null pointer from the construction of the debug device. \<open>Open\<close> with device index -1
  stores that pointer in slot 0 without testing it and then, \<open>verbosity\<close> being 3,
  prints the device information through it: the call ends in a null dereference. It
  returns no handle, the open-device count stays 0, and the request has no next state.
  The real-device path of the same function tests the pointer: when the SDK returns a
  null pointer for device index 0, \<open>Open\<close> exits with the user error "Could not connect
  to Rift device".
\<close>

theorem emulated_open_null_dereference:
  "reachable sdk_no_debug_device fresh
   \<and> runtime_ready sdk_no_debug_device fresh
   \<and> find_free_slot (oculusdevices fresh) 0 = 0
   \<and> ovrHmd_CreateDebug sdk_no_debug_device
        (sdk_calls (after_init sdk_no_debug_device fresh) @ [Call_ovrHmd_Detect]) = NULL
   \<and> fst (PSYCHOCULUSVROpen sdk_no_debug_device fresh (Some (- 1))) = SegFault
   \<and> returned (fst (PSYCHOCULUSVROpen sdk_no_debug_device fresh (Some (- 1)))) = None
   \<and> devicecount (snd (PSYCHOCULUSVROpen sdk_no_debug_device fresh (Some (- 1)))) = 0
   \<and> natives (snd (PSYCHOCULUSVROpen sdk_no_debug_device fresh (Some (- 1)))) 0 = NULL
   \<and> sdk_calls (snd (PSYCHOCULUSVROpen sdk_no_debug_device fresh (Some (- 1)))) =
       [Call_ovr_Initialize, Call_ovrHmd_Detect, Call_ovrHmd_Detect, Call_ovrHmd_CreateDebug]
   \<and> step sdk_no_debug_device (Open (Some (- 1))) fresh = None
   \<and> fst (PSYCHOCULUSVROpen sdk_no_real_device fresh (Some 0)) =
       ErrorExit PsychError_user
         ''Could not connect to Rift device with given 'deviceIndex'! [ovrHmd_Create() failed]''"
proof -
  have f: "find_free_slot (oculusdevices fresh) 0 = 0" by simp
  have f10: "find_free_slot (oculusdevices fresh) 0 < 10" by simp
  have o: "PSYCHOCULUSVROpen sdk_no_debug_device fresh (Some (- 1)) =
      (SegFault, slot_claimed sdk_no_debug_device fresh Call_ovrHmd_CreateDebug NULL)"
    using Open_debug [OF no_debug_ready f10 _ refl, of "Some (- 1)"] by simp
  have calls: "sdk_calls (slot_claimed sdk_no_debug_device fresh Call_ovrHmd_CreateDebug NULL) =
      [Call_ovr_Initialize, Call_ovrHmd_Detect, Call_ovrHmd_Detect, Call_ovrHmd_CreateDebug]"
    by (simp add: slot_claimed_fields(4) after_init_calls)
  have nat0: "natives (slot_claimed sdk_no_debug_device fresh Call_ovrHmd_CreateDebug NULL) 0 = NULL"
    by (simp add: slot_claimed_fields(1))
  have cnt: "devicecount (slot_claimed sdk_no_debug_device fresh Call_ovrHmd_CreateDebug NULL) = 0"
    by (simp add: slot_claimed_fields(2))
  have st: "step sdk_no_debug_device (Open (Some (- 1))) fresh = None"
    by (simp add: o survives_def)
  have real: "fst (PSYCHOCULUSVROpen sdk_no_real_device fresh (Some 0)) =
       ErrorExit PsychError_user
         ''Could not connect to Rift device with given 'deviceIndex'! [ovrHmd_Create() failed]''"
    using Open_real [OF no_real_device_fields(1) f10 _ _ refl refl, of "Some 0"]
    by simp
  show ?thesis
    unfolding o fst_conv snd_conv
    using reachable_fresh no_debug_ready [of fresh] f calls nat0 cnt st real
    by (simp add: returned_def)
qed

subsection \<open>The mesh loops\<close>

lemma vertex_loop_eq:
  "vertex_loop i n pv out =
     (if n - i \<le> length pv
      then Some (out @ concat (map (\<lambda>v. [x2 (ScreenPosNDC v), y2 (ScreenPosNDC v),
                                          TimeWarpFactor v, VignetteFactor v,
                                          x2 (TanEyeAnglesR v), - y2 (TanEyeAnglesR v),
                                          x2 (TanEyeAnglesG v), - y2 (TanEyeAnglesG v),
                                          x2 (TanEyeAnglesB v), - y2 (TanEyeAnglesB v)])
                               (take (n - i) pv)))
      else None)"
proof (induction i n pv out rule: vertex_loop.induct)
  case (1 i n pv out)
  show ?case
  proof (cases "i < n")
    case False
    then show ?thesis by (subst vertex_loop.simps) simp
  next
    case True
    then obtain m where m: "n - i = Suc m" "n - (i + 1) = m"
      by (cases "n - i") auto
    show ?thesis
    proof (cases pv)
      case Nil
      with True m show ?thesis by (subst vertex_loop.simps) simp
    next
      case (Cons v pv')
      from 1 [OF True Cons] True m Cons show ?thesis
        by (subst vertex_loop.simps) simp
    qed
  qed
qed

lemma index_loop_eq:
  "index_loop i n pidx out =
     (if n - i \<le> length pidx then Some (out @ map real (take (n - i) pidx)) else None)"
proof (induction i n pidx out rule: index_loop.induct)
  case (1 i n pidx out)
  show ?case
  proof (cases "i < n")
    case False
    then show ?thesis by (subst index_loop.simps) simp
  next
    case True
    then obtain m where m: "n - i = Suc m" "n - (i + 1) = m"
      by (cases "n - i") auto
    show ?thesis
    proof (cases pidx)
      case Nil
      with True m show ?thesis by (subst index_loop.simps) simp
    next
      case (Cons v pv')
      from 1 [OF True Cons] True m Cons show ?thesis
        by (subst index_loop.simps) simp
    qed
  qed
qed

lemma concat_tens_length:
  "(\<And>v. length (g v) = 10) \<Longrightarrow> length (concat (map g vs)) = 10 * length vs"
  by (induction vs) simp_all

lemma concat_tens_slice:
  "(\<And>v. length (g v) = 10) \<Longrightarrow> j < length vs \<Longrightarrow>
   take 10 (drop (10 * j) (concat (map g vs))) = g (vs ! j)"
proof (induction vs arbitrary: j)
  case Nil
  then show ?case by simp
next
  case (Cons v vs)
  show ?case
  proof (cases j)
    case 0
    with Cons.prems(1) [of v] show ?thesis by simp
  next
    case (Suc j')
    with Cons.prems have "j' < length vs" by simp
    from Cons.IH [OF Cons.prems(1) this] Cons.prems(1) [of v] Suc show ?thesis
      by simp
  qed
qed

lemma vertex_loop_layout:
  assumes "vertex_loop 0 n pv [] = Some cells"
  shows "n \<le> length pv" and "length cells = 10 * n"
    and "j < n \<Longrightarrow>
         take 10 (drop (10 * j) cells) =
           [x2 (ScreenPosNDC (pv ! j)), y2 (ScreenPosNDC (pv ! j)),
            TimeWarpFactor (pv ! j), VignetteFactor (pv ! j),
            x2 (TanEyeAnglesR (pv ! j)), - y2 (TanEyeAnglesR (pv ! j)),
            x2 (TanEyeAnglesG (pv ! j)), - y2 (TanEyeAnglesG (pv ! j)),
            x2 (TanEyeAnglesB (pv ! j)), - y2 (TanEyeAnglesB (pv ! j))]"
proof -
  let ?g = "\<lambda>v. [x2 (ScreenPosNDC v), y2 (ScreenPosNDC v), TimeWarpFactor v, VignetteFactor v,
                  x2 (TanEyeAnglesR v), - y2 (TanEyeAnglesR v),
                  x2 (TanEyeAnglesG v), - y2 (TanEyeAnglesG v),
                  x2 (TanEyeAnglesB v), - y2 (TanEyeAnglesB v)]"
  from assms have n: "n \<le> length pv" and c: "cells = concat (map ?g (take n pv))"
    by (simp_all add: vertex_loop_eq split: if_splits)
  show "n \<le> length pv" by (rule n)
  have len: "length (?g v) = 10" for v by simp
  show "length cells = 10 * n"
    unfolding c using concat_tens_length [of ?g "take n pv", OF len] n by simp
  assume j: "j < n"
  then have "j < length (take n pv)" using n by simp
  from concat_tens_slice [of ?g, OF len this] j
  show "take 10 (drop (10 * j) cells) = ?g (pv ! j)"
    unfolding c by simp
qed

subsection \<open>What GetFovTextureSize does with the mesh\<close>

lemma meshes_acquired_append [simp]:
  "meshes_acquired (a @ b) = meshes_acquired a @ meshes_acquired b"
  by (induction a rule: meshes_acquired.induct) simp_all

lemma meshes_released_append [simp]:
  "meshes_released (a @ b) = meshes_released a @ meshes_released b"
  by (induction a rule: meshes_released.induct) simp_all

lemma fov_outputs_mesh [simp]:
  "out_meshVertices (fov_outputs i e v ix s) = v"
  "out_meshIndices (fov_outputs i e v ix s) = ix"
  by (simp_all add: fov_outputs_def Let_def)

lemma fov_texture_and_desc_obs:
  "sdk_calls (fov_texture_and_desc k i e f x s) =
     sdk_calls s @
       [Call_ovrHmd_GetFovTextureSize (hmd (oculusdevices s i)) (eye_of_index e) f x,
        Call_ovrHmd_GetRenderDesc (hmd (oculusdevices s i)) (eye_of_index e) f]"
  "eyeDistortionMesh (oculusdevices (fov_texture_and_desc k i e f x s) j) =
     eyeDistortionMesh (oculusdevices s j)"
  by (simp_all add: fov_texture_and_desc_def Let_def)

lemma fov_create_mesh_obs:
  "sdk_calls (snd (fov_create_mesh k i e s)) =
     sdk_calls s @
       [Call_ovrHmd_CreateDistortionMesh (hmd (oculusdevices s i))
          (Eye (eyeRenderDesc (oculusdevices s i) e)) (Fov (eyeRenderDesc (oculusdevices s i) e)) 0
          (mesh_desc (fst (fov_create_mesh k i e s)))]"
  "eyeDistortionMesh (oculusdevices (snd (fov_create_mesh k i e s)) i) =
     (eyeDistortionMesh (oculusdevices s i))(e := mesh_desc (fst (fov_create_mesh k i e s)))"
  "j \<noteq> i \<Longrightarrow> oculusdevices (snd (fov_create_mesh k i e s)) j = oculusdevices s j"
  "\<exists>t p ey f. fst (fov_create_mesh k i e s) = ovrHmd_CreateDistortionMesh k t p ey f 0"
  by (simp_all add: fov_create_mesh_def Let_def) blast

lemma fov_uv_and_timewarp_obs:
  "meshes_acquired (sdk_calls (fov_uv_and_timewarp k i e s)) = meshes_acquired (sdk_calls s)"
  "meshes_released (sdk_calls (fov_uv_and_timewarp k i e s)) = meshes_released (sdk_calls s)"
  "length (sdk_calls (fov_uv_and_timewarp k i e s)) = length (sdk_calls s) + 3"
  "eyeDistortionMesh (oculusdevices (fov_uv_and_timewarp k i e s) j) =
     eyeDistortionMesh (oculusdevices s j)"
  by (simp_all add: fov_uv_and_timewarp_def Let_def)

text \<open>What a normal return of the body tells about the mesh.\<close>

lemma fov_body_return:
  assumes "fov_body k i e f x s = (Return out, s')"
  defines "r \<equiv> fst (fov_create_mesh k i (nat e) (fov_texture_and_desc k i e f x s))"
  shows "mesh_ok r"
    and "s' = fov_uv_and_timewarp k i e
                (snd (fov_create_mesh k i (nat e) (fov_texture_and_desc k i e f x s)))"
    and "vertex_loop 0 (VertexCount (mesh_desc r))
           (if pVertexData (mesh_desc r) = NULL then [] else vertex_buffer r) [] =
         Some (out_meshVertices out)"
    and "index_loop 0 (IndexCount (mesh_desc r))
           (if pIndexData (mesh_desc r) = NULL then [] else index_buffer r) [] =
         Some (out_meshIndices out)"
proof -
  let ?s1 = "fov_texture_and_desc k i e f x s"
  let ?s2 = "snd (fov_create_mesh k i (nat e) ?s1)"
  have m: "eyeDistortionMesh (oculusdevices ?s2 i) (nat e) = mesh_desc r"
    by (simp add: fov_create_mesh_obs(2) r_def)
  have "mesh_ok r
      \<and> s' = fov_uv_and_timewarp k i e ?s2
      \<and> vertex_loop 0 (VertexCount (mesh_desc r))
           (if pVertexData (mesh_desc r) = NULL then [] else vertex_buffer r) [] =
         Some (out_meshVertices out)
      \<and> index_loop 0 (IndexCount (mesh_desc r))
           (if pIndexData (mesh_desc r) = NULL then [] else index_buffer r) [] =
         Some (out_meshIndices out)"
    using assms(1) unfolding fov_body_def Let_def split_def m r_def [symmetric]
    by (auto split: if_splits option.splits)
  then show "mesh_ok r"
    and "s' = fov_uv_and_timewarp k i e ?s2"
    and "vertex_loop 0 (VertexCount (mesh_desc r))
           (if pVertexData (mesh_desc r) = NULL then [] else vertex_buffer r) [] =
         Some (out_meshVertices out)"
    and "index_loop 0 (IndexCount (mesh_desc r))
           (if pIndexData (mesh_desc r) = NULL then [] else index_buffer r) [] =
         Some (out_meshIndices out)"
    by simp_all
qed

lemma GetFov_return:
  assumes "PSYCHOCULUSVRGetFovTextureSize k s h e f x = (Return out, s')"
  shows "runtime_ready k s" and "is_open s h" and "e = 0 \<or> e = 1"
    and "\<exists>ofov ppd. fov_body k (nat (h - 1)) e ofov ppd (after_init k s) = (Return out, s')"
proof -
  show ready: "runtime_ready k s"
    using assms subfunctions_down(6) [of k s h e f x]
    by (cases "runtime_ready k s") (auto simp: PSYCHOCULUSVRGetFovTextureSize_def CheckInit_not_ready)
  show o: "is_open s h"
    using assms ready by (cases "is_open s h") (auto simp: GetFov_closed)
  have o': "PsychGetOculus (after_init k s) h False = Return (Some (nat (h - 1)))"
    by (rule GetOculus_open) (simp add: o)
  have "(e = 0 \<or> e = 1)
      \<and> (\<exists>ofov ppd. fov_body k (nat (h - 1)) e ofov ppd (after_init k s) = (Return out, s'))"
    using assms
    unfolding PSYCHOCULUSVRGetFovTextureSize_def CheckInit_ready [OF ready] andThen_simps o' Let_def
    by (simp split: if_splits) (rule conjI, linarith, blast)
  then show "e = 0 \<or> e = 1"
    and "\<exists>ofov ppd. fov_body k (nat (h - 1)) e ofov ppd (after_init k s) = (Return out, s')"
    by simp_all
qed

lemma returned_simps [simp]:
  "returned (Return v) = Some v" "returned (ErrorExit e m) = None" "returned SegFault = None"
  by (simp_all add: returned_def)

lemma GetFov_mesh_cells:
  assumes "PSYCHOCULUSVRGetFovTextureSize k s handle eyeIndex fov x = (Return out, s')"
  shows "\<exists>t p e f.
           mesh_ok (ovrHmd_CreateDistortionMesh k t p e f 0)
         \<and> eyeDistortionMesh (device_of s' handle) (nat eyeIndex) =
             mesh_desc (ovrHmd_CreateDistortionMesh k t p e f 0)
         \<and> length (out_meshVertices out) =
             10 * VertexCount (mesh_desc (ovrHmd_CreateDistortionMesh k t p e f 0))
         \<and> (\<forall>j<VertexCount (mesh_desc (ovrHmd_CreateDistortionMesh k t p e f 0)).
               take 10 (drop (10 * j) (out_meshVertices out)) =
                 [x2 (ScreenPosNDC (vertex_buffer (ovrHmd_CreateDistortionMesh k t p e f 0) ! j)),
                  y2 (ScreenPosNDC (vertex_buffer (ovrHmd_CreateDistortionMesh k t p e f 0) ! j)),
                  TimeWarpFactor (vertex_buffer (ovrHmd_CreateDistortionMesh k t p e f 0) ! j),
                  VignetteFactor (vertex_buffer (ovrHmd_CreateDistortionMesh k t p e f 0) ! j),
                  x2 (TanEyeAnglesR (vertex_buffer (ovrHmd_CreateDistortionMesh k t p e f 0) ! j)),
                  - y2 (TanEyeAnglesR (vertex_buffer (ovrHmd_CreateDistortionMesh k t p e f 0) ! j)),
                  x2 (TanEyeAnglesG (vertex_buffer (ovrHmd_CreateDistortionMesh k t p e f 0) ! j)),
                  - y2 (TanEyeAnglesG (vertex_buffer (ovrHmd_CreateDistortionMesh k t p e f 0) ! j)),
                  x2 (TanEyeAnglesB (vertex_buffer (ovrHmd_CreateDistortionMesh k t p e f 0) ! j)),
                  - y2 (TanEyeAnglesB (vertex_buffer (ovrHmd_CreateDistortionMesh k t p e f 0) ! j))])"
proof -
  from GetFov_return(4) [OF assms] obtain ofov ppd where
    b: "fov_body k (nat (handle - 1)) eyeIndex ofov ppd (after_init k s) = (Return out, s')"
    by blast
  let ?i = "nat (handle - 1)"
  let ?s1 = "fov_texture_and_desc k ?i eyeIndex ofov ppd (after_init k s)"
  define r where "r = fst (fov_create_mesh k ?i (nat eyeIndex) ?s1)"
  note ret = fov_body_return [OF b, folded r_def]
  from fov_create_mesh_obs(4) [of k ?i "nat eyeIndex" ?s1] obtain t p e f where
    r: "r = ovrHmd_CreateDistortionMesh k t p e f 0"
    unfolding r_def by blast
  have stored: "eyeDistortionMesh (device_of s' handle) (nat eyeIndex) = mesh_desc r"
    by (simp add: ret(2) device_of_def fov_uv_and_timewarp_obs(4) fov_create_mesh_obs(2) r_def)
  let ?buf = "if pVertexData (mesh_desc r) = NULL then [] else vertex_buffer r"
  note lay = vertex_loop_layout [OF ret(3)]
  have cells: "take 10 (drop (10 * j) (out_meshVertices out)) =
                 [x2 (ScreenPosNDC (vertex_buffer r ! j)), y2 (ScreenPosNDC (vertex_buffer r ! j)),
                  TimeWarpFactor (vertex_buffer r ! j), VignetteFactor (vertex_buffer r ! j),
                  x2 (TanEyeAnglesR (vertex_buffer r ! j)), - y2 (TanEyeAnglesR (vertex_buffer r ! j)),
                  x2 (TanEyeAnglesG (vertex_buffer r ! j)), - y2 (TanEyeAnglesG (vertex_buffer r ! j)),
                  x2 (TanEyeAnglesB (vertex_buffer r ! j)), - y2 (TanEyeAnglesB (vertex_buffer r ! j))]"
    if "j < VertexCount (mesh_desc r)" for j
  proof -
    from that lay(1) have "pVertexData (mesh_desc r) \<noteq> NULL" by (auto split: if_splits)
    then have "?buf = vertex_buffer r" by simp
    with lay(3) [OF that] show ?thesis by simp
  qed
  from ret(1) stored lay(2) cells show ?thesis
    unfolding r by blast
qed

text \<open>
  Claim C6, as the code has it. When \<open>GetFovTextureSize\<close> returns, the mesh it got from
  the SDK is stored in the record, the flattened vertex output has ten cells for each of
  its vertices, and the cells of vertex \<open>j\<close> are: screen position x and y, time-warp
  factor, vignette factor, then for red, green and blue the horizontal tangent unchanged
  and the vertical tangent negated. The red channel is negated like the other two.
\<close>

theorem mesh_vertex_layout:
  assumes "PSYCHOCULUSVRGetFovTextureSize k s handle eyeIndex fov x = (Return out, s')"
  shows "\<exists>t p e f.
           mesh_ok (ovrHmd_CreateDistortionMesh k t p e f 0)
         \<and> eyeDistortionMesh (device_of s' handle) (nat eyeIndex) =
             mesh_desc (ovrHmd_CreateDistortionMesh k t p e f 0)
         \<and> length (out_meshVertices out) =
             10 * VertexCount (mesh_desc (ovrHmd_CreateDistortionMesh k t p e f 0))
         \<and> (\<forall>j<VertexCount (mesh_desc (ovrHmd_CreateDistortionMesh k t p e f 0)).
               take 10 (drop (10 * j) (out_meshVertices out)) =
                 [x2 (ScreenPosNDC (vertex_buffer (ovrHmd_CreateDistortionMesh k t p e f 0) ! j)),
                  y2 (ScreenPosNDC (vertex_buffer (ovrHmd_CreateDistortionMesh k t p e f 0) ! j)),
                  TimeWarpFactor (vertex_buffer (ovrHmd_CreateDistortionMesh k t p e f 0) ! j),
                  VignetteFactor (vertex_buffer (ovrHmd_CreateDistortionMesh k t p e f 0) ! j),
                  x2 (TanEyeAnglesR (vertex_buffer (ovrHmd_CreateDistortionMesh k t p e f 0) ! j)),
                  - y2 (TanEyeAnglesR (vertex_buffer (ovrHmd_CreateDistortionMesh k t p e f 0) ! j)),
                  x2 (TanEyeAnglesG (vertex_buffer (ovrHmd_CreateDistortionMesh k t p e f 0) ! j)),
                  - y2 (TanEyeAnglesG (vertex_buffer (ovrHmd_CreateDistortionMesh k t p e f 0) ! j)),
                  x2 (TanEyeAnglesB (vertex_buffer (ovrHmd_CreateDistortionMesh k t p e f 0) ! j)),
                  - y2 (TanEyeAnglesB (vertex_buffer (ovrHmd_CreateDistortionMesh k t p e f 0) ! j))])"
  using assms by (rule GetFov_mesh_cells)

lemma emulated_mesh [simp]:
  "ovrHmd_CreateDistortionMesh sdk_emulated t p e f c =
     \<lparr>mesh_ok = True,
      mesh_desc = \<lparr>pVertexData = Suc (length t), pIndexData = Suc (Suc (length t)),
                   VertexCount = 3, IndexCount = 3\<rparr>,
      vertex_buffer = [sample_vertex, sample_vertex, sample_vertex],
      index_buffer = [0, 1, 2]\<rparr>"
  by (simp add: sdk_emulated_def)

lemma emulated_GetFov_returns:
  assumes "is_open s h" "e = 0 \<or> e = 1"
  shows "\<exists>out s'. PSYCHOCULUSVRGetFovTextureSize sdk_emulated s h e None None = (Return out, s')"
proof -
  have o': "PsychGetOculus (after_init sdk_emulated s) h False = Return (Some (nat (h - 1)))"
    by (rule GetOculus_open) (simp add: assms(1))
  have e: "\<not> (e < 0 \<or> e > 1)" using assms(2) by auto
  show ?thesis
    unfolding PSYCHOCULUSVRGetFovTextureSize_def CheckInit_ready [OF emulated_ready] andThen_simps
      o' Let_def
    using e
    by (simp add: fov_body_def Let_def split_def fov_create_mesh_def vertex_loop_eq index_loop_eq)
qed

lemma emulated_sample_cells:
  "[x2 (ScreenPosNDC sample_vertex), y2 (ScreenPosNDC sample_vertex),
    TimeWarpFactor sample_vertex, VignetteFactor sample_vertex,
    x2 (TanEyeAnglesR sample_vertex), - y2 (TanEyeAnglesR sample_vertex),
    x2 (TanEyeAnglesG sample_vertex), - y2 (TanEyeAnglesG sample_vertex),
    x2 (TanEyeAnglesB sample_vertex), - y2 (TanEyeAnglesB sample_vertex)] =
   [1 / 2, - 1 / 2, 1 / 4, 1, 2, - 3, 4, - 5, 6, - 7]"
  by (simp add: sample_vertex_def)

theorem mesh_vertex_layout_witness:
  "(1::nat) < 3
   \<and> map_option length
       (map_option out_meshVertices
          (returned (fst (PSYCHOCULUSVRGetFovTextureSize sdk_emulated one_open 1 0 None None)))) =
     Some 30
   \<and> map_option (\<lambda>cells. take 10 (drop (10 * 1) cells))
       (map_option out_meshVertices
          (returned (fst (PSYCHOCULUSVRGetFovTextureSize sdk_emulated one_open 1 0 None None)))) =
     Some [1 / 2, - 1 / 2, 1 / 4, 1, 2, - 3, 4, - 5, 6, - 7]"
proof -
  from emulated_GetFov_returns [OF one_open_fields(1), of 0] obtain out s' where
    o: "PSYCHOCULUSVRGetFovTextureSize sdk_emulated one_open 1 0 None None = (Return out, s')"
    by auto
  from mesh_vertex_layout [OF o] obtain t p e f where
    len: "length (out_meshVertices out) =
            10 * VertexCount (mesh_desc (ovrHmd_CreateDistortionMesh sdk_emulated t p e f 0))"
    and cells: "\<forall>j<VertexCount (mesh_desc (ovrHmd_CreateDistortionMesh sdk_emulated t p e f 0)).
       take 10 (drop (10 * j) (out_meshVertices out)) =
         [x2 (ScreenPosNDC (vertex_buffer (ovrHmd_CreateDistortionMesh sdk_emulated t p e f 0) ! j)),
          y2 (ScreenPosNDC (vertex_buffer (ovrHmd_CreateDistortionMesh sdk_emulated t p e f 0) ! j)),
          TimeWarpFactor (vertex_buffer (ovrHmd_CreateDistortionMesh sdk_emulated t p e f 0) ! j),
          VignetteFactor (vertex_buffer (ovrHmd_CreateDistortionMesh sdk_emulated t p e f 0) ! j),
          x2 (TanEyeAnglesR (vertex_buffer (ovrHmd_CreateDistortionMesh sdk_emulated t p e f 0) ! j)),
          - y2 (TanEyeAnglesR (vertex_buffer (ovrHmd_CreateDistortionMesh sdk_emulated t p e f 0) ! j)),
          x2 (TanEyeAnglesG (vertex_buffer (ovrHmd_CreateDistortionMesh sdk_emulated t p e f 0) ! j)),
          - y2 (TanEyeAnglesG (vertex_buffer (ovrHmd_CreateDistortionMesh sdk_emulated t p e f 0) ! j)),
          x2 (TanEyeAnglesB (vertex_buffer (ovrHmd_CreateDistortionMesh sdk_emulated t p e f 0) ! j)),
          - y2 (TanEyeAnglesB (vertex_buffer (ovrHmd_CreateDistortionMesh sdk_emulated t p e f 0) ! j))]"
    by blast
  from len have len': "length (out_meshVertices out) = 30" by simp
  have "(1::nat) < VertexCount (mesh_desc (ovrHmd_CreateDistortionMesh sdk_emulated t p e f 0))"
    by simp
  with cells have "take 10 (drop (10 * 1) (out_meshVertices out)) =
      [1 / 2, - 1 / 2, 1 / 4, 1, 2, - 3, 4, - 5, 6, - 7]"
    unfolding emulated_sample_cells [symmetric] by (auto dest!: spec [of _ 1])
  with len' show ?thesis by (simp add: o)
qed

text \<open>
  Claim C6 as stated fails on the red channel: the SDK's vertex has a red vertical
  tangent of 3, and the sixth cell of the vertex in the output is -3, not 3.
\<close>

theorem mesh_vertex_layout_counterexample:
  "map_option (take 10)
     (map_option out_meshVertices
        (returned (fst (PSYCHOCULUSVRGetFovTextureSize sdk_emulated one_open 1 0 None None)))) =
     Some [1 / 2, - 1 / 2, 1 / 4, 1, 2, - 3, 4, - 5, 6, - 7]
   \<and> y2 (TanEyeAnglesR sample_vertex) = 3
   \<and> vertex_buffer (ovrHmd_CreateDistortionMesh sdk_emulated [] 4 ovrEye_Left
                       \<lparr>UpTan = 1, DownTan = 1, LeftTan = 1, RightTan = 1\<rparr> 0) ! 0 =
       sample_vertex"
proof -
  from emulated_GetFov_returns [OF one_open_fields(1), of 0] obtain out s' where
    o: "PSYCHOCULUSVRGetFovTextureSize sdk_emulated one_open 1 0 None None = (Return out, s')"
    by auto
  from GetFov_mesh_cells [OF o] obtain t p e f where
    cells: "\<forall>j<VertexCount (mesh_desc (ovrHmd_CreateDistortionMesh sdk_emulated t p e f 0)).
       take 10 (drop (10 * j) (out_meshVertices out)) =
         [x2 (ScreenPosNDC (vertex_buffer (ovrHmd_CreateDistortionMesh sdk_emulated t p e f 0) ! j)),
          y2 (ScreenPosNDC (vertex_buffer (ovrHmd_CreateDistortionMesh sdk_emulated t p e f 0) ! j)),
          TimeWarpFactor (vertex_buffer (ovrHmd_CreateDistortionMesh sdk_emulated t p e f 0) ! j),
          VignetteFactor (vertex_buffer (ovrHmd_CreateDistortionMesh sdk_emulated t p e f 0) ! j),
          x2 (TanEyeAnglesR (vertex_buffer (ovrHmd_CreateDistortionMesh sdk_emulated t p e f 0) ! j)),
          - y2 (TanEyeAnglesR (vertex_buffer (ovrHmd_CreateDistortionMesh sdk_emulated t p e f 0) ! j)),
          x2 (TanEyeAnglesG (vertex_buffer (ovrHmd_CreateDistortionMesh sdk_emulated t p e f 0) ! j)),
          - y2 (TanEyeAnglesG (vertex_buffer (ovrHmd_CreateDistortionMesh sdk_emulated t p e f 0) ! j)),
          x2 (TanEyeAnglesB (vertex_buffer (ovrHmd_CreateDistortionMesh sdk_emulated t p e f 0) ! j)),
          - y2 (TanEyeAnglesB (vertex_buffer (ovrHmd_CreateDistortionMesh sdk_emulated t p e f 0) ! j))]"
    by blast
  have "(0::nat) < VertexCount (mesh_desc (ovrHmd_CreateDistortionMesh sdk_emulated t p e f 0))"
    by simp
  with cells have "take 10 (out_meshVertices out) = [1 / 2, - 1 / 2, 1 / 4, 1, 2, - 3, 4, - 5, 6, - 7]"
    unfolding emulated_sample_cells [symmetric] by (auto dest!: spec [of _ 0])
  then show ?thesis by (simp add: o sample_vertex_def)
qed

subsection \<open>Acquiring and releasing meshes\<close>

lemma after_init_meshes [simp]:
  "meshes_acquired (sdk_calls (after_init k s)) = meshes_acquired (sdk_calls s)"
  "meshes_released (sdk_calls (after_init k s)) = meshes_released (sdk_calls s)"
  by (simp_all add: after_init_calls)

text \<open>\<open>GetFovTextureSize\<close> hands no mesh back to the SDK, however it ends.\<close>

lemma fov_body_releases_nothing:
  assumes "fov_body k i e f x s = (r, s')"
  shows "meshes_released (sdk_calls s') = meshes_released (sdk_calls s)"
proof -
  let ?s1 = "fov_texture_and_desc k i e f x s"
  let ?s2 = "snd (fov_create_mesh k i (nat e) ?s1)"
  have 2: "meshes_released (sdk_calls ?s2) = meshes_released (sdk_calls s)"
    by (simp add: fov_create_mesh_obs(1) fov_texture_and_desc_obs(1))
  have "s' = ?s2 \<or> s' = fov_uv_and_timewarp k i e ?s2"
    using assms unfolding fov_body_def Let_def
    by (auto simp: split_def split: if_splits option.splits)
  with 2 show ?thesis by (auto simp: fov_uv_and_timewarp_obs(2))
qed

lemma GetFov_releases_nothing:
  "meshes_released (sdk_calls (snd (PSYCHOCULUSVRGetFovTextureSize k s h e f x))) =
     meshes_released (sdk_calls s)"
proof (cases "runtime_ready k s")
  case False
  from subfunctions_down(6) [OF this] show ?thesis by simp
next
  case True
  obtain r s' where o: "PSYCHOCULUSVRGetFovTextureSize k s h e f x = (r, s')"
    by (cases "PSYCHOCULUSVRGetFovTextureSize k s h e f x")
  show ?thesis
  proof (cases "is_open s h")
    case False
    with True show ?thesis by (simp add: GetFov_closed)
  next
    case op: True
    have "s' = after_init k s \<or> (\<exists>i ofov ppd. fov_body k i e ofov ppd (after_init k s) = (r, s'))"
      using o
      by (auto simp: PSYCHOCULUSVRGetFovTextureSize_def CheckInit_ready [OF True]
            GetOculus_open [OF op [folded is_open_after_init [of k s h]]] Let_def
          split: if_splits)
    then show ?thesis
      by (auto simp: o dest: fov_body_releases_nothing)
  qed
qed

text \<open>One \<open>GetFovTextureSize\<close> on the granting SDK, for the left eye.\<close>

lemma emulated_create_mesh:
  "mesh_desc (fst (fov_create_mesh sdk_emulated i e s)) =
     \<lparr>pVertexData = Suc (length (sdk_calls s)), pIndexData = Suc (Suc (length (sdk_calls s))),
      VertexCount = 3, IndexCount = 3\<rparr>"
  by (simp add: fov_create_mesh_def Let_def)

lemma emulated_GetFov_step:
  assumes "is_open s h" "initialized s"
  defines "s' \<equiv> snd (PSYCHOCULUSVRGetFovTextureSize sdk_emulated s h 0 None None)"
  shows "lifecycle_unchanged s s'"
    and "length (sdk_calls s') = length (sdk_calls s) + 6"
    and "meshes_acquired (sdk_calls s') = meshes_acquired (sdk_calls s) @ [length (sdk_calls s) + 3]"
    and "meshes_released (sdk_calls s') = meshes_released (sdk_calls s)"
    and "pVertexData (eyeDistortionMesh (device_of s' h) 0) = length (sdk_calls s) + 3"
    and "eyeDistortionMesh (device_of s' h) 1 = eyeDistortionMesh (device_of s h) 1"
proof -
  from emulated_GetFov_returns [OF assms(1), of 0] obtain out s0 where
    o: "PSYCHOCULUSVRGetFovTextureSize sdk_emulated s h 0 None None = (Return out, s0)"
    by auto
  then have s': "s' = s0" by (simp add: s'_def)
  from GetFov_return(4) [OF o] assms(2) obtain ofov ppd where
    b: "fov_body sdk_emulated (nat (h - 1)) 0 ofov ppd s = (Return out, s0)"
    by auto
  let ?i = "nat (h - 1)"
  let ?s1 = "fov_texture_and_desc sdk_emulated ?i 0 ofov ppd s"
  let ?s2 = "snd (fov_create_mesh sdk_emulated ?i (nat 0) ?s1)"
  note ret = fov_body_return(2) [OF b]
  note r = emulated_create_mesh
  show "lifecycle_unchanged s s'"
    using GetFov_lifecycle [OF emulated_ready o] assms(2) by (simp add: s')
  show "length (sdk_calls s') = length (sdk_calls s) + 6"
    by (simp add: s' ret fov_uv_and_timewarp_obs(3) fov_create_mesh_obs(1)
          fov_texture_and_desc_obs(1))
  show "meshes_acquired (sdk_calls s') = meshes_acquired (sdk_calls s) @ [length (sdk_calls s) + 3]"
    by (simp add: s' ret fov_uv_and_timewarp_obs(1) fov_create_mesh_obs(1) r
          fov_texture_and_desc_obs(1))
  show "meshes_released (sdk_calls s') = meshes_released (sdk_calls s)"
    unfolding s'_def by (rule GetFov_releases_nothing)
  show "pVertexData (eyeDistortionMesh (device_of s' h) 0) = length (sdk_calls s) + 3"
    by (simp add: s' ret device_of_def fov_uv_and_timewarp_obs(4) fov_create_mesh_obs(2) r
          fov_texture_and_desc_obs(1))
  show "eyeDistortionMesh (device_of s' h) 1 = eyeDistortionMesh (device_of s h) 1"
    by (simp add: s' ret device_of_def fov_uv_and_timewarp_obs(4) fov_create_mesh_obs(2)
          fov_texture_and_desc_obs(2))
qed

text \<open>The SDK calls of a close of an open device that is not tracking.\<close>

lemma destroy_mesh_obs:
  "sdk_calls (destroy_mesh k i e s) =
     sdk_calls s @ [Call_ovrHmd_DestroyDistortionMesh (eyeDistortionMesh (oculusdevices s i) e)]"
  "e' \<noteq> e \<Longrightarrow> eyeDistortionMesh (oculusdevices (destroy_mesh k i e s) i) e' =
     eyeDistortionMesh (oculusdevices s i) e'"
  by (simp_all add: destroy_mesh_def Let_def)

lemma Close_idle_calls:
  assumes "is_open s h" "\<not> isTracking (device_of s h)"
  shows "sdk_calls (snd (PsychOculusClose k s h)) =
           sdk_calls s
           @ (if pVertexData (eyeDistortionMesh (device_of s h) 0) \<noteq> NULL
              then [Call_ovrHmd_DestroyDistortionMesh (eyeDistortionMesh (device_of s h) 0)] else [])
           @ (if pVertexData (eyeDistortionMesh (device_of s h) 1) \<noteq> NULL
              then [Call_ovrHmd_DestroyDistortionMesh (eyeDistortionMesh (device_of s h) 1)] else [])
           @ [Call_ovrHmd_Destroy (hmd (device_of s h))]"
  by (simp add: Close_open [OF assms(1)] Stop_idle [of s h k, OF disjI2 [OF assms(2)]] Let_def
        release_mesh_def destroy_mesh_obs device_of_def)

text \<open>
  Claim C7 on the code: the left-eye mesh of one device is computed twice and the device
  is closed. The SDK handed out two vertex buffers, at 7 and at 13; only the one at 13
  was handed back. The second \<open>GetFovTextureSize\<close> overwrote the descriptor that held
  the buffer at 7 without releasing it.
\<close>

theorem mesh_overwritten_without_release:
  "meshes_acquired (sdk_calls mesh_once) = [7]
   \<and> meshes_released (sdk_calls mesh_once) = []
   \<and> pVertexData (eyeDistortionMesh (device_of mesh_once 1) 0) = 7
   \<and> meshes_acquired (sdk_calls mesh_twice) = [7, 13]
   \<and> meshes_released (sdk_calls mesh_twice) = []
   \<and> pVertexData (eyeDistortionMesh (device_of mesh_twice 1) 0) = 13
   \<and> fst (PSYCHOCULUSVRClose sdk_emulated mesh_twice (Some 1)) = Return ()
   \<and> meshes_acquired (sdk_calls mesh_twice_closed) = [7, 13]
   \<and> meshes_released (sdk_calls mesh_twice_closed) = [13]"
proof -
  note one = one_open_fields
  note a = emulated_GetFov_step [OF one(1,2), folded mesh_once_def]
  have open1: "is_open mesh_once 1" "initialized mesh_once"
    using a(1) one(1,2) by (simp_all add: lifecycle_unchanged_open, simp add: lifecycle_unchanged_def)
  note b = emulated_GetFov_step [OF open1, folded mesh_twice_def]
  have open2: "is_open mesh_twice 1" "initialized mesh_twice"
    using b(1) open1 by (simp_all add: lifecycle_unchanged_open, simp add: lifecycle_unchanged_def)
  have idle2: "\<not> isTracking (device_of mesh_twice 1)"
    using a(1) b(1) one(3) by (simp add: lifecycle_unchanged_def device_of_def)
  have eye1: "eyeDistortionMesh (device_of mesh_twice 1) 1 = zero_ovrDistortionMesh"
  proof -
    have "eyeDistortionMesh (device_of one_open 1) 1 = zero_ovrDistortionMesh"
      by (simp add: one_open_def one_open_eq device_of_def
            slot_claimed_fields(7) [where s = fresh, simplified] zero_PsychOculusDevice_def)
    with a(6) b(6) show ?thesis by simp
  qed
  have acq1: "meshes_acquired (sdk_calls mesh_once) = [7]"
    and rel1: "meshes_released (sdk_calls mesh_once) = []"
    and p1: "pVertexData (eyeDistortionMesh (device_of mesh_once 1) 0) = 7"
    and len1: "length (sdk_calls mesh_once) = 10"
    using a(2,3,4,5) by (simp_all add: one(7))
  have acq2: "meshes_acquired (sdk_calls mesh_twice) = [7, 13]"
    and rel2: "meshes_released (sdk_calls mesh_twice) = []"
    and p2: "pVertexData (eyeDistortionMesh (device_of mesh_twice 1) 0) = 13"
    using b(3,4,5) by (simp_all add: acq1 rel1 len1)
  have c: "PSYCHOCULUSVRClose sdk_emulated mesh_twice (Some 1) =
      PsychOculusClose sdk_emulated mesh_twice 1"
    by (simp add: Close_ready open2(2))
  have ret: "fst (PSYCHOCULUSVRClose sdk_emulated mesh_twice (Some 1)) = Return ()"
    unfolding c by (rule Close_accepted) simp
  have calls: "sdk_calls mesh_twice_closed =
      sdk_calls mesh_twice
        @ [Call_ovrHmd_DestroyDistortionMesh (eyeDistortionMesh (device_of mesh_twice 1) 0),
           Call_ovrHmd_Destroy (hmd (device_of mesh_twice 1))]"
  proof -
    have e1: "pVertexData (eyeDistortionMesh (device_of mesh_twice 1) (Suc 0)) = NULL"
      using eye1 by (simp add: zero_ovrDistortionMesh_def)
    show ?thesis
      unfolding mesh_twice_closed_def c
      by (simp add: Close_idle_calls [OF open2(1) idle2] p2 e1)
  qed
  have acq3: "meshes_acquired (sdk_calls mesh_twice_closed) = [7, 13]"
    and rel3: "meshes_released (sdk_calls mesh_twice_closed) = [13]"
    by (simp_all add: calls acq2 rel2 p2)
  from acq1 rel1 p1 acq2 rel2 p2 ret acq3 rel3 show ?thesis by simp
qed

end
